theory Spec2Isabelle
  imports Complex_Main "HOL-Library.Log_Nat"
begin

section \<open>JavaScript numbers\<close>

text \<open>
  A JavaScript number is an IEEE 754 binary64 value. The finite non-zero values and
  \<open>+0\<close> are \<open>Fin q\<close> for the rational \<open>q\<close> they denote; \<open>-0\<close>, the two infinities
  and NaN are constructors of their own.
\<close>

datatype jsnum = Fin rat | NegZero | PosInf | NegInf | NaN

definition inf_of_sign :: "bool \<Rightarrow> jsnum" where
  "inf_of_sign neg = (if neg then NegInf else PosInf)"

definition zero_of_sign :: "bool \<Rightarrow> jsnum" where
  "zero_of_sign neg = (if neg then NegZero else Fin 0)"

fun is_negative :: "jsnum \<Rightarrow> bool" where
  "is_negative (Fin q) = (q < 0)"
| "is_negative NegZero = True"
| "is_negative PosInf = False"
| "is_negative NegInf = True"
| "is_negative NaN = False"

fun is_zero :: "jsnum \<Rightarrow> bool" where
  "is_zero (Fin q) = (q = 0)"
| "is_zero NegZero = True"
| "is_zero _ = False"

fun is_infinite :: "jsnum \<Rightarrow> bool" where
  "is_infinite PosInf = True"
| "is_infinite NegInf = True"
| "is_infinite _ = False"

text \<open>The rational a finite number denotes (\<open>-0\<close> denotes 0); nothing for the rest.\<close>

fun num_value :: "jsnum \<Rightarrow> rat option" where
  "num_value (Fin q) = Some q"
| "num_value NegZero = Some 0"
| "num_value _ = None"

text \<open>\<open>ilog2 m\<close> is the binary exponent of a positive rational: \<open>2^e \<le> m < 2^(e+1)\<close>.\<close>

definition ilog2 :: "rat \<Rightarrow> int" where
  "ilog2 m = (let (p, q) = quotient_of m; k = bitlen p - bitlen q
              in if 2 powi k \<le> m then k else k - 1)"

text \<open>Rounding to the nearest integer, ties to the even one.\<close>

definition round_half_even :: "rat \<Rightarrow> int" where
  "round_half_even x = (let f = \<lfloor>x\<rfloor>; d = x - of_int f
     in if d < 1/2 then f else if 1/2 < d then f + 1 else if even f then f else f + 1)"

text \<open>
  \<open>fl q\<close> rounds the exact result \<open>q\<close> of an arithmetic operation to binary64, to nearest
  with ties to even: 53 significant bits, least exponent \<open>-1074\<close> (subnormals), overflow
  to an infinity, underflow to a signed zero.
\<close>

definition fl :: "rat \<Rightarrow> jsnum" where
  "fl q = (if q = 0 then Fin 0
     else let m = \<bar>q\<bar>;
              e = max (ilog2 m - 52) (- 1074);
              r = of_int (round_half_even (m / 2 powi e)) * 2 powi e
          in if 2 powi 1024 \<le> r then inf_of_sign (q < 0)
             else if r = 0 then zero_of_sign (q < 0)
             else Fin (if q < 0 then - r else r))"

text \<open>The operator \<open>/\<close> on numbers.\<close>

fun js_div :: "jsnum \<Rightarrow> jsnum \<Rightarrow> jsnum" where
  "js_div NaN _ = NaN"
| "js_div _ NaN = NaN"
| "js_div x y =
     (let neg = (is_negative x \<noteq> is_negative y)
      in if is_infinite x then (if is_infinite y then NaN else inf_of_sign neg)
         else if is_infinite y then zero_of_sign neg
         else if is_zero y then (if is_zero x then NaN else inf_of_sign neg)
         else if is_zero x then zero_of_sign neg
         else (case (x, y) of (Fin a, Fin b) \<Rightarrow> fl (a / b) | _ \<Rightarrow> NaN))"

text \<open>The operator \<open>*\<close> on numbers.\<close>

fun js_mul :: "jsnum \<Rightarrow> jsnum \<Rightarrow> jsnum" where
  "js_mul NaN _ = NaN"
| "js_mul _ NaN = NaN"
| "js_mul x y =
     (let neg = (is_negative x \<noteq> is_negative y)
      in if is_infinite x \<or> is_infinite y
         then (if is_zero x \<or> is_zero y then NaN else inf_of_sign neg)
         else if is_zero x \<or> is_zero y then zero_of_sign neg
         else (case (x, y) of (Fin a, Fin b) \<Rightarrow> fl (a * b) | _ \<Rightarrow> NaN))"

text \<open>\<open>Math.round\<close>: the nearest integer, ties towards \<open>+\<infinity>\<close>; the sign of a zero result
  is that of the argument.\<close>

fun Math_round :: "jsnum \<Rightarrow> jsnum" where
  "Math_round (Fin q) = (if round q = 0 \<and> q < 0 then NegZero else Fin (of_int (round q)))"
| "Math_round x = x"

section \<open>JavaScript values and errors\<close>

text \<open>
  Values that come out of \<open>JSON.parse\<close> (response bodies, JSON columns). \<open>undefined\<close> is
  not a JSON value: an expression that may be \<open>undefined\<close> has type \<open>json option\<close>, and
  \<open>None\<close> is \<open>undefined\<close>. An object is the list of its own properties; a property is
  looked up by its first entry. Strings are byte strings (UTF-8), so indexing a string
  agrees with JavaScript on ASCII text.
\<close>

datatype json =
    JNull
  | JBool bool
  | JNum jsnum
  | JStr string
  | JArr "json list"
  | JObj "(string \<times> json) list"

text \<open>
  What the code throws or rejects with. \<open>Error msg\<close> is \<open>new Error(msg)\<close>. A \<open>TypeError\<close>
  carries the property that was read from \<open>undefined\<close> or \<open>null\<close>, or \<open>toString\<close> when
  an object could not be converted to a string (the engine words the message). The
  other three come from outside: a body that is not JSON, a network failure of
  \<open>fetch\<close>, a failure of the datastore.
\<close>

datatype js_error =
    Error string
  | TypeError string
  | SyntaxError string
  | FetchError string
  | DatabaseError string

text \<open>A canonical array index: \<open>0\<close>, or decimal digits with no leading zero.\<close>

definition is_digit :: "char \<Rightarrow> bool" where
  "is_digit c = (48 \<le> (of_char c :: nat) \<and> (of_char c :: nat) \<le> 57)"

definition digits_value :: "string \<Rightarrow> nat" where
  "digits_value ds = foldl (\<lambda>n c. 10 * n + (of_char c - 48)) 0 ds"

definition array_index :: "string \<Rightarrow> nat option" where
  "array_index k =
     (if k = [] \<or> \<not> list_all is_digit k then None
      else if hd k = CHR ''0'' \<and> tl k \<noteq> [] then None
      else Some (digits_value k))"

text \<open>
  \<open>v[k]\<close> for a value \<open>v\<close> other than \<open>undefined\<close> and \<open>null\<close>: own properties, array and
  string indices and \<open>length\<close>. Inherited methods are not properties the code reads.
\<close>

fun js_prop :: "json \<Rightarrow> string \<Rightarrow> json option" where
  "js_prop (JObj kvs) k = map_of kvs k"
| "js_prop (JArr xs) k =
     (case array_index k of
        Some i \<Rightarrow> (if i < length xs then Some (xs ! i) else None)
      | None \<Rightarrow> (if k = ''length'' then Some (JNum (Fin (of_nat (length xs)))) else None))"
| "js_prop (JStr s) k =
     (case array_index k of
        Some i \<Rightarrow> (if i < length s then Some (JStr [s ! i]) else None)
      | None \<Rightarrow> (if k = ''length'' then Some (JNum (Fin (of_nat (length s)))) else None))"
| "js_prop _ k = None"

text \<open>\<open>v.k\<close> where \<open>v\<close> may be \<open>undefined\<close> or \<open>null\<close>: then the read throws.\<close>

fun js_member :: "json option \<Rightarrow> string \<Rightarrow> js_error + json option" where
  "js_member None k = Inl (TypeError k)"
| "js_member (Some JNull) k = Inl (TypeError k)"
| "js_member (Some v) k = Inr (js_prop v k)"

text \<open>\<open>v?.k\<close>.\<close>

fun js_optional_member :: "json option \<Rightarrow> string \<Rightarrow> json option" where
  "js_optional_member None k = None"
| "js_optional_member (Some JNull) k = None"
| "js_optional_member (Some v) k = js_prop v k"

text \<open>Truthiness, as \<open>!v\<close> tests it.\<close>

fun truthy :: "json option \<Rightarrow> bool" where
  "truthy None = False"
| "truthy (Some JNull) = False"
| "truthy (Some (JBool b)) = b"
| "truthy (Some (JNum n)) = (\<not> is_zero n \<and> n \<noteq> NaN)"
| "truthy (Some (JStr s)) = (s \<noteq> [])"
| "truthy (Some _) = True"

text \<open>
  \<open>String(v)\<close>, as a template literal and \<open>parseFloat\<close> apply it. The digits of a number
  are the platform's \<open>Number.prototype.toString\<close>, a parameter. An array is the join
  of its elements, \<open>null\<close> counting as the empty string. An object is converted by its
  \<open>toString\<close>: the inherited one gives \<open>[object Object]\<close>; an own property \<open>toString\<close>
  hides it, and since no parsed value is a function (and the inherited \<open>valueOf\<close>
  returns the object), the conversion then throws a \<open>TypeError\<close>. The first element of an
  array that throws ends the join.
\<close>

fun js_to_string :: "(jsnum \<Rightarrow> string) \<Rightarrow> json \<Rightarrow> js_error + string"
  and js_join :: "(jsnum \<Rightarrow> string) \<Rightarrow> json list \<Rightarrow> js_error + string" where
  "js_to_string ns JNull = Inr ''null''"
| "js_to_string ns (JBool b) = Inr (if b then ''true'' else ''false'')"
| "js_to_string ns (JNum n) = Inr (ns n)"
| "js_to_string ns (JStr s) = Inr s"
| "js_to_string ns (JArr xs) = js_join ns xs"
| "js_to_string ns (JObj kvs) =
     (if map_of kvs ''toString'' \<noteq> None then Inl (TypeError ''toString'')
      else Inr ''[object Object]'')"
| "js_join ns [] = Inr []"
| "js_join ns [x] = (if x = JNull then Inr [] else js_to_string ns x)"
| "js_join ns (x # y # ys) =
     (case (if x = JNull then Inr [] else js_to_string ns x) of
        Inl e \<Rightarrow> Inl e
      | Inr first \<Rightarrow>
          (case js_join ns (y # ys) of
             Inl e \<Rightarrow> Inl e
           | Inr rest \<Rightarrow> Inr (first @ '','' @ rest)))"

text \<open>\<open>`${v}`\<close>, where \<open>v\<close> may be \<open>undefined\<close>.\<close>

fun js_template :: "(jsnum \<Rightarrow> string) \<Rightarrow> json option \<Rightarrow> js_error + string" where
  "js_template ns None = Inr ''undefined''"
| "js_template ns (Some v) = js_to_string ns v"

subsection \<open>lodash \<open>get\<close>\<close>

text \<open>
  \<open>get(object, path, defaultValue)\<close> for a path string without brackets. The path is one
  key when it has no dot or when the object has a property of that very name, and is
  split at the dots otherwise. The walk stops at \<open>undefined\<close> or \<open>null\<close>; a walk that
  does not consume the whole path, or ends in \<open>undefined\<close>, gives the default.
\<close>

fun split_dots :: "string \<Rightarrow> string list" where
  "split_dots [] = [[]]"
| "split_dots (c # cs) =
     (if c = CHR ''.'' then [] # split_dots cs
      else (case split_dots cs of [] \<Rightarrow> [[c]] | k # ks \<Rightarrow> (c # k) # ks))"

definition cast_path :: "string \<Rightarrow> json \<Rightarrow> string list" where
  "cast_path path object =
     (if CHR ''.'' \<notin> set path \<or> js_prop object path \<noteq> None then [path] else split_dots path)"

fun base_get :: "json option \<Rightarrow> string list \<Rightarrow> json option" where
  "base_get v [] = v"
| "base_get None (k # ks) = None"
| "base_get (Some JNull) (k # ks) = None"
| "base_get (Some v) (k # ks) = base_get (js_prop v k) ks"

definition lodash_get :: "json option \<Rightarrow> string \<Rightarrow> json \<Rightarrow> json" where
  "lodash_get object path defaultValue =
     (case (case object of
              None \<Rightarrow> None
            | Some JNull \<Rightarrow> None
            | Some obj \<Rightarrow> base_get (Some obj) (cast_path path obj)) of
        None \<Rightarrow> defaultValue
      | Some v \<Rightarrow> v)"

subsection \<open>\<open>Buffer.from(s).toString('base64')\<close>\<close>

definition base64_alphabet :: string where
  "base64_alphabet = ''ABCDEFGHIJKLMNOPQRSTUVWXYZabcdefghijklmnopqrstuvwxyz0123456789+/''"

definition b64 :: "nat \<Rightarrow> char" where
  "b64 i = base64_alphabet ! (i mod 64)"

fun base64 :: "string \<Rightarrow> string" where
  "base64 [] = []"
| "base64 [a] =
     (let x = (of_char a :: nat)
      in [b64 (x div 4), b64 ((x mod 4) * 16), CHR ''='', CHR ''=''])"
| "base64 [a, b] =
     (let x = (of_char a :: nat); y = (of_char b :: nat)
      in [b64 (x div 4), b64 ((x mod 4) * 16 + y div 16), b64 ((y mod 16) * 4), CHR ''=''])"
| "base64 (a # b # c # rest) =
     (let x = (of_char a :: nat); y = (of_char b :: nat); z = (of_char c :: nat)
      in [b64 (x div 4), b64 ((x mod 4) * 16 + y div 16),
          b64 ((y mod 16) * 4 + z div 64), b64 (z mod 64)] @ base64 rest)"

section \<open>Data model\<close>

text \<open>
  The rows the payment module reads. An Order is passed with its associations loaded
  (\<open>order.collective\<close>, \<open>order.paymentMethod\<close>, \<open>order.createdByUser\<close>), as
  \<open>processOrder\<close> dereferences them. \<open>paymentMethod.data\<close> and \<open>order.data\<close> are JSON
  columns and may be \<open>null\<close>; the host of a collective is the result of a query and may
  be missing.
\<close>

record connected_account =
  service :: string
  deletedAt :: "nat option"
  createdAt :: nat
  account_clientId :: "string option"
  account_token :: "string option"

record host_collective =
  host_id :: nat
  connectedAccounts :: "connected_account list"

record collective =
  collective_id :: nat
  hostFeePercent :: jsnum
  collective_host :: "host_collective option"

record payment_method =
  paymentMethod_id :: nat
  paymentMethod_data :: "json option"

record order =
  order_id :: nat
  totalAmount :: jsnum
  order_currency :: string
  order_taxAmount :: "jsnum option"
  order_description :: "string option"
  order_FromCollectiveId :: nat
  createdByUser_id :: nat
  order_collective :: collective
  order_paymentMethod :: payment_method
  order_data :: "json option"

datatype TransactionTypes = CREDIT | DEBIT

record transaction =
  tx_type :: TransactionTypes
  OrderId :: nat
  tx_amount :: jsnum
  tx_currency :: string
  hostCurrency :: "json option"
  amountInHostCurrency :: jsnum
  hostCurrencyFxRate :: jsnum
  hostFeeInHostCurrency :: jsnum
  platformFeeInHostCurrency :: jsnum
  paymentProcessorFeeInHostCurrency :: jsnum
  tx_taxAmount :: "jsnum option"
  tx_description :: "string option"
  data_paymentInfo :: json
  data_isFeesOnTop :: "json option"

record payload =
  CreatedByUserId :: nat
  FromCollectiveId :: nat
  CollectiveId :: nat
  PaymentMethodId :: nat
  payload_transaction :: transaction

section \<open>The outside world\<close>

text \<open>A request handed to \<open>fetch\<close>, and what \<open>fetch\<close> resolves with.\<close>

datatype request_body = TextBody string | JsonBody json

record request =
  req_url :: string
  req_method :: string
  req_headers :: "(string \<times> string) list"
  req_body :: request_body

text \<open>
  \<open>json_body\<close> is the outcome of \<open>response.json()\<close>: the parsed body, or the failure
  to parse it. \<open>response.ok\<close> is true for the statuses 200 to 299.
\<close>

record response =
  resp_status :: nat
  json_body :: "js_error + json"

definition resp_ok :: "response \<Rightarrow> bool" where
  "resp_ok r = (200 \<le> resp_status r \<and> resp_status r \<le> 299)"

text \<open>Every effect of the module, in the order it happens.\<close>

datatype event =
    Fetch request
  | LoggerError string response "js_error + json"
  | LoggerInfo "string + json"
  | GetHostCollective nat
  | GetConnectedAccounts nat
  | FindByPk "json option"
  | CreateFromPayload payload
  | OrderUpdate nat nat
  | PaymentMethodUpdate nat nat
  | ResJson json

text \<open>
  The state: the effects so far, the Transactions table, and the two timestamp columns
  (by Order id and by PaymentMethod id).
\<close>

record state =
  trace :: "event list"
  transactions :: "payload list"
  processedAt :: "nat \<Rightarrow> nat option"
  confirmedAt :: "nat \<Rightarrow> nat option"

text \<open>
  What the module is given from outside. The static configuration, the platform's
  \<open>URL\<close> serialiser, \<open>parseFloat\<close> (on the string its argument converts to) and number
  printing; \<open>calcFee\<close> and \<open>getPlatformFee\<close> of \<open>lib/payments\<close>; and the behaviour of
  the network, the datastore and the clock, each a function of the effects so far: the
  answer to a \<open>fetch\<close>, whether a datastore call fails, the value of \<open>new Date()\<close>.
\<close>

record env =
  paypal_payment_environment :: "json option"
  URL_toString :: "string \<Rightarrow> js_error + string"
  parseFloat_string :: "string \<Rightarrow> jsnum"
  Number_toString :: "jsnum \<Rightarrow> string"
  calcFee :: "jsnum \<Rightarrow> jsnum \<Rightarrow> jsnum"
  getPlatformFee :: "order \<Rightarrow> jsnum"
  fetch_result :: "event list \<Rightarrow> request \<Rightarrow> js_error + response"
  db_fault :: "event list \<Rightarrow> event \<Rightarrow> js_error option"
  find_collective :: "json option \<Rightarrow> host_collective option"
  new_Date :: "event list \<Rightarrow> nat"

subsection \<open>Asynchronous code as state passing\<close>

text \<open>
  An \<open>async\<close> function takes the state and returns its outcome (\<open>Inl\<close>: it threw or its
  promise rejected) with the new state. \<open>io_bind\<close> is \<open>await\<close> followed by the rest of
  the function: an error ends it.
\<close>

type_synonym 'a io = "state \<Rightarrow> (js_error + 'a) \<times> state"

definition io_return :: "'a \<Rightarrow> 'a io" where
  "io_return x = (\<lambda>s. (Inr x, s))"

definition io_throw :: "js_error \<Rightarrow> 'a io" where
  "io_throw e = (\<lambda>s. (Inl e, s))"

definition io_bind :: "'a io \<Rightarrow> ('a \<Rightarrow> 'b io) \<Rightarrow> 'b io" where
  "io_bind m f = (\<lambda>s. case m s of (Inl e, s') \<Rightarrow> (Inl e, s') | (Inr x, s') \<Rightarrow> f x s')"

definition io_lift :: "js_error + 'a \<Rightarrow> 'a io" where
  "io_lift r = (\<lambda>s. (r, s))"

definition emit :: "event \<Rightarrow> unit io" where
  "emit ev = (\<lambda>s. (Inr (), s\<lparr>trace := trace s @ [ev]\<rparr>))"

text \<open>\<open>fetch(url, params)\<close>: the request is recorded, the world answers.\<close>

definition fetch :: "env \<Rightarrow> request \<Rightarrow> response io" where
  "fetch env req = (\<lambda>s. (fetch_result env (trace s) req, s\<lparr>trace := trace s @ [Fetch req]\<rparr>))"

text \<open>A datastore call: recorded, and it fails when the world says so.\<close>

definition db_call :: "env \<Rightarrow> event \<Rightarrow> unit io" where
  "db_call env ev = (\<lambda>s.
     (case db_fault env (trace s) ev of Some e \<Rightarrow> Inl e | None \<Rightarrow> Inr (),
      s\<lparr>trace := trace s @ [ev]\<rparr>))"

text \<open>
  \<open>parseFloat(v)\<close> converts its argument to a string, which may throw, and parses the
  string.
\<close>

definition parseFloat :: "env \<Rightarrow> json option \<Rightarrow> js_error + jsnum" where
  "parseFloat env v =
     (case js_template (Number_toString env) v of
        Inl e \<Rightarrow> Inl e
      | Inr text \<Rightarrow> Inr (parseFloat_string env text))"

section \<open>Collaborators of the repository outside the payment module\<close>

text \<open>
  Modelled from the spec: \<open>floatAmountToCents\<close> of \<open>lib/math\<close>, which is not among the
  sources. The spec: convert from decimal major units to integer minor units (cents),
  rounding to the nearest cent.
\<close>

definition floatAmountToCents :: "jsnum \<Rightarrow> jsnum" where
  "floatAmountToCents floatAmount = Math_round (js_mul floatAmount (Fin 100))"

text \<open>
  Modelled from the spec: \<open>models.Transaction.createFromPayload\<close>, which is not among the
  sources. The spec: \<open>createTransaction(payload) -> Transaction\<close>, a single atomic write;
  either the full record is written or none of it is, and the output is the persisted
  Transaction.
\<close>

definition createFromPayload :: "env \<Rightarrow> payload \<Rightarrow> payload io" where
  "createFromPayload env p =
     io_bind (db_call env (CreateFromPayload p)) (\<lambda>_ s.
       (Inr p, s\<lparr>transactions := transactions s @ [p]\<rparr>))"

text \<open>
  Modelled from the spec: \<open>order.update({ processedAt })\<close> and
  \<open>paymentMethod.update({ confirmedAt })\<close> of the datastore, \<open>updateOrder(id, {processedAt})\<close>
  and \<open>updatePaymentMethod(id, {confirmedAt})\<close> in the spec.
\<close>

definition order_update :: "env \<Rightarrow> order \<Rightarrow> nat \<Rightarrow> unit io" where
  "order_update env order t =
     io_bind (db_call env (OrderUpdate (order_id order) t)) (\<lambda>_ s.
       (Inr (), s\<lparr>processedAt := (processedAt s)(order_id order \<mapsto> t)\<rparr>))"

definition paymentMethod_update :: "env \<Rightarrow> payment_method \<Rightarrow> nat \<Rightarrow> unit io" where
  "paymentMethod_update env pm t =
     io_bind (db_call env (PaymentMethodUpdate (paymentMethod_id pm) t)) (\<lambda>_ s.
       (Inr (), s\<lparr>confirmedAt := (confirmedAt s)(paymentMethod_id pm \<mapsto> t)\<rparr>))"

text \<open>
  The query of \<open>paypalRequest\<close>,
  \<open>getConnectedAccounts({ where: { service: 'paypal', deletedAt: null }, order: [['createdAt', 'DESC']] })\<close>:
  the host's PayPal accounts that are not deleted, the most recently created first.
\<close>

definition getConnectedAccounts :: "env \<Rightarrow> host_collective \<Rightarrow> connected_account list io" where
  "getConnectedAccounts env hostCollective =
     io_bind (db_call env (GetConnectedAccounts (host_id hostCollective))) (\<lambda>_.
       io_return (rev (sort_key createdAt
         (filter (\<lambda>a. service a = ''paypal'' \<and> deletedAt a = None)
            (connectedAccounts hostCollective)))))"

definition getHostCollective :: "env \<Rightarrow> collective \<Rightarrow> host_collective option io" where
  "getHostCollective env c =
     io_bind (db_call env (GetHostCollective (collective_id c))) (\<lambda>_.
       io_return (collective_host c))"

definition findByPk :: "env \<Rightarrow> json option \<Rightarrow> host_collective option io" where
  "findByPk env hostId =
     io_bind (db_call env (FindByPk hostId)) (\<lambda>_. io_return (find_collective env hostId))"

definition current_Date :: "env \<Rightarrow> nat io" where
  "current_Date env = (\<lambda>s. (Inr (new_Date env (trace s)), s))"

section \<open>The payment module\<close>

subsection \<open>\<open>paypalUrl\<close>\<close>

definition paypalUrl :: "env \<Rightarrow> string \<Rightarrow> js_error + string" where
  "paypalUrl env path =
     (if take 1 path = ''/'' then Inl (Error ''Please don't use absolute paths'')
      else
        let baseUrl =
              (if paypal_payment_environment env = Some (JStr ''sandbox'')
               then ''https://api.sandbox.paypal.com/v1/''
               else ''https://api.paypal.com/v1/'')
        in URL_toString env (baseUrl @ path))"

subsection \<open>\<open>retrieveOAuthToken\<close>\<close>

definition retrieveOAuthToken :: "env \<Rightarrow> string \<Rightarrow> string \<Rightarrow> json option io" where
  "retrieveOAuthToken env clientId clientSecret =
     io_bind (io_lift (paypalUrl env ''oauth2/token'')) (\<lambda>url.
       let body = ''grant_type=client_credentials'';
           authStr = clientId @ '':'' @ clientSecret;
           basicAuth = base64 authStr;
           headers = [(''Authorization'', ''Basic '' @ basicAuth)]
       in io_bind (fetch env \<lparr>req_url = url, req_method = ''post'', req_headers = headers,
                               req_body = TextBody body\<rparr>) (\<lambda>response.
          io_bind (io_lift (json_body response)) (\<lambda>jsonOutput.
          io_lift (js_member (Some jsonOutput) ''access_token''))))"

subsection \<open>\<open>paypalRequest\<close>\<close>

text \<open>
  The branch taken when \<open>result.ok\<close> is false: the \<open>try\<close> block reads the body and its
  \<open>message\<close> and puts the message into the template; the \<open>catch\<close> keeps what any of the
  three threw; then the log entry and the \<open>throw\<close>.
\<close>

definition paypalRequest_rejected :: "env \<Rightarrow> response \<Rightarrow> json io" where
  "paypalRequest_rejected env result =
     (let errorMessage = ''PayPal payment rejected'';
          (errorData, errorMessage) =
             (case json_body result of
                Inl e \<Rightarrow> (Inl e, errorMessage)
              | Inr parsed \<Rightarrow>
                  (case js_member (Some parsed) ''message'' of
                     Inl e \<Rightarrow> (Inl e, errorMessage)
                   | Inr message \<Rightarrow>
                       (case js_template (Number_toString env) message of
                          Inl e \<Rightarrow> (Inl e, errorMessage)
                        | Inr message_text \<Rightarrow>
                            (Inr parsed, errorMessage @ '': '' @ message_text))))
      in io_bind (emit (LoggerError ''PayPal payment failed'' result errorData)) (\<lambda>_.
         io_throw (Error errorMessage)))"

definition paypalRequest :: "env \<Rightarrow> string \<Rightarrow> json \<Rightarrow> host_collective option \<Rightarrow> json io" where
  "paypalRequest env urlPath body hostCollective =
     (case hostCollective of
        None \<Rightarrow> io_throw (TypeError ''getConnectedAccounts'')
      | Some host \<Rightarrow>
          io_bind (getConnectedAccounts env host) (\<lambda>connectedPaypalAccounts.
            case connectedPaypalAccounts of
              [] \<Rightarrow> io_throw (Error ''Host doesn't support PayPal payments.'')
            | paypal # _ \<Rightarrow>
                (case (account_clientId paypal, account_token paypal) of
                   (Some clientId, Some clientSecret) \<Rightarrow>
                     if clientId = [] \<or> clientSecret = []
                     then io_throw (Error ''Host doesn't support PayPal payments.'')
                     else
                       io_bind (io_lift (paypalUrl env urlPath)) (\<lambda>url.
                       io_bind (retrieveOAuthToken env clientId clientSecret) (\<lambda>token.
                       io_bind (io_lift (js_template (Number_toString env) token)) (\<lambda>token_text.
                         let params =
                               \<lparr>req_url = url, req_method = ''POST'',
                                req_headers =
                                  [(''Authorization'', ''Bearer '' @ token_text),
                                   (''Content-Type'', ''application/json'')],
                                req_body = JsonBody body\<rparr>
                         in io_bind (fetch env params) (\<lambda>result.
                              if \<not> resp_ok result then paypalRequest_rejected env result
                              else io_lift (json_body result)))))
                 | _ \<Rightarrow> io_throw (Error ''Host doesn't support PayPal payments.''))))"

subsection \<open>\<open>createPayment\<close>\<close>

text \<open>\<open>req.body\<close> is the argument; the result is the object handed to \<open>res.json\<close>.\<close>

definition createPayment :: "env \<Rightarrow> json option \<Rightarrow> json io" where
  "createPayment env req_body_json =
     io_bind (io_lift (js_member req_body_json ''amount'')) (\<lambda>amount.
     io_bind (io_lift (js_member req_body_json ''currency'')) (\<lambda>currency.
     io_bind (io_lift (js_member req_body_json ''hostId'')) (\<lambda>hostId.
       case (amount, currency) of
         (Some amount_v, Some currency_v) \<Rightarrow>
           if \<not> truthy amount \<or> \<not> truthy currency
           then io_throw (Error ''Amount & Currency are required'')
           else
             io_bind (findByPk env hostId) (\<lambda>hostCollective.
               case hostCollective of
                 None \<Rightarrow> io_throw (Error ''Couldn't find host collective'')
               | Some host \<Rightarrow>
                   let paymentParams = JObj
                         [(''intent'', JStr ''sale''),
                          (''payer'', JObj [(''payment_method'', JStr ''paypal'')]),
                          (''transactions'',
                           JArr [JObj [(''amount'',
                             JObj [(''total'', amount_v), (''currency'', currency_v)])]]),
                          (''redirect_urls'',
                           JObj [(''return_url'', JStr ''https://opencollective.com''),
                                 (''cancel_url'', JStr ''https://opencollective.com'')])]
                   in io_bind (paypalRequest env ''payments/payment'' paymentParams (Some host))
                        (\<lambda>payment.
                      io_bind (io_lift (js_member (Some payment) ''id'')) (\<lambda>payment_id.
                        let sent = JObj (case payment_id of None \<Rightarrow> []
                                         | Some v \<Rightarrow> [(''id'', v)])
                        in io_bind (emit (ResJson sent)) (\<lambda>_. io_return sent))))
       | _ \<Rightarrow> io_throw (Error ''Amount & Currency are required''))))"

subsection \<open>\<open>executePayment\<close>\<close>

text \<open>
  The path is a template literal over \<open>paymentID\<close>, evaluated before the call. A property
  whose value is \<open>undefined\<close> is left out by \<open>JSON.stringify\<close>.
\<close>

definition executePayment :: "env \<Rightarrow> order \<Rightarrow> json io" where
  "executePayment env order =
     io_bind (getHostCollective env (order_collective order)) (\<lambda>hostCollective.
     io_bind (io_lift (js_member (paymentMethod_data (order_paymentMethod order)) ''paymentID''))
       (\<lambda>paymentID.
     io_bind (io_lift (js_member (paymentMethod_data (order_paymentMethod order)) ''payerID''))
       (\<lambda>payerID.
     io_bind (io_lift (js_template (Number_toString env) paymentID)) (\<lambda>paymentID_text.
       paypalRequest env
         (''payments/payment/'' @ paymentID_text @ ''/execute'')
         (JObj (case payerID of None \<Rightarrow> [] | Some v \<Rightarrow> [(''payer_id'', v)]))
         hostCollective))))"

subsection \<open>\<open>createTransaction\<close>\<close>

text \<open>
  The object \<open>createTransaction\<close> assembles (its lines from \<open>floatAmountToCents\<close> to the
  end of \<open>payload.transaction\<close>), given the two numbers parsed, \<open>amountFromPayPal\<close> and
  \<open>paypalFee\<close>, and the \<open>currency\<close> read from the line item's \<open>amount\<close>. \<open>data\<close> is the
  spread of \<open>paymentInfo\<close> with \<open>isFeesOnTop\<close> set.
\<close>

definition createTransaction_payload ::
  "env \<Rightarrow> order \<Rightarrow> json \<Rightarrow> jsnum \<Rightarrow> jsnum \<Rightarrow> json option \<Rightarrow> payload" where
  "createTransaction_payload env order paymentInfo amountFromPayPal paypalFee currencyFromPayPal =
     (let amountFromPayPalInCents = floatAmountToCents amountFromPayPal;
          paypalFeeInCents = floatAmountToCents paypalFee;
          hostFeeInHostCurrency_v =
            calcFee env amountFromPayPalInCents (hostFeePercent (order_collective order));
          platformFeeInHostCurrency_v = getPlatformFee env order
      in \<lparr>CreatedByUserId = createdByUser_id order,
          FromCollectiveId = order_FromCollectiveId order,
          CollectiveId = collective_id (order_collective order),
          PaymentMethodId = paymentMethod_id (order_paymentMethod order),
          payload_transaction =
            \<lparr>tx_type = CREDIT,
             OrderId = order_id order,
             tx_amount = totalAmount order,
             tx_currency = order_currency order,
             hostCurrency = currencyFromPayPal,
             amountInHostCurrency = amountFromPayPalInCents,
             hostCurrencyFxRate = js_div (totalAmount order) amountFromPayPalInCents,
             hostFeeInHostCurrency = hostFeeInHostCurrency_v,
             platformFeeInHostCurrency = platformFeeInHostCurrency_v,
             paymentProcessorFeeInHostCurrency = paypalFeeInCents,
             tx_taxAmount = order_taxAmount order,
             tx_description = order_description order,
             data_paymentInfo = paymentInfo,
             data_isFeesOnTop = js_optional_member (order_data order) ''isFeesOnTop''\<rparr>\<rparr>)"

text \<open>
  \<open>createTransaction\<close>: the reads \<open>paymentInfo.transactions[0]\<close> and
  \<open>transaction.amount.total\<close>, each of which throws on \<open>undefined\<close> or \<open>null\<close>; the two
  calls of \<open>parseFloat\<close>, on the total and on the fee value that lodash \<open>get\<close> finds or
  defaults, each of which throws when its argument cannot be converted to a string;
  the read of \<open>transaction.amount.currency\<close>; then the object above handed to
  \<open>createFromPayload\<close>.
\<close>

definition createTransaction :: "env \<Rightarrow> order \<Rightarrow> json \<Rightarrow> payload io" where
  "createTransaction env order paymentInfo =
     io_bind (io_lift (js_member (Some paymentInfo) ''transactions'')) (\<lambda>paymentInfo_transactions.
     io_bind (io_lift (js_member paymentInfo_transactions ''0'')) (\<lambda>transaction.
     io_bind (io_lift (js_member transaction ''amount'')) (\<lambda>transaction_amount.
     io_bind (io_lift (js_member transaction_amount ''total'')) (\<lambda>transaction_amount_total.
     io_bind (io_lift (parseFloat env transaction_amount_total)) (\<lambda>amountFromPayPal.
     io_bind (io_lift (parseFloat env (Some (lodash_get transaction
                ''related_resources.0.sale.transaction_fee.value'' (JStr ''0.0'')))))
       (\<lambda>paypalFee.
     io_bind (io_lift (js_member transaction_amount ''currency'')) (\<lambda>currencyFromPayPal.
       createFromPayload env
         (createTransaction_payload env order paymentInfo amountFromPayPal paypalFee
            currencyFromPayPal))))))))"

subsection \<open>\<open>processOrder\<close>\<close>

definition processOrder :: "env \<Rightarrow> order \<Rightarrow> payload io" where
  "processOrder env order =
     io_bind (executePayment env order) (\<lambda>paymentInfo.
     io_bind (emit (LoggerInfo (Inl ''PayPal Payment''))) (\<lambda>_.
     io_bind (emit (LoggerInfo (Inr paymentInfo))) (\<lambda>_.
     io_bind (createTransaction env order paymentInfo) (\<lambda>transaction.
     io_bind (current_Date env) (\<lambda>now.
     io_bind (order_update env order now) (\<lambda>_.
     io_bind (current_Date env) (\<lambda>now'.
     io_bind (paymentMethod_update env (order_paymentMethod order) now') (\<lambda>_.
     io_return transaction))))))))"

section \<open>Example worlds\<close>

text \<open>
  \<open>new URL(s).toString()\<close> on the URLs the module builds, for a path made of letters,
  digits, \<open>-._~\<close> and \<open>/\<close>: the URL parser drops a \<open>.\<close> segment, and a \<open>..\<close> segment
  together with the segment before it; the serialiser writes \<open>/\<close> before every segment
  that is left. The examples below use it on such URLs only.
\<close>

fun split_slashes :: "string \<Rightarrow> string list" where
  "split_slashes [] = [[]]"
| "split_slashes (c # cs) =
     (if c = CHR ''/'' then [] # split_slashes cs
      else (case split_slashes cs of [] \<Rightarrow> [[c]] | k # ks \<Rightarrow> (c # k) # ks))"

fun path_state :: "string list \<Rightarrow> string list \<Rightarrow> string list" where
  "path_state path [] = path"
| "path_state path [buffer] =
     (if buffer = ''..'' then butlast path @ [[]]
      else if buffer = ''.'' then path @ [[]]
      else path @ [buffer])"
| "path_state path (buffer # rest) =
     (if buffer = ''..'' then path_state (butlast path) rest
      else if buffer = ''.'' then path_state path rest
      else path_state (path @ [buffer]) rest)"

definition URL_toString_example :: "string \<Rightarrow> js_error + string" where
  "URL_toString_example s =
     (let origin = (if take 30 s = ''https://api.sandbox.paypal.com'' then take 30 s else take 22 s);
          rest = drop (length origin + 1) s
      in if (origin = ''https://api.sandbox.paypal.com'' \<or> origin = ''https://api.paypal.com'')
            \<and> take 1 (drop (length origin) s) = ''/''
         then Inr (origin @ concat (map (\<lambda>segment. ''/'' @ segment)
                                      (path_state [] (split_slashes rest))))
         else Inl (TypeError ''Invalid URL''))"

text \<open>\<open>parseFloat\<close> on the strings that occur in the examples.\<close>

definition parseFloat_example :: "string \<Rightarrow> jsnum" where
  "parseFloat_example s =
     (if s = ''10.00'' then Fin 10
      else if s = ''0.0'' \<or> s = ''0.00'' then Fin 0
      else if s = ''0.59'' then fl (59 / 100)
      else if s = ''0.004'' then fl (4 / 1000)
      else NaN)"

text \<open>
  Modelled from the spec: \<open>calcFee\<close> of \<open>lib/payments\<close>, which is not among the sources.
  The spec: host fee = round(captured amount in host currency \<times> the host's fee
  percentage).
\<close>

definition calcFee_example :: "jsnum \<Rightarrow> jsnum \<Rightarrow> jsnum" where
  "calcFee_example amount fee = Math_round (js_div (js_mul amount fee) (Fin 100))"

text \<open>
  The capture payload of the spec's end-to-end scenario,
  \<open>{transactions: [{amount: {total: "10.00", currency: "USD"}}]}\<close>, the same with fee
  data, one with a captured amount of zero, one with a captured amount of \<open>0.59\<close>, one
  with a captured amount below half a cent, and one with no line item.
\<close>

definition capture_payload :: "string \<Rightarrow> (string \<times> json) list \<Rightarrow> json" where
  "capture_payload amount_total other_properties =
     JObj [(''transactions'',
            JArr [JObj ((''amount'', JObj [(''total'', JStr amount_total), (''currency'', JStr ''USD'')])
                        # other_properties)])]"

definition paymentInfo_example :: json where
  "paymentInfo_example = capture_payload ''10.00'' []"

definition paymentInfo_with_fee :: json where
  "paymentInfo_with_fee = capture_payload ''10.00''
     [(''related_resources'',
       JArr [JObj [(''sale'', JObj [(''transaction_fee'', JObj [(''value'', JStr ''0.59'')])])]])]"

definition paymentInfo_zero :: json where
  "paymentInfo_zero = capture_payload ''0.00'' []"

definition paymentInfo_cents :: json where
  "paymentInfo_cents = capture_payload ''0.59'' []"

definition paymentInfo_tiny :: json where
  "paymentInfo_tiny = capture_payload ''0.004'' []"

definition paymentInfo_no_transaction :: json where
  "paymentInfo_no_transaction = JObj [(''transactions'', JArr [])]"

text \<open>
  A world in which the provider answers the token request with 200 and
  \<open>{access_token: "A21AA"}\<close> and every other request with the given response, the
  datastore never fails, and the clock counts the effects so far.
\<close>

definition token_response :: response where
  "token_response = \<lparr>resp_status = 200, json_body = Inr (JObj [(''access_token'', JStr ''A21AA'')])\<rparr>"

definition env_with :: "json option \<Rightarrow> response \<Rightarrow> response \<Rightarrow> env" where
  "env_with environment token_answer answer =
     \<lparr>paypal_payment_environment = environment,
      URL_toString = URL_toString_example,
      parseFloat_string = parseFloat_example,
      Number_toString = (\<lambda>n. ''NaN''),
      calcFee = calcFee_example,
      getPlatformFee = (\<lambda>order. Fin 0),
      fetch_result = (\<lambda>history req.
         if req_body req = TextBody ''grant_type=client_credentials''
         then Inr token_answer else Inr answer),
      db_fault = (\<lambda>history ev. None),
      find_collective = (\<lambda>hostId. None),
      new_Date = length\<rparr>"

definition env_example :: env where
  "env_example = env_with (Some (JStr ''sandbox'')) token_response
     \<lparr>resp_status = 200, json_body = Inr paymentInfo_example\<rparr>"

text \<open>The provider rejects the payment with 400 and \<open>{message: "Payment already done"}\<close>.\<close>

definition rejection :: response where
  "rejection = \<lparr>resp_status = 400,
                json_body = Inr (JObj [(''name'', JStr ''PAYMENT_ALREADY_DONE''),
                                       (''message'', JStr ''Payment already done'')])\<rparr>"

definition env_rejecting :: env where
  "env_rejecting = env_with (Some (JStr ''sandbox'')) token_response rejection"

text \<open>
  Three more answers of the provider: 400 with the body \<open>null\<close>; 400 with a body whose
  \<open>message\<close> is an object with a property \<open>toString\<close>; 204 with an empty body, which
  \<open>response.json()\<close> fails to parse.
\<close>

definition rejection_null :: response where
  "rejection_null = \<lparr>resp_status = 400, json_body = Inr JNull\<rparr>"

definition rejection_odd_message :: response where
  "rejection_odd_message =
     \<lparr>resp_status = 400,
      json_body = Inr (JObj [(''message'', JObj [(''toString'', JNum (Fin 1))])])\<rparr>"

definition no_content :: response where
  "no_content = \<lparr>resp_status = 204, json_body = Inl (SyntaxError ''Unexpected end of JSON input'')\<rparr>"

text \<open>The token endpoint answers 401 with \<open>{error: "invalid_client"}\<close>.\<close>

definition token_refusal :: response where
  "token_refusal = \<lparr>resp_status = 401, json_body = Inr (JObj [(''error'', JStr ''invalid_client'')])\<rparr>"

definition env_token_refused :: env where
  "env_token_refused = env_with (Some (JStr ''sandbox'')) token_refusal rejection"

text \<open>A host with one usable PayPal account, a host with none, and the Order of the
  spec's scenario (total amount 1000, USD, host fee 5%).\<close>

definition host_example :: host_collective where
  "host_example = \<lparr>host_id = 7, connectedAccounts =
     [\<lparr>service = ''paypal'', deletedAt = None, createdAt = 1,
       account_clientId = Some ''id'', account_token = Some ''secret''\<rparr>]\<rparr>"

definition host_without_paypal :: host_collective where
  "host_without_paypal = \<lparr>host_id = 8, connectedAccounts =
     [\<lparr>service = ''stripe'', deletedAt = None, createdAt = 1,
       account_clientId = Some ''id'', account_token = Some ''secret''\<rparr>,
      \<lparr>service = ''paypal'', deletedAt = Some 3, createdAt = 2,
       account_clientId = Some ''id'', account_token = Some ''secret''\<rparr>]\<rparr>"

definition order_for :: "host_collective option \<Rightarrow> order" where
  "order_for host =
     \<lparr>order_id = 1, totalAmount = Fin 1000, order_currency = ''USD'',
      order_taxAmount = None, order_description = None, order_FromCollectiveId = 2,
      createdByUser_id = 3,
      order_collective = \<lparr>collective_id = 4, hostFeePercent = Fin 5, collective_host = host\<rparr>,
      order_paymentMethod =
        \<lparr>paymentMethod_id = 5,
         paymentMethod_data = Some (JObj [(''paymentID'', JStr ''PAY-1''), (''payerID'', JStr ''P1'')])\<rparr>,
      order_data = None\<rparr>"

definition order_example :: order where
  "order_example = order_for (Some host_example)"

definition state_empty :: state where
  "state_empty = \<lparr>trace = [], transactions = [],
                  processedAt = (\<lambda>id. None), confirmedAt = (\<lambda>id. None)\<rparr>"

text \<open>
  The Transaction of the spec's end-to-end scenario, and the ones written when the
  provider reports a captured amount of \<open>0.00\<close>, of \<open>0.004\<close> and of \<open>0.59\<close> for the same
  Order.
\<close>

definition transaction_example :: payload where
  "transaction_example =
     \<lparr>CreatedByUserId = 3, FromCollectiveId = 2, CollectiveId = 4, PaymentMethodId = 5,
      payload_transaction =
        \<lparr>tx_type = CREDIT, OrderId = 1, tx_amount = Fin 1000, tx_currency = ''USD'',
         hostCurrency = Some (JStr ''USD''), amountInHostCurrency = Fin 1000,
         hostCurrencyFxRate = Fin 1, hostFeeInHostCurrency = Fin 50,
         platformFeeInHostCurrency = Fin 0, paymentProcessorFeeInHostCurrency = Fin 0,
         tx_taxAmount = None, tx_description = None,
         data_paymentInfo = paymentInfo_example, data_isFeesOnTop = None\<rparr>\<rparr>"

definition transaction_zero :: payload where
  "transaction_zero = transaction_example
     \<lparr>payload_transaction := (payload_transaction transaction_example)
        \<lparr>amountInHostCurrency := Fin 0, hostCurrencyFxRate := PosInf,
         hostFeeInHostCurrency := Fin 0, data_paymentInfo := paymentInfo_zero\<rparr>\<rparr>"

definition transaction_tiny :: payload where
  "transaction_tiny = transaction_zero
     \<lparr>payload_transaction := (payload_transaction transaction_zero)
        \<lparr>data_paymentInfo := paymentInfo_tiny\<rparr>\<rparr>"

definition transaction_cents :: payload where
  "transaction_cents = transaction_example
     \<lparr>payload_transaction := (payload_transaction transaction_example)
        \<lparr>amountInHostCurrency := Fin 59, hostCurrencyFxRate := Fin (4770762317129763 / 281474976710656),
         hostFeeInHostCurrency := Fin 3, data_paymentInfo := paymentInfo_cents\<rparr>\<rparr>"

text \<open>A host whose most recently created PayPal account has no token.\<close>

definition host_incomplete :: host_collective where
  "host_incomplete = \<lparr>host_id = 9, connectedAccounts =
     [\<lparr>service = ''paypal'', deletedAt = None, createdAt = 1,
       account_clientId = Some ''id'', account_token = Some ''secret''\<rparr>,
      \<lparr>service = ''paypal'', deletedAt = None, createdAt = 2,
       account_clientId = Some ''id2'', account_token = None\<rparr>]\<rparr>"

text \<open>
  The two requests of the scenario, the token exchange for the account \<open>id\<close> /
  \<open>secret\<close> and the execution of payment \<open>PAY-1\<close> for payer \<open>P1\<close>, and the effects of
  its capture in their order.
\<close>

definition token_request_example :: request where
  "token_request_example =
     \<lparr>req_url = ''https://api.sandbox.paypal.com/v1/oauth2/token'', req_method = ''post'',
      req_headers = [(''Authorization'', ''Basic aWQ6c2VjcmV0'')],
      req_body = TextBody ''grant_type=client_credentials''\<rparr>"

definition execute_request_example :: request where
  "execute_request_example =
     \<lparr>req_url = ''https://api.sandbox.paypal.com/v1/payments/payment/PAY-1/execute'',
      req_method = ''POST'',
      req_headers = [(''Authorization'', ''Bearer A21AA''), (''Content-Type'', ''application/json'')],
      req_body = JsonBody (JObj [(''payer_id'', JStr ''P1'')])\<rparr>"

definition capture_events_example :: "event list" where
  "capture_events_example =
     [GetHostCollective 4, GetConnectedAccounts 7, Fetch token_request_example,
      Fetch execute_request_example]"

section \<open>Notions of the specification\<close>

text \<open>
  The processor fee path below a line item, and what it means for a path to be absent
  at some level of nesting: the value found by following the first \<open>n\<close> keys, for some
  \<open>n\<close> from 1 to the length of the path, is missing (\<open>null\<close> has no properties).
\<close>

definition fee_path :: "string list" where
  "fee_path = [''related_resources'', ''0'', ''sale'', ''transaction_fee'', ''value'']"

fun resolve :: "json option \<Rightarrow> string list \<Rightarrow> json option" where
  "resolve v [] = v"
| "resolve v (k # ks) = resolve (Option.bind v (\<lambda>x. js_prop x k)) ks"

definition absent_at_some_level :: "json \<Rightarrow> string list \<Rightarrow> bool" where
  "absent_at_some_level v ks =
     list_ex (\<lambda>n. resolve (Some v) (take n ks) = None) [1..<Suc (length ks)]"

text \<open>The network calls among the effects.\<close>

fun is_Fetch :: "event \<Rightarrow> bool" where
  "is_Fetch (Fetch req) = True"
| "is_Fetch _ = False"

definition network_calls :: "event list \<Rightarrow> event list" where
  "network_calls history = filter is_Fetch history"

text \<open>
  The PayPal credentials of a host that are not deleted; a most recently created one
  among some accounts; an account that lacks a client id or a token, which is how
  \<open>!paypal.clientId || !paypal.token\<close> reads: \<open>undefined\<close>, \<open>null\<close> and the empty string.
\<close>

definition paypal_credentials :: "host_collective \<Rightarrow> connected_account list" where
  "paypal_credentials host =
     filter (\<lambda>a. service a = ''paypal'' \<and> deletedAt a = None) (connectedAccounts host)"

definition most_recent :: "connected_account list \<Rightarrow> connected_account \<Rightarrow> bool" where
  "most_recent accounts a = (a \<in> set accounts \<and> (\<forall>b \<in> set accounts. createdAt b \<le> createdAt a))"

definition lacks_clientId_or_token :: "connected_account \<Rightarrow> bool" where
  "lacks_clientId_or_token a =
     (account_clientId a = None \<or> account_clientId a = Some [] \<or>
      account_token a = None \<or> account_token a = Some [])"

text \<open>
  The effects of a capture: queries, network calls and the error log. A computation
  appends only events of a kind when every run of it leaves the state as it was but for
  such events added to the trace.
\<close>

fun is_capture_event :: "event \<Rightarrow> bool" where
  "is_capture_event (GetHostCollective c) = True"
| "is_capture_event (GetConnectedAccounts h) = True"
| "is_capture_event (Fetch req) = True"
| "is_capture_event (LoggerError msg result detail) = True"
| "is_capture_event _ = False"

definition extends_by :: "(event \<Rightarrow> bool) \<Rightarrow> state \<Rightarrow> state \<Rightarrow> bool" where
  "extends_by P s s' = (\<exists>evs. list_all P evs \<and> s' = s\<lparr>trace := trace s @ evs\<rparr>)"

definition appends_only :: "(event \<Rightarrow> bool) \<Rightarrow> 'a io \<Rightarrow> bool" where
  "appends_only P m = (\<forall>s. extends_by P s (snd (m s)))"

text \<open>
  Two states that differ at most in the \<open>processedAt\<close> column; a computation ignores
  that column when on two such states it has the same outcome and leaves two such
  states.
\<close>

definition same_but_processedAt :: "state \<Rightarrow> state \<Rightarrow> bool" where
  "same_but_processedAt s t =
     (trace s = trace t \<and> transactions s = transactions t \<and> confirmedAt s = confirmedAt t)"

definition ignores_processedAt :: "'a io \<Rightarrow> bool" where
  "ignores_processedAt m =
     (\<forall>s t. same_but_processedAt s t \<longrightarrow>
        fst (m s) = fst (m t) \<and> same_but_processedAt (snd (m s)) (snd (m t)))"

section \<open>Rounding to binary64\<close>

lemma round_half_even_error: "\<bar>of_int (round_half_even x) - x\<bar> \<le> 1/2"
proof -
  have "of_int \<lfloor>x\<rfloor> \<le> x" "x < of_int \<lfloor>x\<rfloor> + 1" by linarith+
  then show ?thesis
    unfolding round_half_even_def Let_def by (auto simp: abs_le_iff) 
qed

lemma ilog2_bounds:
  assumes "0 < m"
  shows "2 powi (ilog2 m) \<le> m" and "m < 2 powi (ilog2 m + 1)"
proof -
  obtain p q where pq: "quotient_of m = (p, q)" by (cases "quotient_of m")
  have q: "0 < q" using pq by (rule quotient_of_denom_pos)
  have m: "m = of_int p / of_int q" using pq by (rule quotient_of_div)
  have p: "0 < p" using assms m q by (simp add: zero_less_divide_iff)
  define k where "k = bitlen p - bitlen q"
  have bp: "2 ^ nat (bitlen p - 1) \<le> p" "p < 2 ^ nat (bitlen p)" using bitlen_bounds[OF p] by auto
  have bq: "2 ^ nat (bitlen q - 1) \<le> q" "q < 2 ^ nat (bitlen q)" using bitlen_bounds[OF q] by auto
  have bp1: "1 \<le> bitlen p" using p by (simp add: bitlen_alt_def)
  have bq1: "1 \<le> bitlen q" using q by (simp add: bitlen_alt_def)
  have P1: "(2::rat) powi (bitlen p - 1) \<le> of_int p"
  proof -
    have "(of_int (2 ^ nat (bitlen p - 1)) :: rat) \<le> of_int p" using bp(1) by (simp only: of_int_le_iff)
    then show ?thesis using bp1 by (simp add: power_int_def)
  qed
  have P2: "(of_int p :: rat) < 2 powi (bitlen p)"
  proof -
    have "(of_int p :: rat) < of_int (2 ^ nat (bitlen p))" using bp(2) by (simp only: of_int_less_iff)
    then show ?thesis using bp1 by (simp add: power_int_def)
  qed
  have Q1: "(2::rat) powi (bitlen q - 1) \<le> of_int q"
  proof -
    have "(of_int (2 ^ nat (bitlen q - 1)) :: rat) \<le> of_int q" using bq(1) by (simp only: of_int_le_iff)
    then show ?thesis using bq1 by (simp add: power_int_def)
  qed
  have Q2: "(of_int q :: rat) < 2 powi (bitlen q)"
  proof -
    have "(of_int q :: rat) < of_int (2 ^ nat (bitlen q))" using bq(2) by (simp only: of_int_less_iff)
    then show ?thesis using bq1 by (simp add: power_int_def)
  qed
  have qpos: "(0::rat) < of_int q" using q by simp
  have lower: "(2::rat) powi (k - 1) \<le> m"
  proof -
    have "(2::rat) powi (k - 1) * of_int q \<le> 2 powi (k - 1) * 2 powi (bitlen q)"
      using Q2 by (intro mult_left_mono) auto
    also have "\<dots> = 2 powi (bitlen p - 1)"
      by (simp add: k_def flip: power_int_add)
    also have "\<dots> \<le> of_int p" by (rule P1)
    finally show ?thesis using qpos by (simp add: m pos_le_divide_eq)
  qed
  have upper: "m < (2::rat) powi (k + 1)"
  proof -
    have "(of_int p :: rat) < 2 powi (bitlen p)" by (rule P2)
    also have "\<dots> = 2 powi (k + 1) * 2 powi (bitlen q - 1)"
      by (simp add: k_def flip: power_int_add)
    also have "\<dots> \<le> 2 powi (k + 1) * of_int q"
      using Q1 by (intro mult_left_mono) auto
    finally show ?thesis using qpos by (simp add: m pos_divide_less_eq)
  qed
  have il: "ilog2 m = (if 2 powi k \<le> m then k else k - 1)"
    by (simp add: ilog2_def pq k_def Let_def)
  show "2 powi (ilog2 m) \<le> m" using lower by (simp add: il)
  show "m < 2 powi (ilog2 m + 1)" using upper by (auto simp: il not_le)
qed

lemma fl_value:
  assumes q0: "q \<noteq> 0" and qb: "\<bar>q\<bar> \<le> 2 ^ 1023"
  shows "\<exists>v. num_value (fl q) = Some v \<and> \<bar>v - q\<bar> \<le> max (\<bar>q\<bar> / 2 ^ 53) (1 / 2 ^ 1075)"
proof -
  define m where "m = \<bar>q\<bar>"
  define e where "e = max (ilog2 m - 52) (- 1074)"
  define n where "n = round_half_even (m / 2 powi e)"
  define r where "r = (of_int n :: rat) * 2 powi e"
  have m0: "0 < m" using q0 by (simp add: m_def)
  have pe: "(0::rat) < 2 powi e" by (simp add: zero_less_power_int)
  have "\<bar>of_int n - m / 2 powi e\<bar> \<le> 1/2" unfolding n_def by (rule round_half_even_error)
  then have "\<bar>of_int n - m / 2 powi e\<bar> * 2 powi e \<le> 1/2 * 2 powi e"
    using pe by (intro mult_right_mono) auto
  moreover have "\<bar>of_int n - m / 2 powi e\<bar> * 2 powi e = \<bar>r - m\<bar>"
  proof -
    have "\<bar>of_int n - m / 2 powi e\<bar> * 2 powi e = \<bar>(of_int n - m / 2 powi e) * 2 powi e\<bar>"
      using pe by (simp add: abs_mult)
    also have "(of_int n - m / 2 powi e) * 2 powi e = r - m"
      using pe by (simp add: r_def algebra_simps)
    finally show ?thesis .
  qed
  ultimately have err: "\<bar>r - m\<bar> \<le> 2 powi e / 2" by simp
  have half: "2 powi e / 2 \<le> max (m / 2 ^ 53) (1 / 2 ^ 1075)"
  proof (cases "ilog2 m - 52 \<le> - 1074")
    case True
    then have "e = - 1074" by (simp add: e_def)
    then have "(2::rat) powi e / 2 = 1 / 2 ^ 1075" by (simp add: power_int_minus_divide)
    then show ?thesis by simp
  next
    case False
    then have e: "e = ilog2 m - 52" by (simp add: e_def)
    have "(2::rat) powi e = 2 powi (ilog2 m) / 2 ^ 52"
      by (simp add: e power_int_diff)
    also have "\<dots> \<le> m / 2 ^ 52" using ilog2_bounds(1)[OF m0] by (simp add: divide_right_mono)
    finally have "(2::rat) powi e / 2 \<le> m / 2 ^ 53" by simp
    then show ?thesis by simp
  qed
  have mb: "m \<le> 2 ^ 1023" using qb by (simp add: m_def)
  have "max (m / 2 ^ 53) (1 / 2 ^ 1075) \<le> (2::rat) ^ 970"
  proof -
    have "m / 2 ^ 53 \<le> 2 ^ 1023 / 2 ^ 53" using mb by (simp add: divide_right_mono)
    also have "\<dots> = (2::rat) ^ 970" by simp
    finally have "m / 2 ^ 53 \<le> (2::rat) ^ 970" .
    moreover have "1 / 2 ^ 1075 \<le> (2::rat) ^ 970" by simp
    ultimately show ?thesis by simp
  qed
  then have E: "2 powi e / 2 \<le> (2::rat) ^ 970" using half by linarith
  have "r - m \<le> 2 powi e / 2" using err by (simp only: abs_le_iff)
  then have "r \<le> 2 ^ 1023 + 2 ^ 970" using E mb by linarith
  also have "\<dots> < (2::rat) ^ 1024" by simp
  finally have rb: "\<not> 2 powi 1024 \<le> r" by simp
  have r0: "0 \<le> r" 
  proof -
    have "0 \<le> m / 2 powi e" using m0 pe by simp
    then have "0 \<le> n" unfolding n_def round_half_even_def Let_def by (auto simp: zero_le_floor) 
    then show ?thesis using pe by (simp add: r_def)
  qed
  have flq: "fl q = (if r = 0 then zero_of_sign (q < 0) else Fin (if q < 0 then - r else r))"
    using q0 rb unfolding fl_def Let_def m_def[symmetric] e_def[symmetric] n_def[symmetric] r_def[symmetric]
    by simp
  have nv: "num_value (fl q) = Some (if q < 0 then - r else r)"
    by (simp add: flq zero_of_sign_def)
  have "\<bar>(if q < 0 then - r else r) - q\<bar> = \<bar>r - m\<bar>"
    by (auto simp: m_def)
  with err half nv show ?thesis unfolding m_def by (intro exI conjI) (assumption, linarith)
qed

lemma round_half_even_nonneg: "0 \<le> x \<Longrightarrow> 0 \<le> round_half_even x"
  unfolding round_half_even_def Let_def by (auto simp: zero_le_floor)

lemma fl_Fin_bound:
  assumes "fl a = Fin q"
  shows "\<bar>q\<bar> < 2 ^ 1024"
proof (cases "a = 0")
  case True
  then show ?thesis using assms by (simp add: fl_def)
next
  case False
  define r where "r = (of_int (round_half_even (\<bar>a\<bar> / 2 powi max (ilog2 \<bar>a\<bar> - 52) (- 1074))) :: rat)
                        * 2 powi max (ilog2 \<bar>a\<bar> - 52) (- 1074)"
  have pe: "(0::rat) < 2 powi max (ilog2 \<bar>a\<bar> - 52) (- 1074)" by (simp add: zero_less_power_int)
  have "0 \<le> \<bar>a\<bar> / 2 powi max (ilog2 \<bar>a\<bar> - 52) (- 1074)" using pe by simp
  then have "0 \<le> round_half_even (\<bar>a\<bar> / 2 powi max (ilog2 \<bar>a\<bar> - 52) (- 1074))"
    by (rule round_half_even_nonneg)
  then have r0: "0 \<le> r" using pe by (simp add: r_def)
  have fla: "fl a = (if 2 powi 1024 \<le> r then inf_of_sign (a < 0)
                     else if r = 0 then zero_of_sign (a < 0)
                     else Fin (if a < 0 then - r else r))"
    using False unfolding fl_def Let_def r_def by simp
  show ?thesis
  proof (cases "2 powi 1024 \<le> r")
    case True
    then show ?thesis using assms fla by (simp add: inf_of_sign_def split: if_splits)
  next
    case False
    then have "r < 2 ^ 1024" by simp
    moreover have "q = 0 \<or> q = r \<or> q = - r"
      using assms fla False by (auto simp: zero_of_sign_def split: if_splits)
    ultimately show ?thesis using r0 by auto
  qed
qed

lemma fxrate_consistent:
  assumes tb: "\<bar>t\<bar> \<le> 2 ^ 53" and c1: "1 \<le> c" and cb: "c \<le> 2 ^ 1075"
  shows "\<exists>r. num_value (js_div (Fin t) (Fin c)) = Some r \<and> \<bar>r * c - t\<bar> \<le> 1"
proof (cases "t = 0")
  case True
  with c1 show ?thesis by (simp add: zero_of_sign_def)
next
  case False
  have c0: "0 < c" "c \<noteq> 0" using c1 by auto
  have d: "js_div (Fin t) (Fin c) = fl (t / c)" using False c0 by simp
  have q0: "t / c \<noteq> 0" using False c0 by simp
  have "\<bar>t / c\<bar> \<le> \<bar>t\<bar>" using c1 by (simp add: abs_divide divide_le_eq mult_le_cancel_left1)
  also have "\<dots> \<le> 2 ^ 1023" using tb by (rule order_trans) simp
  finally have qb: "\<bar>t / c\<bar> \<le> 2 ^ 1023" .
  from fl_value[OF q0 qb] obtain v where v: "num_value (fl (t / c)) = Some v"
    and ve: "\<bar>v - t / c\<bar> \<le> max (\<bar>t / c\<bar> / 2 ^ 53) (1 / 2 ^ 1075)" by blast
  have "\<bar>v * c - t\<bar> = \<bar>v - t / c\<bar> * c"
  proof -
    have "v * c - t = (v - t / c) * c" using c0 by (simp add: algebra_simps)
    then show ?thesis using c0 by (simp add: abs_mult)
  qed
  also have "\<dots> \<le> max (\<bar>t / c\<bar> / 2 ^ 53) (1 / 2 ^ 1075) * c"
    using ve c0 by (intro mult_right_mono) auto
  also have "\<dots> \<le> 1"
  proof -
    have a: "\<bar>t / c\<bar> / 2 ^ 53 * c \<le> 1"
    proof -
      have "\<bar>t / c\<bar> / 2 ^ 53 * c = \<bar>t\<bar> / 2 ^ 53" using c0 by (simp add: abs_divide)
      also have "\<dots> \<le> 1" using tb by simp
      finally show ?thesis .
    qed
    have b: "1 / 2 ^ 1075 * c \<le> 1" using cb by simp
    show ?thesis using a b c0 by (cases "\<bar>t / c\<bar> / 2 ^ 53 \<le> 1 / 2 ^ 1075") (simp_all add: max_def)
  qed
  finally show ?thesis using v d by auto
qed

lemma floatAmountToCents_positive:
  assumes "floatAmountToCents x = Fin c" and "0 < c"
  shows "1 \<le> c" and "c \<le> 2 ^ 1075"
proof -
  obtain q where q: "js_mul x (Fin 100) = Fin q" and c: "c = of_int (round q)"
    using assms(1) unfolding floatAmountToCents_def
    by (cases "js_mul x (Fin 100)") (auto split: if_splits)
  have "0 < round q" using assms(2) c by simp
  then show "1 \<le> c" using c by simp
  have "\<bar>q\<bar> < 2 ^ 1024"
  proof (cases x)
    case (Fin a)
    then show ?thesis using q fl_Fin_bound[of "a * 100" q]
      by (auto simp: Let_def zero_of_sign_def inf_of_sign_def split: if_splits)
  next
    case NegZero
    then show ?thesis using q by (auto simp: Let_def zero_of_sign_def inf_of_sign_def split: if_splits)
  qed (use q in \<open>auto simp: Let_def zero_of_sign_def inf_of_sign_def split: if_splits\<close>)
  then have "q < 2 ^ 1024" by simp
  have "of_int (round q) \<le> q + 1/2" by (rule of_int_round_le)
  then have "c \<le> 2 ^ 1024 + 1/2" using \<open>q < 2 ^ 1024\<close> c by simp
  also have "\<dots> \<le> (2::rat) ^ 1075" by simp
  finally show "c \<le> 2 ^ 1075" .
qed

section \<open>Properties of the payment module\<close>

subsection \<open>The state-passing combinators\<close>

lemma io_bind_lift_Inl [simp]: "io_bind (io_lift (Inl e)) f s = (Inl e, s)"
  by (simp add: io_bind_def io_lift_def)

lemma io_bind_lift_Inr [simp]: "io_bind (io_lift (Inr x)) f s = f x s"
  by (simp add: io_bind_def io_lift_def)

lemma io_bind_return [simp]: "io_bind (io_return x) f s = f x s"
  by (simp add: io_bind_def io_return_def)

lemma io_bind_throw [simp]: "io_bind (io_throw e) f s = (Inl e, s)"
  by (simp add: io_bind_def io_throw_def)

lemma io_bind_emit [simp]: "io_bind (emit ev) f s = f () (s\<lparr>trace := trace s @ [ev]\<rparr>)"
  by (simp add: io_bind_def emit_def)

lemma io_bind_db_call:
  "io_bind (db_call env ev) f s =
     (case db_fault env (trace s) ev of
        Some e \<Rightarrow> (Inl e, s\<lparr>trace := trace s @ [ev]\<rparr>)
      | None \<Rightarrow> f () (s\<lparr>trace := trace s @ [ev]\<rparr>))"
  by (simp add: io_bind_def db_call_def split: option.splits)

lemma io_bind_current_Date [simp]: "io_bind (current_Date env) f s = f (new_Date env (trace s)) s"
  by (simp add: io_bind_def current_Date_def)

lemma io_bind_fetch:
  "io_bind (fetch env req) f s =
     (case fetch_result env (trace s) req of
        Inl e \<Rightarrow> (Inl e, s\<lparr>trace := trace s @ [Fetch req]\<rparr>)
      | Inr r \<Rightarrow> f r (s\<lparr>trace := trace s @ [Fetch req]\<rparr>))"
  by (simp add: io_bind_def fetch_def split: sum.splits)

lemma createFromPayload_eq:
  "createFromPayload env p s =
     (case db_fault env (trace s) (CreateFromPayload p) of
        Some e \<Rightarrow> (Inl e, s\<lparr>trace := trace s @ [CreateFromPayload p]\<rparr>)
      | None \<Rightarrow> (Inr p, s\<lparr>trace := trace s @ [CreateFromPayload p],
                          transactions := transactions s @ [p]\<rparr>))"
  by (simp add: createFromPayload_def io_bind_db_call split: option.splits)

subsection \<open>createTransaction\<close>

lemma js_member_Some_total:
  "js_member am k = Inr v \<Longrightarrow> \<exists>w. js_member am k' = Inr w"
  by (cases "(am, k)" rule: js_member.cases) auto

lemma parseFloat_string_literal [simp]:
  "parseFloat env (Some (JStr text)) = Inr (parseFloat_string env text)"
  by (simp add: parseFloat_def)

lemma createTransaction_reads:
  assumes "js_member (Some paymentInfo) ''transactions'' = Inr ts"
    and "js_member ts ''0'' = Inr transaction"
    and "js_member transaction ''amount'' = Inr am"
    and "js_member am ''total'' = Inr total_v"
    and "parseFloat env total_v = Inr captured"
  shows "\<exists>cur. js_member am ''currency'' = Inr cur \<and>
           createTransaction env order paymentInfo s =
           (case parseFloat env (Some (lodash_get transaction
                   ''related_resources.0.sale.transaction_fee.value'' (JStr ''0.0''))) of
              Inl e \<Rightarrow> (Inl e, s)
            | Inr fee \<Rightarrow>
                createFromPayload env
                  (createTransaction_payload env order paymentInfo captured fee cur) s)"
proof -
  obtain cur where "js_member am ''currency'' = Inr cur"
    using js_member_Some_total[OF assms(4)] by blast
  then show ?thesis using assms by (simp add: createTransaction_def split: sum.splits)
qed

lemma createTransaction_total_throws:
  assumes "js_member (Some paymentInfo) ''transactions'' = Inr ts"
    and "js_member ts ''0'' = Inr transaction"
    and "js_member transaction ''amount'' = Inr am"
    and "js_member am ''total'' = Inr total_v"
    and "parseFloat env total_v = Inl e"
  shows "createTransaction env order paymentInfo s = (Inl e, s)"
  using assms by (simp add: createTransaction_def)

lemma createTransaction_Inr:
  assumes "fst (createTransaction env order paymentInfo s) = Inr tx"
  shows "\<exists>ts transaction am total_v captured fee cur.
           js_member (Some paymentInfo) ''transactions'' = Inr ts \<and>
           js_member ts ''0'' = Inr transaction \<and>
           js_member transaction ''amount'' = Inr am \<and>
           js_member am ''total'' = Inr total_v \<and>
           parseFloat env total_v = Inr captured \<and>
           parseFloat env (Some (lodash_get transaction
              ''related_resources.0.sale.transaction_fee.value'' (JStr ''0.0''))) = Inr fee \<and>
           js_member am ''currency'' = Inr cur \<and>
           tx = createTransaction_payload env order paymentInfo captured fee cur \<and>
           db_fault env (trace s) (CreateFromPayload tx) = None \<and>
           snd (createTransaction env order paymentInfo s) =
             s\<lparr>trace := trace s @ [CreateFromPayload tx], transactions := transactions s @ [tx]\<rparr>"
proof -
  obtain ts where 1: "js_member (Some paymentInfo) ''transactions'' = Inr ts"
    using assms by (cases "js_member (Some paymentInfo) ''transactions''") (auto simp: createTransaction_def)
  obtain transaction where 2: "js_member ts ''0'' = Inr transaction"
    using assms 1 by (cases "js_member ts ''0''") (auto simp: createTransaction_def)
  obtain am where 3: "js_member transaction ''amount'' = Inr am"
    using assms 1 2 by (cases "js_member transaction ''amount''") (auto simp: createTransaction_def)
  obtain total_v where 4: "js_member am ''total'' = Inr total_v"
    using assms 1 2 3 by (cases "js_member am ''total''") (auto simp: createTransaction_def)
  obtain captured where 5: "parseFloat env total_v = Inr captured"
    using assms 1 2 3 4 by (cases "parseFloat env total_v") (auto simp: createTransaction_def)
  from createTransaction_reads[OF 1 2 3 4 5, of order s]
  obtain cur where 6: "js_member am ''currency'' = Inr cur"
    and eq: "createTransaction env order paymentInfo s =
           (case parseFloat env (Some (lodash_get transaction
                   ''related_resources.0.sale.transaction_fee.value'' (JStr ''0.0''))) of
              Inl e \<Rightarrow> (Inl e, s)
            | Inr fee \<Rightarrow>
                createFromPayload env
                  (createTransaction_payload env order paymentInfo captured fee cur) s)"
    by blast
  obtain fee where 7: "parseFloat env (Some (lodash_get transaction
              ''related_resources.0.sale.transaction_fee.value'' (JStr ''0.0''))) = Inr fee"
    using assms unfolding eq
    by (cases "parseFloat env (Some (lodash_get transaction
              ''related_resources.0.sale.transaction_fee.value'' (JStr ''0.0'')))") auto
  let ?p = "createTransaction_payload env order paymentInfo captured fee cur"
  have eq': "createTransaction env order paymentInfo s = createFromPayload env ?p s"
    by (simp add: eq 7)
  have 8: "tx = ?p \<and> db_fault env (trace s) (CreateFromPayload ?p) = None"
    using assms unfolding eq' createFromPayload_eq by (auto split: option.splits)
  have 9: "snd (createTransaction env order paymentInfo s) =
             s\<lparr>trace := trace s @ [CreateFromPayload tx], transactions := transactions s @ [tx]\<rparr>"
    using 8 by (simp add: eq' createFromPayload_eq)
  show ?thesis using 1 2 3 4 5 6 7 8 9 by (intro exI conjI) auto
qed

lemma payload_fields:
  "tx_amount (payload_transaction (createTransaction_payload env order pinfo captured fee cur))
     = totalAmount order"
  "amountInHostCurrency (payload_transaction (createTransaction_payload env order pinfo captured fee cur))
     = floatAmountToCents captured"
  "hostCurrencyFxRate (payload_transaction (createTransaction_payload env order pinfo captured fee cur))
     = js_div (totalAmount order) (floatAmountToCents captured)"
  "paymentProcessorFeeInHostCurrency
     (payload_transaction (createTransaction_payload env order pinfo captured fee cur))
     = floatAmountToCents fee"
  "OrderId (payload_transaction (createTransaction_payload env order pinfo captured fee cur))
     = order_id order"
  by (simp_all add: createTransaction_payload_def Let_def)

text \<open>
  C1, as the code has it. Take an Order whose \<open>totalAmount\<close> is a finite number \<open>t\<close> of
  magnitude at most \<open>2^53\<close> (an integer amount of cents is) and a capture payload whose
  first line item's total, parsed and converted to cents by
  \<open>floatAmountToCents(parseFloat(total))\<close>, is a number \<open>c\<close> greater than zero. Then
  every Transaction that \<open>createTransaction\<close> returns has \<open>amountInHostCurrency\<close> equal to
  those captured cents \<open>c\<close>, \<open>amount\<close> equal to \<open>t\<close>, and \<open>hostCurrencyFxRate\<close> equal to
  \<open>t / c\<close> as JavaScript computes it, a finite number \<open>r\<close> with \<open>r \<times> c\<close> within one minor
  unit of \<open>t\<close>; and \<open>createTransaction\<close> does return one, persisted, when the fee value
  converts to a string and the datastore accepts the write.
\<close>

theorem createTransaction_fx_rate_consistent:
  assumes "js_member (Some paymentInfo) ''transactions'' = Inr ts"
    and "js_member ts ''0'' = Inr transaction"
    and "js_member transaction ''amount'' = Inr am"
    and "js_member am ''total'' = Inr total_v"
    and "parseFloat env total_v = Inr captured"
    and "floatAmountToCents captured = Fin c" and "0 < c"
    and "totalAmount order = Fin t" and "\<bar>t\<bar> \<le> 2 ^ 53"
  shows "(\<forall>tx. fst (createTransaction env order paymentInfo s) = Inr tx \<longrightarrow>
            tx_amount (payload_transaction tx) = Fin t
            \<and> amountInHostCurrency (payload_transaction tx) = Fin c
            \<and> hostCurrencyFxRate (payload_transaction tx) = js_div (Fin t) (Fin c)
            \<and> (\<exists>r. num_value (hostCurrencyFxRate (payload_transaction tx)) = Some r
                    \<and> \<bar>r * c - t\<bar> \<le> 1))
       \<and> (\<forall>fee. parseFloat env (Some (lodash_get transaction
                     ''related_resources.0.sale.transaction_fee.value'' (JStr ''0.0''))) = Inr fee
                  \<and> (\<forall>p. db_fault env (trace s) (CreateFromPayload p) = None) \<longrightarrow>
              (\<exists>tx. fst (createTransaction env order paymentInfo s) = Inr tx
                    \<and> transactions (snd (createTransaction env order paymentInfo s))
                        = transactions s @ [tx]))"
proof -
  from createTransaction_reads[OF assms(1-5), of order s]
  obtain cur where eq: "createTransaction env order paymentInfo s =
           (case parseFloat env (Some (lodash_get transaction
                   ''related_resources.0.sale.transaction_fee.value'' (JStr ''0.0''))) of
              Inl e \<Rightarrow> (Inl e, s)
            | Inr fee \<Rightarrow>
                createFromPayload env
                  (createTransaction_payload env order paymentInfo captured fee cur) s)"
    by blast
  have c: "1 \<le> c" "c \<le> 2 ^ 1075"
    using floatAmountToCents_positive[OF assms(6,7)] by auto
  from fxrate_consistent[OF assms(9) c]
  obtain r where r: "num_value (js_div (Fin t) (Fin c)) = Some r" "\<bar>r * c - t\<bar> \<le> 1"
    by blast
  have fields: "tx_amount (payload_transaction p) = Fin t
            \<and> amountInHostCurrency (payload_transaction p) = Fin c
            \<and> hostCurrencyFxRate (payload_transaction p) = js_div (Fin t) (Fin c)
            \<and> (\<exists>r. num_value (hostCurrencyFxRate (payload_transaction p)) = Some r
                    \<and> \<bar>r * c - t\<bar> \<le> 1)"
    if "p = createTransaction_payload env order paymentInfo captured fee cur" for p fee
    using r by (auto simp: that payload_fields assms(6,8))
  have returned: "\<forall>tx. fst (createTransaction env order paymentInfo s) = Inr tx \<longrightarrow>
            tx_amount (payload_transaction tx) = Fin t
            \<and> amountInHostCurrency (payload_transaction tx) = Fin c
            \<and> hostCurrencyFxRate (payload_transaction tx) = js_div (Fin t) (Fin c)
            \<and> (\<exists>r. num_value (hostCurrencyFxRate (payload_transaction tx)) = Some r
                    \<and> \<bar>r * c - t\<bar> \<le> 1)"
  proof (intro allI impI)
    fix tx assume ok: "fst (createTransaction env order paymentInfo s) = Inr tx"
    then obtain fee where
      "tx = createTransaction_payload env order paymentInfo captured fee cur"
      unfolding eq createFromPayload_eq by (auto split: sum.splits option.splits)
    then show "tx_amount (payload_transaction tx) = Fin t
            \<and> amountInHostCurrency (payload_transaction tx) = Fin c
            \<and> hostCurrencyFxRate (payload_transaction tx) = js_div (Fin t) (Fin c)
            \<and> (\<exists>r. num_value (hostCurrencyFxRate (payload_transaction tx)) = Some r
                    \<and> \<bar>r * c - t\<bar> \<le> 1)"
      by (rule fields)
  qed
  have returns: "\<forall>fee. parseFloat env (Some (lodash_get transaction
                     ''related_resources.0.sale.transaction_fee.value'' (JStr ''0.0''))) = Inr fee
                  \<and> (\<forall>p. db_fault env (trace s) (CreateFromPayload p) = None) \<longrightarrow>
              (\<exists>tx. fst (createTransaction env order paymentInfo s) = Inr tx
                    \<and> transactions (snd (createTransaction env order paymentInfo s))
                        = transactions s @ [tx])"
    by (auto simp: eq createFromPayload_eq)
  show ?thesis using returned returns by (rule conjI)
qed

lemma array_index_0 [simp]: "array_index ''0'' = Some 0"
  by (simp add: array_index_def is_digit_def digits_value_def)

lemma createTransaction_capture_payload:
  "createTransaction env order (capture_payload amount_total others) s =
     (case parseFloat env (Some (lodash_get
             (Some (JObj ((''amount'', JObj [(''total'', JStr amount_total), (''currency'', JStr ''USD'')])
                          # others)))
             ''related_resources.0.sale.transaction_fee.value'' (JStr ''0.0''))) of
        Inl e \<Rightarrow> (Inl e, s)
      | Inr fee \<Rightarrow>
          createFromPayload env
            (createTransaction_payload env order (capture_payload amount_total others)
               (parseFloat_string env amount_total) fee (Some (JStr ''USD''))) s)"
  by (simp add: createTransaction_def capture_payload_def split: sum.splits)

lemma parseFloat_string_example [simp]: "parseFloat_string env_example = parseFloat_example"
  by (simp add: env_example_def env_with_def)

lemma cents_example: "floatAmountToCents (parseFloat_example ''10.00'') = Fin 1000"
  by code_simp

lemma cents_zero: "floatAmountToCents (parseFloat_example ''0.00'') = Fin 0"
  by code_simp

lemma cents_default: "floatAmountToCents (parseFloat_example ''0.0'') = Fin 0"
  by code_simp

lemma cents_fee: "floatAmountToCents (parseFloat_example ''0.59'') = Fin 59"
  by code_simp

lemma parse_tiny: "parseFloat_example ''0.004'' = Fin (1152921504606847 / 288230376151711744)"
  by code_simp

lemma cents_tiny: "floatAmountToCents (parseFloat_example ''0.004'') = Fin 0"
  by code_simp

lemma hostFee_example: "calcFee_example (Fin 1000) (Fin 5) = Fin 50"
  by code_simp

lemma hostFee_cents: "calcFee_example (Fin 59) (Fin 5) = Fin 3"
  by code_simp

lemma fl_one: "fl 1 = Fin 1"
  by code_simp

lemma rate_cents: "js_div (Fin 1000) (Fin 59) = Fin (4770762317129763 / 281474976710656)"
  by code_simp

lemma lodash_get_example:
  "lodash_get (Some (JObj [(''amount'', a)])) ''related_resources.0.sale.transaction_fee.value'' d = d"
  by (simp add: lodash_get_def cast_path_def)

lemma lodash_get_with_fee:
  "lodash_get (Some (JObj [(''amount'', a), (''related_resources'',
       JArr [JObj [(''sale'', JObj [(''transaction_fee'', JObj [(''value'', JStr ''0.59'')])])]])]))
     ''related_resources.0.sale.transaction_fee.value'' d = JStr ''0.59''"
  by (simp add: lodash_get_def cast_path_def)

lemma payload_example:
  "createTransaction_payload env_example order_example paymentInfo_example
     (parseFloat_example ''10.00'') (parseFloat_example ''0.0'') (Some (JStr ''USD''))
   = transaction_example"
  unfolding createTransaction_payload_def Let_def cents_example cents_default
  by (simp add: transaction_example_def order_example_def order_for_def fl_one
        hostFee_example env_example_def env_with_def)

lemma db_fault_example [simp]: "db_fault env_example h ev = None"
  by (simp add: env_example_def env_with_def)

lemma createTransaction_example_from:
  "createTransaction env_example order_example paymentInfo_example s =
     (Inr transaction_example,
      s\<lparr>trace := trace s @ [CreateFromPayload transaction_example],
        transactions := transactions s @ [transaction_example]\<rparr>)"
  unfolding paymentInfo_example_def createTransaction_capture_payload lodash_get_example
  by (simp add: payload_example[unfolded paymentInfo_example_def] createFromPayload_eq)

lemma createTransaction_example:
  "createTransaction env_example order_example paymentInfo_example state_empty =
     (Inr transaction_example,
      state_empty\<lparr>trace := [CreateFromPayload transaction_example],
                  transactions := [transaction_example]\<rparr>)"
  unfolding createTransaction_example_from by (simp add: state_empty_def)

lemma total_example: "totalAmount order_example = Fin 1000"
  by (simp add: order_example_def order_for_def)

lemma payload_cents:
  "createTransaction_payload env_example order_example paymentInfo_cents
     (parseFloat_example ''0.59'') (parseFloat_example ''0.0'') (Some (JStr ''USD''))
   = transaction_cents"
  unfolding createTransaction_payload_def Let_def cents_fee cents_default total_example rate_cents
  by (simp add: transaction_cents_def transaction_example_def order_example_def order_for_def
        hostFee_cents env_example_def env_with_def)

lemma createTransaction_cents_example:
  "createTransaction env_example order_example paymentInfo_cents state_empty =
     (Inr transaction_cents,
      state_empty\<lparr>trace := [CreateFromPayload transaction_cents],
                  transactions := [transaction_cents]\<rparr>)"
  unfolding paymentInfo_cents_def createTransaction_capture_payload lodash_get_example
  by (simp add: payload_cents[unfolded paymentInfo_cents_def] createFromPayload_eq state_empty_def)

text \<open>
  The Order of 1000 cents with a capture of \<open>"0.59"\<close>: 59 cents, and the rate is the
  binary64 number nearest to \<open>1000 / 59\<close>.
\<close>

theorem createTransaction_fx_rate_consistent_witness:
  "js_member (Some paymentInfo_cents) ''transactions'' =
     Inr (Some (JArr [JObj [(''amount'', JObj [(''total'', JStr ''0.59''), (''currency'', JStr ''USD'')])]]))
   \<and> parseFloat env_example (Some (JStr ''0.59'')) = Inr (parseFloat_example ''0.59'')
   \<and> floatAmountToCents (parseFloat_example ''0.59'') = Fin 59 \<and> (0 :: rat) < 59
   \<and> totalAmount order_example = Fin 1000 \<and> \<bar>1000 :: rat\<bar> \<le> 2 ^ 53
   \<and> fst (createTransaction env_example order_example paymentInfo_cents state_empty)
       = Inr transaction_cents
   \<and> transactions (snd (createTransaction env_example order_example paymentInfo_cents state_empty))
       = [transaction_cents]
   \<and> amountInHostCurrency (payload_transaction transaction_cents) = Fin 59
   \<and> hostCurrencyFxRate (payload_transaction transaction_cents)
       = Fin (4770762317129763 / 281474976710656)
   \<and> (\<exists>r. num_value (hostCurrencyFxRate (payload_transaction transaction_cents)) = Some r
           \<and> \<bar>r * 59 - 1000\<bar> \<le> 1)"
proof -
  let ?li = "JObj [(''amount'', JObj [(''total'', JStr ''0.59''), (''currency'', JStr ''USD'')])]"
  have 1: "js_member (Some paymentInfo_cents) ''transactions'' = Inr (Some (JArr [?li]))"
    by (simp add: paymentInfo_cents_def capture_payload_def)
  have 2: "js_member (Some (JArr [?li])) ''0'' = Inr (Some ?li)" by simp
  have 3: "js_member (Some ?li) ''amount'' =
             Inr (Some (JObj [(''total'', JStr ''0.59''), (''currency'', JStr ''USD'')]))" by simp
  have 4: "js_member (Some (JObj [(''total'', JStr ''0.59''), (''currency'', JStr ''USD'')])) ''total''
             = Inr (Some (JStr ''0.59''))" by simp
  have 5: "parseFloat env_example (Some (JStr ''0.59'')) = Inr (parseFloat_example ''0.59'')"
    by simp
  have 7: "(0 :: rat) < 59" by simp
  have 8: "totalAmount order_example = Fin 1000"
    by (simp add: order_example_def order_for_def)
  have 9: "\<bar>1000 :: rat\<bar> \<le> 2 ^ 53" by simp
  have run: "fst (createTransaction env_example order_example paymentInfo_cents state_empty)
               = Inr transaction_cents"
    "transactions (snd (createTransaction env_example order_example paymentInfo_cents state_empty))
       = [transaction_cents]"
    by (simp_all add: createTransaction_cents_example)
  have f: "amountInHostCurrency (payload_transaction transaction_cents) = Fin 59"
    "hostCurrencyFxRate (payload_transaction transaction_cents)
       = Fin (4770762317129763 / 281474976710656)"
    by (simp_all add: transaction_cents_def transaction_example_def)
  from createTransaction_fx_rate_consistent[OF 1 2 3 4 5 cents_fee 7 8 9, of state_empty] run(1)
  have "\<exists>r. num_value (hostCurrencyFxRate (payload_transaction transaction_cents)) = Some r
           \<and> \<bar>r * 59 - 1000\<bar> \<le> 1"
    by blast
  then show ?thesis using 1 5 cents_fee 7 8 9 run f by (intro conjI)
qed

lemma hostFee_zero: "calcFee_example (Fin 0) (Fin 5) = Fin 0"
  by code_simp

lemma payload_tiny:
  "createTransaction_payload env_example order_example paymentInfo_tiny
     (parseFloat_example ''0.004'') (parseFloat_example ''0.0'') (Some (JStr ''USD''))
   = transaction_tiny"
  unfolding createTransaction_payload_def Let_def cents_tiny cents_default
  by (simp add: transaction_tiny_def transaction_zero_def transaction_example_def order_example_def
        order_for_def inf_of_sign_def hostFee_zero env_example_def env_with_def)

lemma createTransaction_tiny_example:
  "createTransaction env_example order_example paymentInfo_tiny state_empty =
     (Inr transaction_tiny,
      state_empty\<lparr>trace := [CreateFromPayload transaction_tiny],
                  transactions := [transaction_tiny]\<rparr>)"
  unfolding paymentInfo_tiny_def createTransaction_capture_payload lodash_get_example
  by (simp add: payload_tiny[unfolded paymentInfo_tiny_def] createFromPayload_eq state_empty_def)

text \<open>
  A captured amount greater than zero with no consistent rate: the total \<open>"0.004"\<close>
  parses to a positive number, rounds to 0 cents, and the rate is \<open>Infinity\<close>.
\<close>

theorem createTransaction_tiny_amount_counterexample:
  "parseFloat env_example (Some (JStr ''0.004'')) = Inr (Fin (1152921504606847 / 288230376151711744))
   \<and> (0 :: rat) < 1152921504606847 / 288230376151711744
   \<and> totalAmount order_example = Fin 1000
   \<and> createTransaction env_example order_example paymentInfo_tiny state_empty =
       (Inr transaction_tiny,
        state_empty\<lparr>trace := [CreateFromPayload transaction_tiny],
                    transactions := [transaction_tiny]\<rparr>)
   \<and> amountInHostCurrency (payload_transaction transaction_tiny) = Fin 0
   \<and> hostCurrencyFxRate (payload_transaction transaction_tiny) = PosInf
   \<and> num_value (hostCurrencyFxRate (payload_transaction transaction_tiny)) = None"
proof -
  have "parseFloat env_example (Some (JStr ''0.004''))
          = Inr (Fin (1152921504606847 / 288230376151711744))"
    by (simp only: parseFloat_string_literal parseFloat_string_example parse_tiny)
  moreover have "(0 :: rat) < 1152921504606847 / 288230376151711744" by simp
  moreover have "totalAmount order_example = Fin 1000"
    by (simp add: order_example_def order_for_def)
  moreover have "amountInHostCurrency (payload_transaction transaction_tiny) = Fin 0"
    and "hostCurrencyFxRate (payload_transaction transaction_tiny) = PosInf"
    and "num_value (hostCurrencyFxRate (payload_transaction transaction_tiny)) = None"
    by (simp_all add: transaction_tiny_def transaction_zero_def transaction_example_def)
  ultimately show ?thesis using createTransaction_tiny_example by (intro conjI)
qed

text \<open>The spec's scenario with fee data: a fee of \<open>"0.59"\<close> becomes 59 cents.\<close>

lemma createTransaction_with_fee:
  "\<exists>p. createTransaction env_example order_example paymentInfo_with_fee s =
         createFromPayload env_example p s
       \<and> paymentProcessorFeeInHostCurrency (payload_transaction p) = Fin 59
       \<and> amountInHostCurrency (payload_transaction p) = Fin 1000"
proof -
  let ?p = "createTransaction_payload env_example order_example paymentInfo_with_fee
     (parseFloat_example ''10.00'') (parseFloat_example ''0.59'') (Some (JStr ''USD''))"
  have run: "createTransaction env_example order_example paymentInfo_with_fee s =
         createFromPayload env_example ?p s"
    unfolding paymentInfo_with_fee_def createTransaction_capture_payload lodash_get_with_fee
    by simp
  have fee: "paymentProcessorFeeInHostCurrency (payload_transaction ?p) = Fin 59"
    by (simp only: payload_fields cents_fee)
  have cents: "amountInHostCurrency (payload_transaction ?p) = Fin 1000"
    by (simp only: payload_fields cents_example)
  show ?thesis by (intro exI[of _ ?p] conjI run fee cents)
qed

subsection \<open>A captured amount of zero cents\<close>

lemma js_div_by_zero: "is_zero y \<Longrightarrow> num_value (js_div x y) = None"
  by (cases x; cases y) (auto simp: Let_def inf_of_sign_def)

lemma floatAmountToCents_zero: "is_zero x \<Longrightarrow> is_zero (floatAmountToCents x)"
  by (cases x) (auto simp: floatAmountToCents_def Let_def zero_of_sign_def)

text \<open>
  C2, as the code has it. When the total of the first line item parses to an amount of
  zero cents (zero, or a total that rounds to zero cents), \<open>createTransaction\<close> has no
  guard on the divisor and raises no error for it. If converting the processor-fee
  value to a string throws, that \<open>TypeError\<close> ends it before the division. Otherwise it
  divides by the zero, which in JavaScript gives \<open>Infinity\<close>, \<open>-Infinity\<close> or \<open>NaN\<close> and
  never a finite number, and hands the record with \<open>amountInHostCurrency\<close> zero and that
  rate to \<open>createFromPayload\<close>; when the datastore accepts the write, the Transaction is
  persisted and returned.
\<close>

theorem createTransaction_zero_amount:
  assumes "js_member (Some paymentInfo) ''transactions'' = Inr ts"
    and "js_member ts ''0'' = Inr transaction"
    and "js_member transaction ''amount'' = Inr am"
    and "js_member am ''total'' = Inr total_v"
    and "parseFloat env total_v = Inr captured"
    and "is_zero (floatAmountToCents captured)"
  shows "(\<forall>e. parseFloat env (Some (lodash_get transaction
                  ''related_resources.0.sale.transaction_fee.value'' (JStr ''0.0''))) = Inl e \<longrightarrow>
            createTransaction env order paymentInfo s = (Inl e, s))
       \<and> (\<forall>fee. parseFloat env (Some (lodash_get transaction
                  ''related_resources.0.sale.transaction_fee.value'' (JStr ''0.0''))) = Inr fee \<longrightarrow>
            (\<exists>p. createTransaction env order paymentInfo s = createFromPayload env p s
               \<and> is_zero (amountInHostCurrency (payload_transaction p))
               \<and> hostCurrencyFxRate (payload_transaction p) =
                   js_div (totalAmount order) (amountInHostCurrency (payload_transaction p))
               \<and> num_value (hostCurrencyFxRate (payload_transaction p)) = None
               \<and> (db_fault env (trace s) (CreateFromPayload p) = None \<longrightarrow>
                    fst (createTransaction env order paymentInfo s) = Inr p
                    \<and> transactions (snd (createTransaction env order paymentInfo s))
                        = transactions s @ [p])))"
proof -
  from createTransaction_reads[OF assms(1-5), of order s]
  obtain cur where eq: "createTransaction env order paymentInfo s =
           (case parseFloat env (Some (lodash_get transaction
                   ''related_resources.0.sale.transaction_fee.value'' (JStr ''0.0''))) of
              Inl e \<Rightarrow> (Inl e, s)
            | Inr fee \<Rightarrow>
                createFromPayload env
                  (createTransaction_payload env order paymentInfo captured fee cur) s)"
    by blast
  have throws: "\<forall>e. parseFloat env (Some (lodash_get transaction
                  ''related_resources.0.sale.transaction_fee.value'' (JStr ''0.0''))) = Inl e \<longrightarrow>
            createTransaction env order paymentInfo s = (Inl e, s)"
    by (simp add: eq)
  have divides: "\<exists>p. createTransaction env order paymentInfo s = createFromPayload env p s
               \<and> is_zero (amountInHostCurrency (payload_transaction p))
               \<and> hostCurrencyFxRate (payload_transaction p) =
                   js_div (totalAmount order) (amountInHostCurrency (payload_transaction p))
               \<and> num_value (hostCurrencyFxRate (payload_transaction p)) = None
               \<and> (db_fault env (trace s) (CreateFromPayload p) = None \<longrightarrow>
                    fst (createTransaction env order paymentInfo s) = Inr p
                    \<and> transactions (snd (createTransaction env order paymentInfo s))
                        = transactions s @ [p])"
    if fee: "parseFloat env (Some (lodash_get transaction
                  ''related_resources.0.sale.transaction_fee.value'' (JStr ''0.0''))) = Inr fee"
    for fee
  proof -
    let ?p = "createTransaction_payload env order paymentInfo captured fee cur"
    have eq': "createTransaction env order paymentInfo s = createFromPayload env ?p s"
      by (simp add: eq fee)
    have z: "is_zero (amountInHostCurrency (payload_transaction ?p))"
      using assms(6) by (simp add: payload_fields)
    have r: "hostCurrencyFxRate (payload_transaction ?p) =
               js_div (totalAmount order) (amountInHostCurrency (payload_transaction ?p))"
      by (simp add: payload_fields)
    have n: "num_value (hostCurrencyFxRate (payload_transaction ?p)) = None"
      unfolding r using z by (rule js_div_by_zero)
    have w: "db_fault env (trace s) (CreateFromPayload ?p) = None \<longrightarrow>
               fst (createTransaction env order paymentInfo s) = Inr ?p
               \<and> transactions (snd (createTransaction env order paymentInfo s)) = transactions s @ [?p]"
      by (simp add: eq' createFromPayload_eq)
    show ?thesis by (intro exI[of _ ?p] conjI eq' z r n w)
  qed
  show ?thesis using throws divides by (intro conjI allI impI) auto
qed

lemma payload_zero:
  "createTransaction_payload env_example order_example paymentInfo_zero
     (parseFloat_example ''0.00'') (parseFloat_example ''0.0'') (Some (JStr ''USD''))
   = transaction_zero"
  unfolding createTransaction_payload_def Let_def cents_zero cents_default
  by (simp add: transaction_zero_def transaction_example_def order_example_def order_for_def
        inf_of_sign_def hostFee_zero env_example_def env_with_def)

lemma createTransaction_zero_example:
  "createTransaction env_example order_example paymentInfo_zero state_empty =
     (Inr transaction_zero,
      state_empty\<lparr>trace := [CreateFromPayload transaction_zero],
                  transactions := [transaction_zero]\<rparr>)"
  unfolding paymentInfo_zero_def createTransaction_capture_payload lodash_get_example
  by (simp add: payload_zero[unfolded paymentInfo_zero_def] createFromPayload_eq state_empty_def)

theorem createTransaction_zero_amount_counterexample:
  "parseFloat env_example (Some (JStr ''0.00'')) = Inr (Fin 0)
   \<and> createTransaction env_example order_example paymentInfo_zero state_empty =
       (Inr transaction_zero,
        state_empty\<lparr>trace := [CreateFromPayload transaction_zero],
                    transactions := [transaction_zero]\<rparr>)
   \<and> amountInHostCurrency (payload_transaction transaction_zero) = Fin 0
   \<and> hostCurrencyFxRate (payload_transaction transaction_zero) = PosInf"
proof -
  have "parseFloat env_example (Some (JStr ''0.00'')) = Inr (Fin 0)"
    by (simp add: parseFloat_example_def)
  moreover have "amountInHostCurrency (payload_transaction transaction_zero) = Fin 0"
    and "hostCurrencyFxRate (payload_transaction transaction_zero) = PosInf"
    by (simp_all add: transaction_zero_def)
  ultimately show ?thesis using createTransaction_zero_example by (intro conjI)
qed

theorem createTransaction_zero_amount_witness:
  "js_member (Some paymentInfo_zero) ''transactions'' =
     Inr (Some (JArr [JObj [(''amount'', JObj [(''total'', JStr ''0.00''), (''currency'', JStr ''USD'')])]]))
   \<and> parseFloat env_example (Some (JStr ''0.00'')) = Inr (parseFloat_example ''0.00'')
   \<and> is_zero (floatAmountToCents (parseFloat_example ''0.00''))
   \<and> parseFloat env_example (Some (JStr ''0.0'')) = Inr (parseFloat_example ''0.0'')
   \<and> (\<exists>p. createTransaction env_example order_example paymentInfo_zero state_empty =
             createFromPayload env_example p state_empty
           \<and> is_zero (amountInHostCurrency (payload_transaction p))
           \<and> num_value (hostCurrencyFxRate (payload_transaction p)) = None
           \<and> fst (createTransaction env_example order_example paymentInfo_zero state_empty) = Inr p
           \<and> transactions (snd (createTransaction env_example order_example paymentInfo_zero state_empty))
               = transactions state_empty @ [p])"
proof -
  let ?li = "JObj [(''amount'', JObj [(''total'', JStr ''0.00''), (''currency'', JStr ''USD'')])]"
  have 1: "js_member (Some paymentInfo_zero) ''transactions'' = Inr (Some (JArr [?li]))"
    by (simp add: paymentInfo_zero_def capture_payload_def)
  have 2: "js_member (Some (JArr [?li])) ''0'' = Inr (Some ?li)" by simp
  have 3: "js_member (Some ?li) ''amount'' =
             Inr (Some (JObj [(''total'', JStr ''0.00''), (''currency'', JStr ''USD'')]))" by simp
  have 4: "js_member (Some (JObj [(''total'', JStr ''0.00''), (''currency'', JStr ''USD'')])) ''total''
             = Inr (Some (JStr ''0.00''))" by simp
  have 5: "parseFloat env_example (Some (JStr ''0.00'')) = Inr (parseFloat_example ''0.00'')"
    by simp
  have 6: "is_zero (floatAmountToCents (parseFloat_example ''0.00''))"
    by (simp add: cents_zero)
  have 7: "parseFloat env_example (Some (lodash_get (Some ?li)
             ''related_resources.0.sale.transaction_fee.value'' (JStr ''0.0'')))
           = Inr (parseFloat_example ''0.0'')"
    by (simp add: lodash_get_example)
  have 8: "parseFloat env_example (Some (JStr ''0.0'')) = Inr (parseFloat_example ''0.0'')"
    by simp
  have d: "db_fault env_example (trace state_empty) (CreateFromPayload p) = None" for p
    by simp
  from createTransaction_zero_amount[OF 1 2 3 4 5 6, of order_example state_empty,
      THEN conjunct2, rule_format, OF 7]
  obtain p where p:
    "createTransaction env_example order_example paymentInfo_zero state_empty =
       createFromPayload env_example p state_empty"
    "is_zero (amountInHostCurrency (payload_transaction p))"
    "num_value (hostCurrencyFxRate (payload_transaction p)) = None"
    "db_fault env_example (trace state_empty) (CreateFromPayload p) = None \<longrightarrow>
       fst (createTransaction env_example order_example paymentInfo_zero state_empty) = Inr p
       \<and> transactions (snd (createTransaction env_example order_example paymentInfo_zero state_empty))
           = transactions state_empty @ [p]"
    by (elim exE conjE) (rule that)
  have "\<exists>p. createTransaction env_example order_example paymentInfo_zero state_empty =
             createFromPayload env_example p state_empty
           \<and> is_zero (amountInHostCurrency (payload_transaction p))
           \<and> num_value (hostCurrencyFxRate (payload_transaction p)) = None
           \<and> fst (createTransaction env_example order_example paymentInfo_zero state_empty) = Inr p
           \<and> transactions (snd (createTransaction env_example order_example paymentInfo_zero state_empty))
               = transactions state_empty @ [p]"
    using p(1-3) p(4)[rule_format, OF d] by (intro exI[of _ p] conjI) simp_all
  then show ?thesis using 1 5 6 8 by (intro conjI)
qed

subsection \<open>An absent fee path\<close>

lemma resolve_None [simp]: "resolve None ks = None"
  by (induction ks) auto

lemma resolve_append: "resolve v (ks @ ks') = resolve (resolve v ks) ks'"
  by (induction ks arbitrary: v) auto

lemma base_get_resolve: "base_get v ks = resolve v ks"
proof (induction ks arbitrary: v)
  case Nil
  show ?case by simp
next
  case (Cons k ks)
  show ?case
  proof (cases v)
    case None
    then show ?thesis by simp
  next
    case (Some x)
    then show ?thesis using Cons.IH[of "js_prop x k"] by (cases x) auto
  qed
qed

lemma absent_resolve:
  assumes "absent_at_some_level v ks"
  shows "resolve (Some v) ks = None"
proof -
  from assms obtain n where "resolve (Some v) (take n ks) = None"
    by (auto simp: absent_at_some_level_def list_ex_iff)
  then have "resolve (Some v) (take n ks @ drop n ks) = None"
    by (simp only: resolve_append resolve_None)
  then show ?thesis by simp
qed

lemma split_dots_fee_path:
  "split_dots ''related_resources.0.sale.transaction_fee.value'' = fee_path"
  by (simp add: fee_path_def)

lemma lodash_get_absent:
  assumes "absent_at_some_level v fee_path"
    and "js_prop v ''related_resources.0.sale.transaction_fee.value'' = None"
  shows "lodash_get (Some v) ''related_resources.0.sale.transaction_fee.value'' d = d"
proof -
  have "cast_path ''related_resources.0.sale.transaction_fee.value'' v = fee_path"
    unfolding cast_path_def split_dots_fee_path using assms(2) by simp
  moreover have "base_get (Some v) fee_path = None"
    using absent_resolve[OF assms(1)] by (simp add: base_get_resolve)
  ultimately show ?thesis by (cases v) (simp_all add: lodash_get_def)
qed

lemma floatAmountToCents_0: "floatAmountToCents (Fin 0) = Fin 0"
  by (simp add: floatAmountToCents_def zero_of_sign_def)

text \<open>
  C3, as the code has it. When the first line item exists and has an \<open>amount\<close>, the path
  \<open>related_resources.0.sale.transaction_fee.value\<close> below the line item is absent at some
  level of nesting, and the line item has no property named by the whole dotted path,
  then \<open>createTransaction\<close> raises no error for the missing objects: the fee defaults to
  \<open>'0.0'\<close>, and \<open>parseFloat('0.0')\<close> is 0. If the total cannot be converted to a string,
  \<open>parseFloat\<close> of the total throws and that \<open>TypeError\<close> is the outcome. Otherwise the
  record handed to \<open>createFromPayload\<close> has processor fee 0 and the only error left is
  the datastore's. Every Transaction returned has processor fee 0.
\<close>

theorem createTransaction_fee_absent:
  assumes "js_member (Some paymentInfo) ''transactions'' = Inr ts"
    and "js_member ts ''0'' = Inr (Some transaction)"
    and "js_member (Some transaction) ''amount'' = Inr am"
    and "js_member am ''total'' = Inr total_v"
    and "absent_at_some_level transaction fee_path"
    and "js_prop transaction ''related_resources.0.sale.transaction_fee.value'' = None"
    and "parseFloat_string env ''0.0'' = Fin 0"
  shows "(\<forall>e. parseFloat env total_v = Inl e \<longrightarrow>
            createTransaction env order paymentInfo s = (Inl e, s))
       \<and> (\<forall>captured. parseFloat env total_v = Inr captured \<longrightarrow>
            (\<exists>p. createTransaction env order paymentInfo s = createFromPayload env p s
               \<and> paymentProcessorFeeInHostCurrency (payload_transaction p) = Fin 0
               \<and> (\<forall>e. fst (createTransaction env order paymentInfo s) = Inl e \<longrightarrow>
                      db_fault env (trace s) (CreateFromPayload p) = Some e)))
       \<and> (\<forall>tx. fst (createTransaction env order paymentInfo s) = Inr tx \<longrightarrow>
              paymentProcessorFeeInHostCurrency (payload_transaction tx) = Fin 0)"
proof -
  have dflt: "parseFloat env (Some (lodash_get (Some transaction)
                ''related_resources.0.sale.transaction_fee.value'' (JStr ''0.0''))) = Inr (Fin 0)"
    by (simp add: lodash_get_absent[OF assms(5,6)] assms(7))
  have throws: "\<forall>e. parseFloat env total_v = Inl e \<longrightarrow>
            createTransaction env order paymentInfo s = (Inl e, s)"
    using createTransaction_total_throws[OF assms(1-4)] by blast
  have converts: "\<exists>p. createTransaction env order paymentInfo s = createFromPayload env p s
               \<and> paymentProcessorFeeInHostCurrency (payload_transaction p) = Fin 0
               \<and> (\<forall>e. fst (createTransaction env order paymentInfo s) = Inl e \<longrightarrow>
                      db_fault env (trace s) (CreateFromPayload p) = Some e)"
    if captured: "parseFloat env total_v = Inr captured" for captured
  proof -
    from createTransaction_reads[OF assms(1-4) captured, of order s]
    obtain cur where eq: "createTransaction env order paymentInfo s =
        createFromPayload env (createTransaction_payload env order paymentInfo captured (Fin 0) cur) s"
      unfolding dflt by auto
    let ?p = "createTransaction_payload env order paymentInfo captured (Fin 0) cur"
    have fee: "paymentProcessorFeeInHostCurrency (payload_transaction ?p) = Fin 0"
      by (simp add: payload_fields floatAmountToCents_0)
    have err: "\<forall>e. fst (createTransaction env order paymentInfo s) = Inl e \<longrightarrow>
                  db_fault env (trace s) (CreateFromPayload ?p) = Some e"
      by (auto simp: eq createFromPayload_eq split: option.splits)
    show ?thesis by (intro exI[of _ ?p] conjI eq fee err)
  qed
  have returned: "\<forall>tx. fst (createTransaction env order paymentInfo s) = Inr tx \<longrightarrow>
              paymentProcessorFeeInHostCurrency (payload_transaction tx) = Fin 0"
  proof (intro allI impI)
    fix tx assume ok: "fst (createTransaction env order paymentInfo s) = Inr tx"
    show "paymentProcessorFeeInHostCurrency (payload_transaction tx) = Fin 0"
    proof (cases "parseFloat env total_v")
      case (Inl e)
      then show ?thesis using throws ok by simp
    next
      case (Inr captured)
      from converts[OF Inr] obtain p where
        "createTransaction env order paymentInfo s = createFromPayload env p s"
        "paymentProcessorFeeInHostCurrency (payload_transaction p) = Fin 0"
        by blast
      then show ?thesis using ok by (auto simp: createFromPayload_eq split: option.splits)
    qed
  qed
  show ?thesis using throws converts returned by (intro conjI allI impI) auto
qed

theorem createTransaction_fee_absent_witness:
  "absent_at_some_level (JObj [(''amount'', JObj [(''total'', JStr ''10.00''), (''currency'', JStr ''USD'')])]) fee_path
   \<and> parseFloat_string env_example ''0.0'' = Fin 0
   \<and> parseFloat env_example (Some (JStr ''10.00'')) = Inr (parseFloat_example ''10.00'')
   \<and> (\<exists>p. createTransaction env_example order_example paymentInfo_example state_empty =
             createFromPayload env_example p state_empty
           \<and> paymentProcessorFeeInHostCurrency (payload_transaction p) = Fin 0)
   \<and> fst (createTransaction env_example order_example paymentInfo_example state_empty) = Inr transaction_example
   \<and> paymentProcessorFeeInHostCurrency (payload_transaction transaction_example) = Fin 0"
proof -
  let ?li = "JObj [(''amount'', JObj [(''total'', JStr ''10.00''), (''currency'', JStr ''USD'')])]"
  have 1: "js_member (Some paymentInfo_example) ''transactions'' = Inr (Some (JArr [?li]))"
    by (simp add: paymentInfo_example_def capture_payload_def)
  have 2: "js_member (Some (JArr [?li])) ''0'' = Inr (Some ?li)" by simp
  have 3: "js_member (Some ?li) ''amount'' =
             Inr (Some (JObj [(''total'', JStr ''10.00''), (''currency'', JStr ''USD'')]))" by simp
  have 4: "js_member (Some (JObj [(''total'', JStr ''10.00''), (''currency'', JStr ''USD'')])) ''total''
             = Inr (Some (JStr ''10.00''))" by simp
  have 5: "absent_at_some_level ?li fee_path"
    by (simp add: absent_at_some_level_def fee_path_def)
  have 6: "js_prop ?li ''related_resources.0.sale.transaction_fee.value'' = None" by simp
  have 7: "parseFloat_string env_example ''0.0'' = Fin 0"
    by (simp add: parseFloat_example_def)
  have 8: "parseFloat env_example (Some (JStr ''10.00'')) = Inr (parseFloat_example ''10.00'')"
    by simp
  have run: "fst (createTransaction env_example order_example paymentInfo_example state_empty) = Inr transaction_example"
    by (simp add: createTransaction_example)
  from createTransaction_fee_absent[OF 1 2 3 4 5 6 7, of order_example state_empty] 8 run
  have "(\<exists>p. createTransaction env_example order_example paymentInfo_example state_empty =
             createFromPayload env_example p state_empty
           \<and> paymentProcessorFeeInHostCurrency (payload_transaction p) = Fin 0)"
    and "paymentProcessorFeeInHostCurrency (payload_transaction transaction_example) = Fin 0"
    by blast+
  then show ?thesis using 5 7 8 run by (intro conjI)
qed

theorem createTransaction_missing_line_item_counterexample:
  "resolve (Some paymentInfo_no_transaction) ([''transactions'', ''0''] @ fee_path) = None
   \<and> resolve (Some paymentInfo_no_transaction) [''transactions'', ''0''] = None
   \<and> createTransaction env_example order_example paymentInfo_no_transaction state_empty
       = (Inl (TypeError ''amount''), state_empty)"
  by (simp add: paymentInfo_no_transaction_def fee_path_def createTransaction_def)

lemma io_lift_apply [simp]: "io_lift r s = (r, s)"
  by (simp add: io_lift_def)

lemma io_return_apply [simp]: "io_return x s = (Inr x, s)"
  by (simp add: io_return_def)

lemma io_throw_apply [simp]: "io_throw e s = (Inl e, s)"
  by (simp add: io_throw_def)

subsection \<open>paypalUrl\<close>

lemma URL_example_token:
  "URL_toString_example ''https://api.sandbox.paypal.com/v1/oauth2/token''
     = Inr ''https://api.sandbox.paypal.com/v1/oauth2/token''"
  by code_simp

lemma URL_example_execute:
  "URL_toString_example ''https://api.sandbox.paypal.com/v1/payments/payment/PAY-1/execute''
     = Inr ''https://api.sandbox.paypal.com/v1/payments/payment/PAY-1/execute''"
  by code_simp

lemma URL_example_dots:
  "URL_toString_example ''https://api.sandbox.paypal.com/v1/..'' = Inr ''https://api.sandbox.paypal.com/''"
  by code_simp

lemma URL_example_dots_path:
  "URL_toString_example ''https://api.sandbox.paypal.com/v1/../v2/payments''
     = Inr ''https://api.sandbox.paypal.com/v2/payments''"
  by code_simp

text \<open>
  C7, as the code has it. A path that begins with \<open>/\<close> is rejected with
  \<open>Error("Please don't use absolute paths")\<close>. For every other path the result is
  \<open>new URL(baseUrl + path).toString()\<close>, the platform's serialisation of the base URL
  followed by the path: the concatenation itself whenever the serialiser leaves it as
  it is, and whatever the serialiser makes of it otherwise.
\<close>

theorem paypalUrl_absolute_rejected_relative_serialised:
  "(paypalUrl env (CHR ''/'' # rest) = Inl (Error ''Please don't use absolute paths''))
   \<and> (take 1 path \<noteq> ''/'' \<longrightarrow>
        paypalUrl env path =
          URL_toString env
            ((if paypal_payment_environment env = Some (JStr ''sandbox'')
              then ''https://api.sandbox.paypal.com/v1/'' else ''https://api.paypal.com/v1/'') @ path))
   \<and> (take 1 path \<noteq> ''/'' \<longrightarrow>
        URL_toString env
            ((if paypal_payment_environment env = Some (JStr ''sandbox'')
              then ''https://api.sandbox.paypal.com/v1/'' else ''https://api.paypal.com/v1/'') @ path)
          = Inr ((if paypal_payment_environment env = Some (JStr ''sandbox'')
              then ''https://api.sandbox.paypal.com/v1/'' else ''https://api.paypal.com/v1/'') @ path) \<longrightarrow>
        paypalUrl env path =
          Inr ((if paypal_payment_environment env = Some (JStr ''sandbox'')
              then ''https://api.sandbox.paypal.com/v1/'' else ''https://api.paypal.com/v1/'') @ path))"
  by (simp add: paypalUrl_def Let_def)

theorem paypalUrl_absolute_rejected_relative_serialised_witness:
  "paypalUrl env_example ''/v1/oauth2/token'' = Inl (Error ''Please don't use absolute paths'')
   \<and> take 1 ''oauth2/token'' \<noteq> ''/''
   \<and> URL_toString env_example (''https://api.sandbox.paypal.com/v1/'' @ ''oauth2/token'')
        = Inr (''https://api.sandbox.paypal.com/v1/'' @ ''oauth2/token'')
   \<and> paypalUrl env_example ''oauth2/token'' = Inr ''https://api.sandbox.paypal.com/v1/oauth2/token''"
proof -
  have e: "paypal_payment_environment env_example = Some (JStr ''sandbox'')"
    and u: "URL_toString env_example = URL_toString_example"
    by (simp_all add: env_example_def env_with_def)
  show ?thesis
    using paypalUrl_absolute_rejected_relative_serialised[of env_example "''v1/oauth2/token''" "''oauth2/token''"]
    by (simp add: e u URL_example_token)
qed

theorem paypalUrl_dot_segments_counterexample:
  "take 1 ''..'' \<noteq> ''/''
   \<and> paypalUrl env_example ''..'' = Inr ''https://api.sandbox.paypal.com/''
   \<and> paypalUrl env_example ''..'' \<noteq> Inr (''https://api.sandbox.paypal.com/v1/'' @ ''..'')"
proof -
  have e: "paypal_payment_environment env_example = Some (JStr ''sandbox'')"
    and u: "URL_toString env_example = URL_toString_example"
    by (simp_all add: env_example_def env_with_def)
  have "paypalUrl env_example ''..'' = Inr ''https://api.sandbox.paypal.com/''"
    using URL_example_dots by (simp add: paypalUrl_def e u)
  then show ?thesis by simp
qed

text \<open>
  C10. The environment is a two-way branch on equality with the string \<open>sandbox\<close>: with
  the configuration value \<open>'sandbox'\<close> the sandbox base URL is used, and with any other
  value, \<open>undefined\<close>, the empty string and misspellings among them, the production base
  URL; the value never makes \<open>paypalUrl\<close> fail.
\<close>

theorem paypalUrl_environment:
  "(take 1 path \<noteq> ''/'' \<longrightarrow>
      paypalUrl (env\<lparr>paypal_payment_environment := Some (JStr ''sandbox'')\<rparr>) path =
        URL_toString env (''https://api.sandbox.paypal.com/v1/'' @ path))
   \<and> (take 1 path \<noteq> ''/'' \<longrightarrow> v \<noteq> Some (JStr ''sandbox'') \<longrightarrow>
      paypalUrl (env\<lparr>paypal_payment_environment := v\<rparr>) path =
        URL_toString env (''https://api.paypal.com/v1/'' @ path))
   \<and> (take 1 path = ''/'' \<longrightarrow>
      paypalUrl (env\<lparr>paypal_payment_environment := v\<rparr>) path =
        Inl (Error ''Please don't use absolute paths''))"
  by (simp add: paypalUrl_def Let_def)

lemma URL_example_production:
  "URL_toString_example ''https://api.paypal.com/v1/oauth2/token''
     = Inr ''https://api.paypal.com/v1/oauth2/token''"
  by code_simp

theorem paypalUrl_environment_witness:
  "take 1 ''oauth2/token'' \<noteq> ''/''
   \<and> paypalUrl (env_example\<lparr>paypal_payment_environment := Some (JStr ''sandbox'')\<rparr>) ''oauth2/token''
       = Inr ''https://api.sandbox.paypal.com/v1/oauth2/token''
   \<and> None \<noteq> Some (JStr ''sandbox'')
   \<and> paypalUrl (env_example\<lparr>paypal_payment_environment := None\<rparr>) ''oauth2/token''
       = Inr ''https://api.paypal.com/v1/oauth2/token''
   \<and> Some (JStr ''Sandbox'') \<noteq> Some (JStr ''sandbox'')
   \<and> paypalUrl (env_example\<lparr>paypal_payment_environment := Some (JStr ''Sandbox'')\<rparr>) ''oauth2/token''
       = Inr ''https://api.paypal.com/v1/oauth2/token''
   \<and> paypalUrl (env_example\<lparr>paypal_payment_environment := Some (JStr '''')\<rparr>) ''oauth2/token''
       = Inr ''https://api.paypal.com/v1/oauth2/token''"
proof -
  have u: "URL_toString env_example = URL_toString_example"
    by (simp add: env_example_def env_with_def)
  show ?thesis
    using paypalUrl_environment[of "''oauth2/token''" env_example None]
      paypalUrl_environment[of "''oauth2/token''" env_example "Some (JStr ''Sandbox'')"]
      paypalUrl_environment[of "''oauth2/token''" env_example "Some (JStr '''')"]
    by (simp add: u URL_example_token URL_example_production)
qed

subsection \<open>retrieveOAuthToken\<close>

text \<open>The request \<open>retrieveOAuthToken\<close> sends.\<close>

lemma retrieveOAuthToken_eq:
  assumes "paypalUrl env ''oauth2/token'' = Inr url"
  shows "retrieveOAuthToken env clientId clientSecret s =
     (let req = \<lparr>req_url = url, req_method = ''post'',
                 req_headers = [(''Authorization'', ''Basic '' @ base64 (clientId @ '':'' @ clientSecret))],
                 req_body = TextBody ''grant_type=client_credentials''\<rparr>;
          s' = s\<lparr>trace := trace s @ [Fetch req]\<rparr>
      in case fetch_result env (trace s) req of
           Inl e \<Rightarrow> (Inl e, s')
         | Inr response \<Rightarrow>
             (case json_body response of
                Inl e \<Rightarrow> (Inl e, s')
              | Inr jsonOutput \<Rightarrow> (js_member (Some jsonOutput) ''access_token'', s')))"
  using assms
  by (simp add: retrieveOAuthToken_def Let_def io_bind_fetch split: sum.splits)

text \<open>
  C8, where the code departs from it. \<open>retrieveOAuthToken\<close> never looks at the status of
  the response: whenever the body of the answer parses to a JSON value other than
  \<open>null\<close>, it returns that value's \<open>access_token\<close>, which is \<open>undefined\<close> when the body
  has none, and raises nothing, whatever the status.
\<close>

theorem retrieveOAuthToken_ignores_status:
  assumes "paypalUrl env ''oauth2/token'' = Inr url"
    and "fetch_result env (trace s)
           \<lparr>req_url = url, req_method = ''post'',
            req_headers = [(''Authorization'', ''Basic '' @ base64 (clientId @ '':'' @ clientSecret))],
            req_body = TextBody ''grant_type=client_credentials''\<rparr> = Inr response"
    and "json_body response = Inr jsonOutput" and "jsonOutput \<noteq> JNull"
  shows "fst (retrieveOAuthToken env clientId clientSecret s) = Inr (js_prop jsonOutput ''access_token'')"
  using assms(2,3,4) unfolding retrieveOAuthToken_eq[OF assms(1)] Let_def
  by (cases jsonOutput) simp_all

lemma base64_example: "base64 ''id:secret'' = ''aWQ6c2VjcmV0''"
  by (simp add: b64_def base64_alphabet_def)

theorem retrieveOAuthToken_ignores_status_witness:
  "paypalUrl env_token_refused ''oauth2/token'' = Inr ''https://api.sandbox.paypal.com/v1/oauth2/token''
   \<and> resp_status token_refusal = 401 \<and> \<not> resp_ok token_refusal
   \<and> json_body token_refusal = Inr (JObj [(''error'', JStr ''invalid_client'')])
   \<and> fst (retrieveOAuthToken env_token_refused ''id'' ''secret'' state_empty) = Inr None"
proof -
  have e: "paypal_payment_environment env_token_refused = Some (JStr ''sandbox'')"
    and u: "URL_toString env_token_refused = URL_toString_example"
    by (simp_all add: env_token_refused_def env_with_def)
  have 1: "paypalUrl env_token_refused ''oauth2/token'' = Inr ''https://api.sandbox.paypal.com/v1/oauth2/token''"
    using URL_example_token by (simp add: paypalUrl_def e u)
  have 2: "fetch_result env_token_refused (trace state_empty)
           \<lparr>req_url = ''https://api.sandbox.paypal.com/v1/oauth2/token'', req_method = ''post'',
            req_headers = [(''Authorization'', ''Basic '' @ base64 (''id'' @ '':'' @ ''secret''))],
            req_body = TextBody ''grant_type=client_credentials''\<rparr> = Inr token_refusal"
    by (simp add: env_token_refused_def env_with_def)
  have 3: "json_body token_refusal = Inr (JObj [(''error'', JStr ''invalid_client'')])"
    by (simp add: token_refusal_def)
  have 4: "JObj [(''error'', JStr ''invalid_client'')] \<noteq> JNull" by simp
  have 5: "resp_status token_refusal = 401" "\<not> resp_ok token_refusal"
    by (simp_all add: token_refusal_def resp_ok_def)
  show ?thesis
    using retrieveOAuthToken_ignores_status[OF 1 2 3 4] 1 3 5 by simp
qed

subsection \<open>paypalRequest without usable credentials\<close>

lemma io_bind_apply:
  "io_bind m f s = (case m s of (Inl e, s') \<Rightarrow> (Inl e, s') | (Inr x, s') \<Rightarrow> f x s')"
  by (simp add: io_bind_def)

lemma sorted_le_last: "sorted xs \<Longrightarrow> x \<in> set xs \<Longrightarrow> (x::'a::linorder) \<le> last xs"
  by (induction xs) auto

lemma hd_rev_sort_key_most_recent:
  assumes "rev (sort_key createdAt accounts) = a # rest"
  shows "most_recent accounts a"
proof -
  let ?ys = "sort_key createdAt accounts"
  have ne: "?ys \<noteq> []" using assms by auto
  have a: "a = last ?ys" using assms ne by (metis hd_rev list.sel(1))
  have "a \<in> set ?ys" unfolding a using ne by (rule last_in_set)
  then have mem: "a \<in> set accounts" by simp
  have sorted: "sorted (map createdAt ?ys)" by (rule sorted_sort_key)
  have "createdAt b \<le> createdAt a" if "b \<in> set accounts" for b
  proof -
    have "createdAt b \<in> set (map createdAt ?ys)" using that by simp
    then have "createdAt b \<le> last (map createdAt ?ys)"
      by (rule sorted_le_last[OF sorted])
    then show ?thesis using ne by (simp add: last_map a)
  qed
  then show ?thesis using mem by (simp add: most_recent_def)
qed

lemma getConnectedAccounts_eq:
  "io_bind (getConnectedAccounts env host) f s =
     (case db_fault env (trace s) (GetConnectedAccounts (host_id host)) of
        Some e \<Rightarrow> (Inl e, s\<lparr>trace := trace s @ [GetConnectedAccounts (host_id host)]\<rparr>)
      | None \<Rightarrow> f (rev (sort_key createdAt (paypal_credentials host)))
                  (s\<lparr>trace := trace s @ [GetConnectedAccounts (host_id host)]\<rparr>))"
  by (simp add: getConnectedAccounts_def io_bind_def db_call_def io_return_def paypal_credentials_def
        split: option.splits)

lemma getHostCollective_eq:
  "io_bind (getHostCollective env c) f s =
     (case db_fault env (trace s) (GetHostCollective (collective_id c)) of
        Some e \<Rightarrow> (Inl e, s\<lparr>trace := trace s @ [GetHostCollective (collective_id c)]\<rparr>)
      | None \<Rightarrow> f (collective_host c) (s\<lparr>trace := trace s @ [GetHostCollective (collective_id c)]\<rparr>))"
  by (simp add: getHostCollective_def io_bind_def db_call_def io_return_def split: option.splits)

lemma findByPk_eq:
  "io_bind (findByPk env hostId) f s =
     (case db_fault env (trace s) (FindByPk hostId) of
        Some e \<Rightarrow> (Inl e, s\<lparr>trace := trace s @ [FindByPk hostId]\<rparr>)
      | None \<Rightarrow> f (find_collective env hostId) (s\<lparr>trace := trace s @ [FindByPk hostId]\<rparr>))"
  by (simp add: findByPk_def io_bind_def db_call_def io_return_def split: option.splits)

lemma paypalRequest_without_credentials:
  assumes "paypal_credentials host = [] \<or>
           (\<forall>a. most_recent (paypal_credentials host) a \<longrightarrow> lacks_clientId_or_token a)"
  shows "paypalRequest env urlPath body (Some host) s =
     (case db_fault env (trace s) (GetConnectedAccounts (host_id host)) of
        Some e \<Rightarrow> Inl e
      | None \<Rightarrow> Inl (Error ''Host doesn't support PayPal payments.''),
      s\<lparr>trace := trace s @ [GetConnectedAccounts (host_id host)]\<rparr>)"
proof (cases "rev (sort_key createdAt (paypal_credentials host))")
  case Nil
  then show ?thesis
    by (simp add: paypalRequest_def getConnectedAccounts_eq split: option.splits)
next
  case (Cons a rest)
  then have "paypal_credentials host \<noteq> []" by auto
  moreover have "most_recent (paypal_credentials host) a"
    using Cons by (rule hd_rev_sort_key_most_recent)
  ultimately have "lacks_clientId_or_token a" using assms by blast
  then show ?thesis
    by (auto simp: paypalRequest_def getConnectedAccounts_eq Cons lacks_clientId_or_token_def
          split: option.splits)
qed

lemma executePayment_without_credentials:
  assumes "collective_host (order_collective order) = Some host"
    and "paypal_credentials host = [] \<or>
           (\<forall>a. most_recent (paypal_credentials host) a \<longrightarrow> lacks_clientId_or_token a)"
  shows "isl (fst (executePayment env order s))"
    and "network_calls (trace (snd (executePayment env order s))) = network_calls (trace s)"
    and "db_fault env = (\<lambda>h ev. None) \<Longrightarrow> paymentMethod_data (order_paymentMethod order) = Some d \<Longrightarrow>
         d \<noteq> JNull \<Longrightarrow> js_template (Number_toString env) (js_prop d ''paymentID'') = Inr pid \<Longrightarrow>
         fst (executePayment env order s) = Inl (Error ''Host doesn't support PayPal payments.'')"
proof -
  let ?d = "paymentMethod_data (order_paymentMethod order)"
  have eq: "executePayment env order s =
     (case db_fault env (trace s) (GetHostCollective (collective_id (order_collective order))) of
        Some e \<Rightarrow> (Inl e, s\<lparr>trace := trace s @ [GetHostCollective (collective_id (order_collective order))]\<rparr>)
      | None \<Rightarrow>
         (case js_member ?d ''paymentID'' of
            Inl e \<Rightarrow> (Inl e, s\<lparr>trace := trace s @ [GetHostCollective (collective_id (order_collective order))]\<rparr>)
          | Inr paymentID \<Rightarrow>
             (case js_member ?d ''payerID'' of
                Inl e \<Rightarrow> (Inl e, s\<lparr>trace := trace s @ [GetHostCollective (collective_id (order_collective order))]\<rparr>)
              | Inr payerID \<Rightarrow>
                 (case js_template (Number_toString env) paymentID of
                    Inl e \<Rightarrow> (Inl e, s\<lparr>trace := trace s @ [GetHostCollective (collective_id (order_collective order))]\<rparr>)
                  | Inr paymentID_text \<Rightarrow>
                     paypalRequest env
                       (''payments/payment/'' @ paymentID_text @ ''/execute'')
                       (JObj (case payerID of None \<Rightarrow> [] | Some v \<Rightarrow> [(''payer_id'', v)]))
                       (Some host)
                       (s\<lparr>trace := trace s @ [GetHostCollective (collective_id (order_collective order))]\<rparr>)))))"
    by (simp add: executePayment_def getHostCollective_eq assms(1)
          split: option.splits sum.splits)
  show "isl (fst (executePayment env order s))"
    unfolding eq paypalRequest_without_credentials[OF assms(2)]
    by (simp split: option.splits sum.splits)
  show "network_calls (trace (snd (executePayment env order s))) = network_calls (trace s)"
    unfolding eq paypalRequest_without_credentials[OF assms(2)]
    by (simp add: network_calls_def split: option.splits sum.splits)
  show "fst (executePayment env order s) = Inl (Error ''Host doesn't support PayPal payments.'')"
    if "db_fault env = (\<lambda>h ev. None)" "paymentMethod_data (order_paymentMethod order) = Some d" "d \<noteq> JNull"
       "js_template (Number_toString env) (js_prop d ''paymentID'') = Inr pid"
    unfolding eq paypalRequest_without_credentials[OF assms(2)]
    using that by (cases d) simp_all
qed

lemma createPayment_without_credentials:
  assumes "js_member req_body_json ''hostId'' = Inr hostId"
    and "find_collective env hostId = Some host"
    and "paypal_credentials host = [] \<or>
           (\<forall>a. most_recent (paypal_credentials host) a \<longrightarrow> lacks_clientId_or_token a)"
  shows "isl (fst (createPayment env req_body_json s))"
    and "network_calls (trace (snd (createPayment env req_body_json s))) = network_calls (trace s)"
    and "db_fault env = (\<lambda>h ev. None) \<Longrightarrow>
         truthy (js_optional_member req_body_json ''amount'') \<Longrightarrow>
         truthy (js_optional_member req_body_json ''currency'') \<Longrightarrow>
         fst (createPayment env req_body_json s) = Inl (Error ''Host doesn't support PayPal payments.'')"
proof -
  obtain b where b: "req_body_json = Some b" "b \<noteq> JNull" and h: "hostId = js_prop b ''hostId''"
    using assms(1) by (cases "(req_body_json, ''hostId'')" rule: js_member.cases) auto
  have m: "js_member (Some b) k = Inr (js_prop b k)" for k using b(2) by (cases b) auto
  have eq: "createPayment env req_body_json s =
     (if \<not> truthy (js_prop b ''amount'') \<or> \<not> truthy (js_prop b ''currency'')
      then (Inl (Error ''Amount & Currency are required''), s)
      else (case db_fault env (trace s) (FindByPk hostId) of
              Some e \<Rightarrow> (Inl e, s\<lparr>trace := trace s @ [FindByPk hostId]\<rparr>)
            | None \<Rightarrow>
               (case db_fault env (trace s @ [FindByPk hostId]) (GetConnectedAccounts (host_id host)) of
                  Some e \<Rightarrow> Inl e
                | None \<Rightarrow> Inl (Error ''Host doesn't support PayPal payments.''),
                s\<lparr>trace := trace s @ [FindByPk hostId, GetConnectedAccounts (host_id host)]\<rparr>)))"
    unfolding createPayment_def b(1)
    by (auto simp: m h[symmetric] findByPk_eq assms(2) io_bind_apply[of "paypalRequest _ _ _ _"]
          paypalRequest_without_credentials[OF assms(3)] Let_def split: option.splits)
  show "isl (fst (createPayment env req_body_json s))"
    unfolding eq by (simp split: option.splits)
  show "network_calls (trace (snd (createPayment env req_body_json s))) = network_calls (trace s)"
    unfolding eq by (simp add: network_calls_def split: option.splits)
  show "fst (createPayment env req_body_json s) = Inl (Error ''Host doesn't support PayPal payments.'')"
    if "db_fault env = (\<lambda>h ev. None)" "truthy (js_optional_member req_body_json ''amount'')"
       "truthy (js_optional_member req_body_json ''currency'')"
  proof -
    have "js_optional_member req_body_json k = js_prop b k" for k
      using b by (cases b) auto
    then show ?thesis using that unfolding eq by simp
  qed
qed

text \<open>
  C5. When the host has no PayPal account that is not deleted, or every most recently
  created one of them lacks a client id or a token, \<open>paypalRequest\<close> fails after the
  credential query and before any network call: with
  \<open>Error("Host doesn't support PayPal payments.")\<close> when the query itself succeeds (the
  spec's ConfigurationError), and with the datastore's error otherwise. No token
  exchange and no payment request occurs, and so \<open>executePayment\<close> and \<open>createPayment\<close>
  on behalf of such a host fail without a network call too.
\<close>

theorem paypalRequest_fails_before_network:
  assumes "paypal_credentials host = [] \<or>
           (\<forall>a. most_recent (paypal_credentials host) a \<longrightarrow> lacks_clientId_or_token a)"
  shows "(\<exists>e. paypalRequest env urlPath body (Some host) s =
                (Inl e, s\<lparr>trace := trace s @ [GetConnectedAccounts (host_id host)]\<rparr>)
              \<and> (db_fault env (trace s) (GetConnectedAccounts (host_id host)) = None \<longrightarrow>
                   e = Error ''Host doesn't support PayPal payments.''))
         \<and> network_calls (trace (snd (paypalRequest env urlPath body (Some host) s)))
             = network_calls (trace s)
         \<and> (collective_host (order_collective order) = Some host \<longrightarrow>
               isl (fst (executePayment env order s))
               \<and> network_calls (trace (snd (executePayment env order s))) = network_calls (trace s))
         \<and> (js_member req_body_json ''hostId'' = Inr hostId \<and> find_collective env hostId = Some host \<longrightarrow>
               isl (fst (createPayment env req_body_json s))
               \<and> network_calls (trace (snd (createPayment env req_body_json s))) = network_calls (trace s))"
proof (intro conjI impI)
  show "\<exists>e. paypalRequest env urlPath body (Some host) s =
                (Inl e, s\<lparr>trace := trace s @ [GetConnectedAccounts (host_id host)]\<rparr>)
              \<and> (db_fault env (trace s) (GetConnectedAccounts (host_id host)) = None \<longrightarrow>
                   e = Error ''Host doesn't support PayPal payments.'')"
    unfolding paypalRequest_without_credentials[OF assms]
    by (cases "db_fault env (trace s) (GetConnectedAccounts (host_id host))") simp_all
  show "network_calls (trace (snd (paypalRequest env urlPath body (Some host) s))) = network_calls (trace s)"
    unfolding paypalRequest_without_credentials[OF assms] by (simp add: network_calls_def)
next
  assume h: "collective_host (order_collective order) = Some host"
  show "isl (fst (executePayment env order s))"
    using h assms by (rule executePayment_without_credentials(1))
  show "network_calls (trace (snd (executePayment env order s))) = network_calls (trace s)"
    using h assms by (rule executePayment_without_credentials(2))
next
  assume h: "js_member req_body_json ''hostId'' = Inr hostId \<and> find_collective env hostId = Some host"
  show "isl (fst (createPayment env req_body_json s))"
    using h assms by (intro createPayment_without_credentials(1)) auto
  show "network_calls (trace (snd (createPayment env req_body_json s))) = network_calls (trace s)"
    using h assms by (intro createPayment_without_credentials(2)) auto
qed

lemma credentials_none: "paypal_credentials host_without_paypal = []"
  by (simp add: paypal_credentials_def host_without_paypal_def)

lemma credentials_incomplete:
  "most_recent (paypal_credentials host_incomplete) a \<Longrightarrow> lacks_clientId_or_token a"
  by (auto simp: most_recent_def paypal_credentials_def host_incomplete_def lacks_clientId_or_token_def)

theorem paypalRequest_fails_before_network_witness:
  "paypal_credentials host_without_paypal = []
   \<and> paypalRequest env_example ''payments/payment/PAY-1/execute'' (JObj [(''payer_id'', JStr ''P1'')])
        (Some host_without_paypal) state_empty
       = (Inl (Error ''Host doesn't support PayPal payments.''),
          state_empty\<lparr>trace := [GetConnectedAccounts 8]\<rparr>)
   \<and> collective_host (order_collective (order_for (Some host_without_paypal))) = Some host_without_paypal
   \<and> isl (fst (executePayment env_example (order_for (Some host_without_paypal)) state_empty))
   \<and> network_calls (trace (snd (executePayment env_example (order_for (Some host_without_paypal)) state_empty))) = []
   \<and> length (paypal_credentials host_incomplete) = 2
   \<and> paypalRequest env_example ''payments/payment/PAY-1/execute'' (JObj [(''payer_id'', JStr ''P1'')])
        (Some host_incomplete) state_empty
       = (Inl (Error ''Host doesn't support PayPal payments.''),
          state_empty\<lparr>trace := [GetConnectedAccounts 9]\<rparr>)"
proof -
  have 1: "paypal_credentials host_without_paypal = [] \<or>
           (\<forall>a. most_recent (paypal_credentials host_without_paypal) a \<longrightarrow> lacks_clientId_or_token a)"
    using credentials_none by simp
  have 2: "paypal_credentials host_incomplete = [] \<or>
           (\<forall>a. most_recent (paypal_credentials host_incomplete) a \<longrightarrow> lacks_clientId_or_token a)"
    using credentials_incomplete by blast
  have h: "collective_host (order_collective (order_for (Some host_without_paypal))) = Some host_without_paypal"
    by (simp add: order_for_def)
  have t: "trace state_empty = []" "network_calls [] = []"
    by (simp_all add: state_empty_def network_calls_def)
  have two: "length (paypal_credentials host_incomplete) = 2"
    by (simp add: paypal_credentials_def host_incomplete_def)
  have i: "host_id host_without_paypal = 8" "host_id host_incomplete = 9"
    by (simp_all add: host_without_paypal_def host_incomplete_def)
  show ?thesis
    using paypalRequest_fails_before_network[OF 1, of env_example
            "''payments/payment/PAY-1/execute''" "JObj [(''payer_id'', JStr ''P1'')]" state_empty
            "order_for (Some host_without_paypal)" None None]
      paypalRequest_fails_before_network[OF 2, of env_example
            "''payments/payment/PAY-1/execute''" "JObj [(''payer_id'', JStr ''P1'')]" state_empty
            "order_for (Some host_without_paypal)" None None]
      credentials_none h two
    by (auto simp: t i)
qed

subsection \<open>paypalRequest with credentials\<close>

lemma paypalRequest_rejected_eq:
  "paypalRequest_rejected env result s =
     (case json_body result of
        Inl e \<Rightarrow> (Inl (Error ''PayPal payment rejected''),
                  s\<lparr>trace := trace s @ [LoggerError ''PayPal payment failed'' result (Inl e)]\<rparr>)
      | Inr parsed \<Rightarrow>
          (case js_member (Some parsed) ''message'' of
             Inl e \<Rightarrow> (Inl (Error ''PayPal payment rejected''),
                       s\<lparr>trace := trace s @ [LoggerError ''PayPal payment failed'' result (Inl e)]\<rparr>)
           | Inr message \<Rightarrow>
               (case js_template (Number_toString env) message of
                  Inl e \<Rightarrow> (Inl (Error ''PayPal payment rejected''),
                       s\<lparr>trace := trace s @ [LoggerError ''PayPal payment failed'' result (Inl e)]\<rparr>)
                | Inr message_text \<Rightarrow>
                    (Inl (Error (''PayPal payment rejected: '' @ message_text)),
                     s\<lparr>trace := trace s @ [LoggerError ''PayPal payment failed'' result (Inr parsed)]\<rparr>))))"
  by (simp add: paypalRequest_rejected_def Let_def split: sum.splits)

lemma paypalRequest_with_credentials:
  assumes "db_fault env (trace s) (GetConnectedAccounts (host_id host)) = None"
    and "rev (sort_key createdAt (paypal_credentials host)) = paypal # others"
    and "account_clientId paypal = Some clientId" and "account_token paypal = Some clientSecret"
    and "clientId \<noteq> []" and "clientSecret \<noteq> []"
    and "paypalUrl env urlPath = Inr url"
    and "retrieveOAuthToken env clientId clientSecret
           (s\<lparr>trace := trace s @ [GetConnectedAccounts (host_id host)]\<rparr>) = (Inr token, s1)"
    and "js_template (Number_toString env) token = Inr token_text"
  shows "paypalRequest env urlPath body (Some host) s =
     (let params = \<lparr>req_url = url, req_method = ''POST'',
                    req_headers = [(''Authorization'', ''Bearer '' @ token_text),
                                   (''Content-Type'', ''application/json'')],
                    req_body = JsonBody body\<rparr>;
          s2 = s1\<lparr>trace := trace s1 @ [Fetch params]\<rparr>
      in case fetch_result env (trace s1) params of
           Inl e \<Rightarrow> (Inl e, s2)
         | Inr result \<Rightarrow>
             if \<not> resp_ok result then paypalRequest_rejected env result s2
             else (json_body result, s2))"
  using assms
  by (simp add: paypalRequest_def getConnectedAccounts_eq Let_def
        io_bind_apply[of "retrieveOAuthToken _ _ _"] io_bind_fetch split: sum.splits)

text \<open>
  C6, as the code has it. Once the credentials are found, the token is retrieved and
  converts to a string, \<open>paypalRequest\<close> sends the request and the provider answers with
  \<open>result\<close>. For a status outside 200 to 299 it always raises an \<open>Error\<close> and returns no
  value, after logging the raw response with the error detail. When the body parses to
  a JSON value other than \<open>null\<close> and its \<open>message\<close> converts to a string, the error's
  message is \<open>PayPal payment rejected: \<close> followed by that string, and the detail is the
  parsed body. In the three other cases the message is \<open>PayPal payment rejected\<close> alone
  and the detail is the failure: the parse failure when the body does not parse, the
  \<open>TypeError\<close> of reading \<open>message\<close> when the body is \<open>null\<close>, and the \<open>TypeError\<close> of the
  conversion when \<open>message\<close> does not convert to a string. For a status from 200 to 299
  the outcome is that of \<open>result.json()\<close>: the parsed body when the body parses, and the
  parse failure, raised, when it does not.
\<close>

theorem paypalRequest_response_handling:
  fixes env :: env and body :: json
  defines "params url token_text \<equiv>
             \<lparr>req_url = url, req_method = ''POST'',
              req_headers = [(''Authorization'', ''Bearer '' @ token_text),
                             (''Content-Type'', ''application/json'')],
              req_body = JsonBody body\<rparr>"
  assumes "db_fault env (trace s) (GetConnectedAccounts (host_id host)) = None"
    and "rev (sort_key createdAt (paypal_credentials host)) = paypal # others"
    and "account_clientId paypal = Some clientId" and "account_token paypal = Some clientSecret"
    and "clientId \<noteq> []" and "clientSecret \<noteq> []"
    and "paypalUrl env urlPath = Inr url"
    and "retrieveOAuthToken env clientId clientSecret
           (s\<lparr>trace := trace s @ [GetConnectedAccounts (host_id host)]\<rparr>) = (Inr token, s1)"
    and "js_template (Number_toString env) token = Inr token_text"
    and "fetch_result env (trace s1) (params url token_text) = Inr result"
  shows "(resp_status result < 200 \<or> 299 < resp_status result \<longrightarrow>
           (\<exists>msg errorData.
              paypalRequest env urlPath body (Some host) s =
                (Inl (Error msg),
                 s1\<lparr>trace := trace s1 @ [Fetch (params url token_text),
                                           LoggerError ''PayPal payment failed'' result errorData]\<rparr>)
              \<and> (\<forall>parsed message_text.
                    json_body result = Inr parsed \<and> parsed \<noteq> JNull
                    \<and> js_template (Number_toString env) (js_prop parsed ''message'')
                        = Inr message_text \<longrightarrow>
                    msg = ''PayPal payment rejected: '' @ message_text
                    \<and> errorData = Inr parsed)
              \<and> (\<forall>parsed e.
                    json_body result = Inr parsed \<and> parsed \<noteq> JNull
                    \<and> js_template (Number_toString env) (js_prop parsed ''message'') = Inl e \<longrightarrow>
                    msg = ''PayPal payment rejected'' \<and> errorData = Inl e)
              \<and> (\<forall>e. json_body result = Inl e \<longrightarrow>
                    msg = ''PayPal payment rejected'' \<and> errorData = Inl e)
              \<and> (json_body result = Inr JNull \<longrightarrow>
                    msg = ''PayPal payment rejected'' \<and> errorData = Inl (TypeError ''message''))))
       \<and> (200 \<le> resp_status result \<and> resp_status result \<le> 299 \<longrightarrow>
            paypalRequest env urlPath body (Some host) s =
              (json_body result, s1\<lparr>trace := trace s1 @ [Fetch (params url token_text)]\<rparr>))"
proof -
  let ?s2 = "s1\<lparr>trace := trace s1 @ [Fetch (params url token_text)]\<rparr>"
  have eq: "paypalRequest env urlPath body (Some host) s =
              (if \<not> resp_ok result then paypalRequest_rejected env result ?s2
               else (json_body result, ?s2))"
    using paypalRequest_with_credentials[OF assms(2-10), of body] assms(11)
    by (simp add: Let_def params_def)
  have ok: "200 \<le> resp_status result \<and> resp_status result \<le> 299 \<longrightarrow>
            paypalRequest env urlPath body (Some host) s = (json_body result, ?s2)"
    by (simp add: eq resp_ok_def)
  have rejected: "\<exists>msg errorData.
              paypalRequest env urlPath body (Some host) s =
                (Inl (Error msg),
                 s1\<lparr>trace := trace s1 @ [Fetch (params url token_text),
                                           LoggerError ''PayPal payment failed'' result errorData]\<rparr>)
              \<and> (\<forall>parsed message_text.
                    json_body result = Inr parsed \<and> parsed \<noteq> JNull
                    \<and> js_template (Number_toString env) (js_prop parsed ''message'')
                        = Inr message_text \<longrightarrow>
                    msg = ''PayPal payment rejected: '' @ message_text
                    \<and> errorData = Inr parsed)
              \<and> (\<forall>parsed e.
                    json_body result = Inr parsed \<and> parsed \<noteq> JNull
                    \<and> js_template (Number_toString env) (js_prop parsed ''message'') = Inl e \<longrightarrow>
                    msg = ''PayPal payment rejected'' \<and> errorData = Inl e)
              \<and> (\<forall>e. json_body result = Inl e \<longrightarrow>
                    msg = ''PayPal payment rejected'' \<and> errorData = Inl e)
              \<and> (json_body result = Inr JNull \<longrightarrow>
                    msg = ''PayPal payment rejected'' \<and> errorData = Inl (TypeError ''message''))"
    if bad: "resp_status result < 200 \<or> 299 < resp_status result"
  proof -
    have eq': "paypalRequest env urlPath body (Some host) s = paypalRequest_rejected env result ?s2"
      using bad by (auto simp: eq resp_ok_def)
    show ?thesis
    proof (cases "json_body result")
      case (Inl e)
      then show ?thesis by (simp add: eq' paypalRequest_rejected_eq)
    next
      case (Inr parsed)
      show ?thesis
      proof (cases "parsed = JNull")
        case True
        then show ?thesis using Inr by (simp add: eq' paypalRequest_rejected_eq)
      next
        case False
        then have m: "js_member (Some parsed) ''message'' = Inr (js_prop parsed ''message'')"
          by (cases parsed) auto
        show ?thesis
        proof (cases "js_template (Number_toString env) (js_prop parsed ''message'')")
          case (Inl e)
          then show ?thesis using Inr False m by (simp add: eq' paypalRequest_rejected_eq)
        next
          case (Inr message_text)
          then show ?thesis using \<open>json_body result = Inr parsed\<close> False m
            by (simp add: eq' paypalRequest_rejected_eq)
        qed
      qed
    qed
  qed
  show ?thesis using ok rejected by blast
qed

lemma paypalUrl_example:
  assumes "paypal_payment_environment env = Some (JStr ''sandbox'')"
    and "URL_toString env = URL_toString_example"
  shows "paypalUrl env ''oauth2/token'' = Inr ''https://api.sandbox.paypal.com/v1/oauth2/token''"
    and "paypalUrl env ''payments/payment/PAY-1/execute''
           = Inr ''https://api.sandbox.paypal.com/v1/payments/payment/PAY-1/execute''"
  using URL_example_token URL_example_execute by (simp_all add: paypalUrl_def assms)

lemma env_with_fields:
  "paypal_payment_environment (env_with e t a) = e"
  "URL_toString (env_with e t a) = URL_toString_example"
  "db_fault (env_with e t a) h ev = None"
  "fetch_result (env_with e t a) h req =
     (if req_body req = TextBody ''grant_type=client_credentials'' then Inr t else Inr a)"
  "new_Date (env_with e t a) h = length h"
  "Number_toString (env_with e t a) n = ''NaN''"
  by (simp_all add: env_with_def)

lemma retrieveOAuthToken_example:
  "retrieveOAuthToken (env_with (Some (JStr ''sandbox'')) token_response a) ''id'' ''secret'' s =
     (Inr (Some (JStr ''A21AA'')), s\<lparr>trace := trace s @ [Fetch token_request_example]\<rparr>)"
  using paypalUrl_example(1)[of "env_with (Some (JStr ''sandbox'')) token_response a"]
  by (simp add: retrieveOAuthToken_eq Let_def env_with_fields b64_def base64_alphabet_def
        token_response_def token_request_example_def)

lemma credentials_example:
  "rev (sort_key createdAt (paypal_credentials host_example)) =
     [\<lparr>service = ''paypal'', deletedAt = None, createdAt = 1,
       account_clientId = Some ''id'', account_token = Some ''secret''\<rparr>]"
  by (simp add: paypal_credentials_def host_example_def)

lemma paypalRequest_example:
  "paypalRequest (env_with (Some (JStr ''sandbox'')) token_response a)
     ''payments/payment/PAY-1/execute'' (JObj [(''payer_id'', JStr ''P1'')]) (Some host_example) s =
     (let s2 = s\<lparr>trace := trace s @ [GetConnectedAccounts 7, Fetch token_request_example,
                                      Fetch execute_request_example]\<rparr>
      in if \<not> resp_ok a then paypalRequest_rejected (env_with (Some (JStr ''sandbox'')) token_response a) a s2
         else (json_body a, s2))"
proof -
  let ?env = "env_with (Some (JStr ''sandbox'')) token_response a"
  have 1: "db_fault ?env (trace s) (GetConnectedAccounts (host_id host_example)) = None"
    by (simp add: env_with_fields)
  have 7: "paypalUrl ?env ''payments/payment/PAY-1/execute''
           = Inr ''https://api.sandbox.paypal.com/v1/payments/payment/PAY-1/execute''"
    by (rule paypalUrl_example(2)) (simp_all add: env_with_fields)
  have 8: "retrieveOAuthToken ?env ''id'' ''secret''
             (s\<lparr>trace := trace s @ [GetConnectedAccounts (host_id host_example)]\<rparr>)
           = (Inr (Some (JStr ''A21AA'')),
              s\<lparr>trace := trace s @ [GetConnectedAccounts (host_id host_example)]\<rparr>
               \<lparr>trace := trace (s\<lparr>trace := trace s @ [GetConnectedAccounts (host_id host_example)]\<rparr>)
                            @ [Fetch token_request_example]\<rparr>)"
    by (rule retrieveOAuthToken_example)
  have 9: "js_template (Number_toString ?env) (Some (JStr ''A21AA'')) = Inr ''A21AA''"
    by simp
  show ?thesis
    unfolding paypalRequest_with_credentials[OF 1 credentials_example _ _ _ _ 7 8 9, simplified]
    by (simp add: Let_def env_with_fields execute_request_example_def host_example_def)
qed

theorem paypalRequest_response_handling_witness:
  "resp_status rejection = 400
   \<and> json_body rejection = Inr (JObj [(''name'', JStr ''PAYMENT_ALREADY_DONE''),
                                       (''message'', JStr ''Payment already done'')])
   \<and> paypalRequest env_rejecting ''payments/payment/PAY-1/execute'' (JObj [(''payer_id'', JStr ''P1'')])
        (Some host_example) state_empty
       = (Inl (Error ''PayPal payment rejected: Payment already done''),
          state_empty\<lparr>trace := [GetConnectedAccounts 7, Fetch token_request_example,
                                 Fetch execute_request_example,
                                 LoggerError ''PayPal payment failed'' rejection (json_body rejection)]\<rparr>)
   \<and> paypalRequest env_example ''payments/payment/PAY-1/execute'' (JObj [(''payer_id'', JStr ''P1'')])
        (Some host_example) state_empty
       = (Inr paymentInfo_example,
          state_empty\<lparr>trace := [GetConnectedAccounts 7, Fetch token_request_example,
                                 Fetch execute_request_example]\<rparr>)"
proof -
  let ?acct = "\<lparr>service = ''paypal'', deletedAt = None, createdAt = 1,
       account_clientId = Some ''id'', account_token = Some ''secret''\<rparr>"
  let ?url = "''https://api.sandbox.paypal.com/v1/payments/payment/PAY-1/execute''"
  let ?s1 = "state_empty\<lparr>trace := [GetConnectedAccounts 7, Fetch token_request_example]\<rparr>"
  have st: "state_empty\<lparr>trace := trace state_empty @ [GetConnectedAccounts (host_id host_example)]\<rparr>
              = state_empty\<lparr>trace := [GetConnectedAccounts 7]\<rparr>"
    by (simp add: state_empty_def host_example_def)
  have A: "db_fault env (trace state_empty) (GetConnectedAccounts (host_id host_example)) = None"
      "paypalUrl env ''payments/payment/PAY-1/execute'' = Inr ?url"
      "retrieveOAuthToken env ''id'' ''secret''
         (state_empty\<lparr>trace := trace state_empty @ [GetConnectedAccounts (host_id host_example)]\<rparr>)
        = (Inr (Some (JStr ''A21AA'')), ?s1)"
      "js_template (Number_toString env) (Some (JStr ''A21AA'')) = Inr ''A21AA''"
      "fetch_result env (trace ?s1)
         \<lparr>req_url = ?url, req_method = ''POST'',
          req_headers = [(''Authorization'', ''Bearer '' @ ''A21AA''),
                         (''Content-Type'', ''application/json'')],
          req_body = JsonBody (JObj [(''payer_id'', JStr ''P1'')])\<rparr> = Inr a"
    if "env = env_with (Some (JStr ''sandbox'')) token_response a" for env a
    unfolding that st
    by (simp_all add: env_with_fields paypalUrl_example retrieveOAuthToken_example)
  have c: "account_clientId ?acct = Some ''id''" "account_token ?acct = Some ''secret''"
          "''id'' \<noteq> []" "''secret'' \<noteq> []"
    by simp_all
  have r: "resp_status rejection = 400"
    "json_body rejection = Inr (JObj [(''name'', JStr ''PAYMENT_ALREADY_DONE''),
                                       (''message'', JStr ''Payment already done'')])"
    by (simp_all add: rejection_def)
  have e1: "env_rejecting = env_with (Some (JStr ''sandbox'')) token_response rejection"
    by (simp add: env_rejecting_def)
  have e2: "env_example = env_with (Some (JStr ''sandbox'')) token_response
              \<lparr>resp_status = 200, json_body = Inr paymentInfo_example\<rparr>"
    by (simp add: env_example_def)
  have x: "execute_request_example =
         \<lparr>req_url = ?url, req_method = ''POST'',
          req_headers = [(''Authorization'', ''Bearer '' @ ''A21AA''),
                         (''Content-Type'', ''application/json'')],
          req_body = JsonBody (JObj [(''payer_id'', JStr ''P1'')])\<rparr>"
    by (simp add: execute_request_example_def)
  from paypalRequest_response_handling[OF A(1)[OF e1] credentials_example c A(2)[OF e1] A(3)[OF e1]
         A(4)[OF e1] A(5)[OF e1]]
  have "paypalRequest env_rejecting ''payments/payment/PAY-1/execute'' (JObj [(''payer_id'', JStr ''P1'')])
        (Some host_example) state_empty
       = (Inl (Error ''PayPal payment rejected: Payment already done''),
          state_empty\<lparr>trace := [GetConnectedAccounts 7, Fetch token_request_example,
                                 Fetch execute_request_example,
                                 LoggerError ''PayPal payment failed'' rejection (json_body rejection)]\<rparr>)"
    unfolding x[symmetric] by (auto simp: r)
  moreover
  from paypalRequest_response_handling[OF A(1)[OF e2] credentials_example c A(2)[OF e2] A(3)[OF e2]
         A(4)[OF e2] A(5)[OF e2]]
  have "paypalRequest env_example ''payments/payment/PAY-1/execute'' (JObj [(''payer_id'', JStr ''P1'')])
        (Some host_example) state_empty
       = (Inr paymentInfo_example,
          state_empty\<lparr>trace := [GetConnectedAccounts 7, Fetch token_request_example,
                                 Fetch execute_request_example]\<rparr>)"
    unfolding x[symmetric] by simp
  ultimately show ?thesis using r by simp
qed

text \<open>
  Three answers of the provider at which the sentence of the specification fails. A
  status 400 with the body \<open>null\<close>, which parses as JSON: the error's message is
  \<open>PayPal payment rejected\<close> alone and the detail logged is a \<open>TypeError\<close>, not the parsed
  body. A status 400 whose body parses and has a \<open>message\<close> that does not convert to a
  string: the same. A status 204 with an empty body: nothing is returned, the parse
  failure is raised.
\<close>

theorem paypalRequest_response_counterexample:
  "resp_status rejection_null = 400 \<and> json_body rejection_null = Inr JNull
   \<and> paypalRequest (env_with (Some (JStr ''sandbox'')) token_response rejection_null)
        ''payments/payment/PAY-1/execute'' (JObj [(''payer_id'', JStr ''P1'')])
        (Some host_example) state_empty
       = (Inl (Error ''PayPal payment rejected''),
          state_empty\<lparr>trace := [GetConnectedAccounts 7, Fetch token_request_example,
                                 Fetch execute_request_example,
                                 LoggerError ''PayPal payment failed'' rejection_null
                                   (Inl (TypeError ''message''))]\<rparr>)
   \<and> resp_status rejection_odd_message = 400
   \<and> json_body rejection_odd_message
       = Inr (JObj [(''message'', JObj [(''toString'', JNum (Fin 1))])])
   \<and> paypalRequest (env_with (Some (JStr ''sandbox'')) token_response rejection_odd_message)
        ''payments/payment/PAY-1/execute'' (JObj [(''payer_id'', JStr ''P1'')])
        (Some host_example) state_empty
       = (Inl (Error ''PayPal payment rejected''),
          state_empty\<lparr>trace := [GetConnectedAccounts 7, Fetch token_request_example,
                                 Fetch execute_request_example,
                                 LoggerError ''PayPal payment failed'' rejection_odd_message
                                   (Inl (TypeError ''toString''))]\<rparr>)
   \<and> resp_status no_content = 204
   \<and> json_body no_content = Inl (SyntaxError ''Unexpected end of JSON input'')
   \<and> paypalRequest (env_with (Some (JStr ''sandbox'')) token_response no_content)
        ''payments/payment/PAY-1/execute'' (JObj [(''payer_id'', JStr ''P1'')])
        (Some host_example) state_empty
       = (Inl (SyntaxError ''Unexpected end of JSON input''),
          state_empty\<lparr>trace := [GetConnectedAccounts 7, Fetch token_request_example,
                                 Fetch execute_request_example]\<rparr>)"
proof -
  have t: "trace state_empty = []" by (simp add: state_empty_def)
  have 1: "resp_status rejection_null = 400" "json_body rejection_null = Inr JNull"
    "\<not> resp_ok rejection_null"
    by (simp_all add: rejection_null_def resp_ok_def)
  have 2: "resp_status rejection_odd_message = 400"
    "json_body rejection_odd_message
       = Inr (JObj [(''message'', JObj [(''toString'', JNum (Fin 1))])])"
    "\<not> resp_ok rejection_odd_message"
    by (simp_all add: rejection_odd_message_def resp_ok_def)
  have 3: "resp_status no_content = 204"
    "json_body no_content = Inl (SyntaxError ''Unexpected end of JSON input'')"
    "resp_ok no_content"
    by (simp_all add: no_content_def resp_ok_def)
  have a: "paypalRequest (env_with (Some (JStr ''sandbox'')) token_response rejection_null)
        ''payments/payment/PAY-1/execute'' (JObj [(''payer_id'', JStr ''P1'')])
        (Some host_example) state_empty
       = (Inl (Error ''PayPal payment rejected''),
          state_empty\<lparr>trace := [GetConnectedAccounts 7, Fetch token_request_example,
                                 Fetch execute_request_example,
                                 LoggerError ''PayPal payment failed'' rejection_null
                                   (Inl (TypeError ''message''))]\<rparr>)"
    unfolding paypalRequest_example Let_def paypalRequest_rejected_eq
    by (simp add: 1 t)
  have b: "paypalRequest (env_with (Some (JStr ''sandbox'')) token_response rejection_odd_message)
        ''payments/payment/PAY-1/execute'' (JObj [(''payer_id'', JStr ''P1'')])
        (Some host_example) state_empty
       = (Inl (Error ''PayPal payment rejected''),
          state_empty\<lparr>trace := [GetConnectedAccounts 7, Fetch token_request_example,
                                 Fetch execute_request_example,
                                 LoggerError ''PayPal payment failed'' rejection_odd_message
                                   (Inl (TypeError ''toString''))]\<rparr>)"
    unfolding paypalRequest_example Let_def paypalRequest_rejected_eq
    by (simp add: 2 t)
  have c: "paypalRequest (env_with (Some (JStr ''sandbox'')) token_response no_content)
        ''payments/payment/PAY-1/execute'' (JObj [(''payer_id'', JStr ''P1'')])
        (Some host_example) state_empty
       = (Inl (SyntaxError ''Unexpected end of JSON input''),
          state_empty\<lparr>trace := [GetConnectedAccounts 7, Fetch token_request_example,
                                 Fetch execute_request_example]\<rparr>)"
    unfolding paypalRequest_example Let_def
    by (simp add: 3 t)
  show ?thesis using 1(1,2) a 2(1,2) b 3(1,2) c by (intro conjI)
qed

subsection \<open>What the capture leaves alone\<close>

lemma extends_by_refl: "extends_by P s s"
  unfolding extends_by_def by (rule exI[of _ "[]"]) simp

lemma extends_by_trans:
  assumes "extends_by P s s'" and "extends_by P s' s''"
  shows "extends_by P s s''"
proof -
  from assms obtain evs evs' where
    "list_all P evs" "s' = s\<lparr>trace := trace s @ evs\<rparr>"
    "list_all P evs'" "s'' = s'\<lparr>trace := trace s' @ evs'\<rparr>"
    unfolding extends_by_def by blast
  then have "list_all P (evs @ evs')" "s'' = s\<lparr>trace := trace s @ (evs @ evs')\<rparr>"
    by simp_all
  then show ?thesis unfolding extends_by_def by blast
qed

lemma extends_by_one: "P ev \<Longrightarrow> extends_by P s (s\<lparr>trace := trace s @ [ev]\<rparr>)"
  unfolding extends_by_def by (rule exI[of _ "[ev]"]) simp

lemma appends_only_bind:
  assumes "appends_only P m" and "\<And>x. appends_only P (f x)"
  shows "appends_only P (io_bind m f)"
  unfolding appends_only_def
proof
  fix s
  have 1: "extends_by P s (snd (m s))" using assms(1) by (simp add: appends_only_def)
  show "extends_by P s (snd (io_bind m f s))"
  proof (cases "m s")
    case (Pair r s')
    show ?thesis
    proof (cases r)
      case (Inl e)
      then show ?thesis using 1 Pair by (simp add: io_bind_def)
    next
      case (Inr x)
      have "extends_by P s' (snd (f x s'))" using assms(2) by (simp add: appends_only_def)
      then show ?thesis using 1 Pair Inr by (auto simp: io_bind_def intro: extends_by_trans)
    qed
  qed
qed

lemma appends_only_lift [simp]: "appends_only P (io_lift r)"
  by (simp add: appends_only_def extends_by_refl)

lemma appends_only_return [simp]: "appends_only P (io_return x)"
  by (simp add: appends_only_def extends_by_refl)

lemma appends_only_throw [simp]: "appends_only P (io_throw e)"
  by (simp add: appends_only_def extends_by_refl)

lemma appends_only_emit: "P ev \<Longrightarrow> appends_only P (emit ev)"
  by (simp add: appends_only_def emit_def extends_by_one)

lemma appends_only_fetch: "P (Fetch req) \<Longrightarrow> appends_only P (fetch env req)"
  by (simp add: appends_only_def fetch_def extends_by_one)

lemma appends_only_db_call: "P ev \<Longrightarrow> appends_only P (db_call env ev)"
  by (simp add: appends_only_def db_call_def extends_by_one)

lemma appends_only_retrieveOAuthToken:
  "appends_only is_capture_event (retrieveOAuthToken env clientId clientSecret)"
  unfolding retrieveOAuthToken_def Let_def
  by (intro appends_only_bind appends_only_lift appends_only_fetch) simp

lemma appends_only_paypalRequest_rejected:
  "appends_only is_capture_event (paypalRequest_rejected env result)"
  unfolding paypalRequest_rejected_def Let_def
  by (auto split: sum.splits intro!: appends_only_bind appends_only_emit)

lemma appends_only_getConnectedAccounts:
  "appends_only is_capture_event (getConnectedAccounts env host)"
  unfolding getConnectedAccounts_def
  by (intro appends_only_bind appends_only_db_call appends_only_return) simp

lemma appends_only_paypalRequest:
  "appends_only is_capture_event (paypalRequest env urlPath body hostCollective)"
  unfolding paypalRequest_def Let_def
  by (auto split: option.splits list.splits
        intro!: appends_only_bind appends_only_getConnectedAccounts appends_only_fetch
          appends_only_retrieveOAuthToken appends_only_paypalRequest_rejected)

lemma appends_only_executePayment:
  "appends_only is_capture_event (executePayment env order)"
  unfolding executePayment_def getHostCollective_def
  by (intro appends_only_bind appends_only_db_call appends_only_return appends_only_lift
        appends_only_paypalRequest) simp

lemma executePayment_extends:
  obtains capture where "list_all is_capture_event capture"
    and "snd (executePayment env order s) = s\<lparr>trace := trace s @ capture\<rparr>"
  using appends_only_executePayment[of env order]
  unfolding appends_only_def extends_by_def by blast

subsection \<open>processOrder, step by step\<close>

lemma order_update_eq:
  "io_bind (order_update env order t) f s =
     (case db_fault env (trace s) (OrderUpdate (order_id order) t) of
        Some e \<Rightarrow> (Inl e, s\<lparr>trace := trace s @ [OrderUpdate (order_id order) t]\<rparr>)
      | None \<Rightarrow> f () (s\<lparr>trace := trace s @ [OrderUpdate (order_id order) t],
                         processedAt := (processedAt s)(order_id order \<mapsto> t)\<rparr>))"
  by (simp add: order_update_def io_bind_def db_call_def split: option.splits)

lemma paymentMethod_update_eq:
  "io_bind (paymentMethod_update env pm t) f s =
     (case db_fault env (trace s) (PaymentMethodUpdate (paymentMethod_id pm) t) of
        Some e \<Rightarrow> (Inl e, s\<lparr>trace := trace s @ [PaymentMethodUpdate (paymentMethod_id pm) t]\<rparr>)
      | None \<Rightarrow> f () (s\<lparr>trace := trace s @ [PaymentMethodUpdate (paymentMethod_id pm) t],
                         confirmedAt := (confirmedAt s)(paymentMethod_id pm \<mapsto> t)\<rparr>))"
  by (simp add: paymentMethod_update_def io_bind_def db_call_def split: option.splits)

lemma processOrder_capture_fails:
  assumes "fst (executePayment env order s) = Inl e"
  shows "processOrder env order s = (Inl e, snd (executePayment env order s))"
  using assms by (cases "executePayment env order s") (simp add: processOrder_def io_bind_def)

lemma processOrder_after_capture:
  assumes "executePayment env order s = (Inr paymentInfo, s1)"
  shows "processOrder env order s =
     (case createTransaction env order paymentInfo
             (s1\<lparr>trace := trace s1 @ [LoggerInfo (Inl ''PayPal Payment''),
                                       LoggerInfo (Inr paymentInfo)]\<rparr>) of
        (Inl e, s3) \<Rightarrow> (Inl e, s3)
      | (Inr tx, s3) \<Rightarrow>
          (case db_fault env (trace s3) (OrderUpdate (order_id order) (new_Date env (trace s3))) of
             Some e \<Rightarrow> (Inl e, s3\<lparr>trace := trace s3 @
                                  [OrderUpdate (order_id order) (new_Date env (trace s3))]\<rparr>)
           | None \<Rightarrow>
               (let s4 = s3\<lparr>trace := trace s3 @
                                  [OrderUpdate (order_id order) (new_Date env (trace s3))],
                            processedAt := (processedAt s3)
                               (order_id order \<mapsto> new_Date env (trace s3))\<rparr>;
                    ev = PaymentMethodUpdate (paymentMethod_id (order_paymentMethod order))
                           (new_Date env (trace s4))
                in case db_fault env (trace s4) ev of
                     Some e \<Rightarrow> (Inl e, s4\<lparr>trace := trace s4 @ [ev]\<rparr>)
                   | None \<Rightarrow>
                       (Inr tx, s4\<lparr>trace := trace s4 @ [ev],
                                   confirmedAt := (confirmedAt s4)
                                      (paymentMethod_id (order_paymentMethod order)
                                         \<mapsto> new_Date env (trace s4))\<rparr>))))"
  unfolding processOrder_def
  by (simp add: io_bind_apply[of "executePayment _ _"] io_bind_apply[of "createTransaction _ _ _"]
        assms order_update_eq paymentMethod_update_eq Let_def
        split: prod.splits sum.splits option.splits)

lemma createTransaction_Inl:
  assumes "fst (createTransaction env order paymentInfo s) = Inl e"
  shows "transactions (snd (createTransaction env order paymentInfo s)) = transactions s"
    and "processedAt (snd (createTransaction env order paymentInfo s)) = processedAt s"
    and "confirmedAt (snd (createTransaction env order paymentInfo s)) = confirmedAt s"
  using assms
  by (auto simp: createTransaction_def createFromPayload_eq io_bind_def io_lift_def
        split: sum.splits option.splits prod.splits)

lemma processOrder_cases:
  fixes env order s
  defines "pm \<equiv> paymentMethod_id (order_paymentMethod order)"
  obtains
    (capture_failed) e capture where
      "fst (executePayment env order s) = Inl e"
      "list_all is_capture_event capture"
      "processOrder env order s = (Inl e, s\<lparr>trace := trace s @ capture\<rparr>)"
  | (creation_failed) e paymentInfo capture s3 where
      "list_all is_capture_event capture"
      "executePayment env order s = (Inr paymentInfo, s\<lparr>trace := trace s @ capture\<rparr>)"
      "createTransaction env order paymentInfo
         (s\<lparr>trace := trace s @ capture @ [LoggerInfo (Inl ''PayPal Payment''),
                                           LoggerInfo (Inr paymentInfo)]\<rparr>) = (Inl e, s3)"
      "processOrder env order s = (Inl e, s3)"
      "transactions s3 = transactions s" "processedAt s3 = processedAt s"
      "confirmedAt s3 = confirmedAt s"
  | (created) e paymentInfo capture tx t1 t2 where
      "list_all is_capture_event capture"
      "executePayment env order s = (Inr paymentInfo, s\<lparr>trace := trace s @ capture\<rparr>)"
      "fst (createTransaction env order paymentInfo
         (s\<lparr>trace := trace s @ capture @ [LoggerInfo (Inl ''PayPal Payment''),
                                           LoggerInfo (Inr paymentInfo)]\<rparr>)) = Inr tx"
      "processOrder env order s =
         (Inl e, s\<lparr>trace := trace s @ capture @
                      [LoggerInfo (Inl ''PayPal Payment''), LoggerInfo (Inr paymentInfo),
                       CreateFromPayload tx, OrderUpdate (order_id order) t1],
                    transactions := transactions s @ [tx]\<rparr>)
       \<or> processOrder env order s =
         (Inl e, s\<lparr>trace := trace s @ capture @
                      [LoggerInfo (Inl ''PayPal Payment''), LoggerInfo (Inr paymentInfo),
                       CreateFromPayload tx, OrderUpdate (order_id order) t1,
                       PaymentMethodUpdate pm t2],
                    transactions := transactions s @ [tx],
                    processedAt := (processedAt s)(order_id order \<mapsto> t1)\<rparr>)
       \<or> processOrder env order s =
         (Inr tx, s\<lparr>trace := trace s @ capture @
                      [LoggerInfo (Inl ''PayPal Payment''), LoggerInfo (Inr paymentInfo),
                       CreateFromPayload tx, OrderUpdate (order_id order) t1,
                       PaymentMethodUpdate pm t2],
                    transactions := transactions s @ [tx],
                    processedAt := (processedAt s)(order_id order \<mapsto> t1),
                    confirmedAt := (confirmedAt s)(pm \<mapsto> t2)\<rparr>)"
proof -
  obtain capture where cap: "list_all is_capture_event capture"
    and s1: "snd (executePayment env order s) = s\<lparr>trace := trace s @ capture\<rparr>"
    by (rule executePayment_extends)
  show ?thesis
  proof (cases "fst (executePayment env order s)")
    case (Inl e)
    then show ?thesis
      using capture_failed[OF Inl cap] processOrder_capture_fails[OF Inl] s1 by simp
  next
    case (Inr paymentInfo)
    let ?s1 = "s\<lparr>trace := trace s @ capture\<rparr>"
    let ?s2 = "s\<lparr>trace := trace s @ capture @ [LoggerInfo (Inl ''PayPal Payment''),
                                               LoggerInfo (Inr paymentInfo)]\<rparr>"
    have ep: "executePayment env order s = (Inr paymentInfo, ?s1)"
      using Inr s1 by (cases "executePayment env order s") simp
    have s2: "?s1\<lparr>trace := trace ?s1 @ [LoggerInfo (Inl ''PayPal Payment''),
                                         LoggerInfo (Inr paymentInfo)]\<rparr> = ?s2"
      by simp
    note po = processOrder_after_capture[OF ep, unfolded s2]
    show ?thesis
    proof (cases "fst (createTransaction env order paymentInfo ?s2)")
      case (Inl e)
      obtain s3 where ct: "createTransaction env order paymentInfo ?s2 = (Inl e, s3)"
        using Inl by (cases "createTransaction env order paymentInfo ?s2") simp
      have "transactions s3 = transactions s" "processedAt s3 = processedAt s"
           "confirmedAt s3 = confirmedAt s"
        using createTransaction_Inl[OF Inl] ct by simp_all
      moreover have "processOrder env order s = (Inl e, s3)"
        by (simp add: po ct)
      ultimately show ?thesis using creation_failed[OF cap ep ct] by blast
    next
      case (Inr tx)
      from createTransaction_Inr[OF Inr]
      have s3: "snd (createTransaction env order paymentInfo ?s2) =
                  ?s2\<lparr>trace := trace ?s2 @ [CreateFromPayload tx],
                      transactions := transactions ?s2 @ [tx]\<rparr>"
        by blast
      let ?s3 = "s\<lparr>trace := trace s @ capture @ [LoggerInfo (Inl ''PayPal Payment''),
                    LoggerInfo (Inr paymentInfo), CreateFromPayload tx],
                  transactions := transactions s @ [tx]\<rparr>"
      have ct: "createTransaction env order paymentInfo ?s2 = (Inr tx, ?s3)"
        using Inr s3 by (cases "createTransaction env order paymentInfo ?s2") simp
      let ?t1 = "new_Date env (trace ?s3)"
      let ?t2 = "new_Date env (trace ?s3 @ [OrderUpdate (order_id order) ?t1])"
      have "processOrder env order s =
         (Inl e, s\<lparr>trace := trace s @ capture @
                      [LoggerInfo (Inl ''PayPal Payment''), LoggerInfo (Inr paymentInfo),
                       CreateFromPayload tx, OrderUpdate (order_id order) ?t1],
                    transactions := transactions s @ [tx]\<rparr>)
       \<or> processOrder env order s =
         (Inl e, s\<lparr>trace := trace s @ capture @
                      [LoggerInfo (Inl ''PayPal Payment''), LoggerInfo (Inr paymentInfo),
                       CreateFromPayload tx, OrderUpdate (order_id order) ?t1,
                       PaymentMethodUpdate pm ?t2],
                    transactions := transactions s @ [tx],
                    processedAt := (processedAt s)(order_id order \<mapsto> ?t1)\<rparr>)
       \<or> processOrder env order s =
         (Inr tx, s\<lparr>trace := trace s @ capture @
                      [LoggerInfo (Inl ''PayPal Payment''), LoggerInfo (Inr paymentInfo),
                       CreateFromPayload tx, OrderUpdate (order_id order) ?t1,
                       PaymentMethodUpdate pm ?t2],
                    transactions := transactions s @ [tx],
                    processedAt := (processedAt s)(order_id order \<mapsto> ?t1),
                    confirmedAt := (confirmedAt s)(pm \<mapsto> ?t2)\<rparr>)"
        if "e = (case db_fault env (trace ?s3) (OrderUpdate (order_id order) ?t1) of
                   Some e \<Rightarrow> e
                 | None \<Rightarrow>
                     (case db_fault env (trace ?s3 @ [OrderUpdate (order_id order) ?t1])
                             (PaymentMethodUpdate pm ?t2) of
                        Some e \<Rightarrow> e | None \<Rightarrow> undefined))" for e
        using that by (simp add: po ct Let_def pm_def split: option.splits)
      then show ?thesis using created[OF cap ep Inr] by blast
    qed
  qed
qed

lemma processOrder_Inr:
  assumes "fst (processOrder env order s) = Inr tx"
  obtains capture paymentInfo t1 t2 where
    "list_all is_capture_event capture"
    "executePayment env order s = (Inr paymentInfo, s\<lparr>trace := trace s @ capture\<rparr>)"
    "fst (createTransaction env order paymentInfo
            (s\<lparr>trace := trace s @ capture @ [LoggerInfo (Inl ''PayPal Payment''),
                                              LoggerInfo (Inr paymentInfo)]\<rparr>)) = Inr tx"
    "snd (processOrder env order s) =
       s\<lparr>trace := trace s @ capture @
             [LoggerInfo (Inl ''PayPal Payment''), LoggerInfo (Inr paymentInfo),
              CreateFromPayload tx, OrderUpdate (order_id order) t1,
              PaymentMethodUpdate (paymentMethod_id (order_paymentMethod order)) t2],
         transactions := transactions s @ [tx],
         processedAt := (processedAt s)(order_id order \<mapsto> t1),
         confirmedAt := (confirmedAt s)(paymentMethod_id (order_paymentMethod order) \<mapsto> t2)\<rparr>"
proof (cases rule: processOrder_cases[of env order s])
  case (capture_failed e capture)
  then show ?thesis using assms by simp
next
  case (creation_failed e paymentInfo capture s3)
  then show ?thesis using assms by simp
next
  case (created e paymentInfo capture tx' t1 t2)
  from created(4) assms have tx: "tx' = tx"
    and st: "snd (processOrder env order s) =
       s\<lparr>trace := trace s @ capture @
             [LoggerInfo (Inl ''PayPal Payment''), LoggerInfo (Inr paymentInfo),
              CreateFromPayload tx', OrderUpdate (order_id order) t1,
              PaymentMethodUpdate (paymentMethod_id (order_paymentMethod order)) t2],
         transactions := transactions s @ [tx'],
         processedAt := (processedAt s)(order_id order \<mapsto> t1),
         confirmedAt := (confirmedAt s)(paymentMethod_id (order_paymentMethod order) \<mapsto> t2)\<rparr>"
    by auto
  show ?thesis using that[OF created(1,2)] created(3) st unfolding tx by blast
qed

text \<open>
  C9. \<open>processOrder\<close> runs its steps in sequence. When it returns a Transaction, the
  effects are, in this order: the capture (\<open>executePayment\<close>), the two log entries, the
  write of that Transaction, the update of \<open>Order.processedAt\<close>, the update of
  \<open>PaymentMethod.confirmedAt\<close>; the Transaction returned is the one persisted. When the
  capture or the creation of the Transaction fails, \<open>processOrder\<close> fails with the same
  error and neither timestamp is set. In every run, a timestamp that changed was set
  after the Transaction was persisted, and \<open>confirmedAt\<close> only after \<open>processedAt\<close>.
\<close>

theorem processOrder_sequence:
  "(\<forall>tx. fst (processOrder env order s) = Inr tx \<longrightarrow>
      (\<exists>capture paymentInfo t1 t2.
         list_all is_capture_event capture
         \<and> executePayment env order s = (Inr paymentInfo, s\<lparr>trace := trace s @ capture\<rparr>)
         \<and> fst (createTransaction env order paymentInfo
                  (s\<lparr>trace := trace s @ capture @ [LoggerInfo (Inl ''PayPal Payment''),
                                                    LoggerInfo (Inr paymentInfo)]\<rparr>)) = Inr tx
         \<and> snd (processOrder env order s) =
             s\<lparr>trace := trace s @ capture @
                   [LoggerInfo (Inl ''PayPal Payment''), LoggerInfo (Inr paymentInfo),
                    CreateFromPayload tx, OrderUpdate (order_id order) t1,
                    PaymentMethodUpdate (paymentMethod_id (order_paymentMethod order)) t2],
               transactions := transactions s @ [tx],
               processedAt := (processedAt s)(order_id order \<mapsto> t1),
               confirmedAt := (confirmedAt s)(paymentMethod_id (order_paymentMethod order) \<mapsto> t2)\<rparr>))
   \<and> (\<forall>e. fst (executePayment env order s) = Inl e \<longrightarrow>
         fst (processOrder env order s) = Inl e
         \<and> transactions (snd (processOrder env order s)) = transactions s
         \<and> processedAt (snd (processOrder env order s)) = processedAt s
         \<and> confirmedAt (snd (processOrder env order s)) = confirmedAt s)
   \<and> (\<forall>paymentInfo s1 e.
         executePayment env order s = (Inr paymentInfo, s1)
         \<and> fst (createTransaction env order paymentInfo
                  (s1\<lparr>trace := trace s1 @ [LoggerInfo (Inl ''PayPal Payment''),
                                            LoggerInfo (Inr paymentInfo)]\<rparr>)) = Inl e \<longrightarrow>
         fst (processOrder env order s) = Inl e
         \<and> transactions (snd (processOrder env order s)) = transactions s
         \<and> processedAt (snd (processOrder env order s)) = processedAt s
         \<and> confirmedAt (snd (processOrder env order s)) = confirmedAt s)
   \<and> (processedAt (snd (processOrder env order s)) \<noteq> processedAt s
        \<or> confirmedAt (snd (processOrder env order s)) \<noteq> confirmedAt s \<longrightarrow>
         (\<exists>tx before after t1.
            trace (snd (processOrder env order s)) =
              before @ [CreateFromPayload tx, OrderUpdate (order_id order) t1] @ after
            \<and> transactions (snd (processOrder env order s)) = transactions s @ [tx]
            \<and> processedAt (snd (processOrder env order s)) (order_id order) = Some t1))"
proof (cases rule: processOrder_cases[of env order s])
  case (capture_failed e capture)
  then show ?thesis by auto
next
  case (creation_failed e paymentInfo capture s3)
  then show ?thesis by auto
next
  case (created e paymentInfo capture tx t1 t2)
  let ?pre = "trace s @ capture @ [LoggerInfo (Inl ''PayPal Payment''), LoggerInfo (Inr paymentInfo)]"
  have shape: "\<exists>before after.
      trace s @ capture @ [LoggerInfo (Inl ''PayPal Payment''), LoggerInfo (Inr paymentInfo),
                           CreateFromPayload tx, OrderUpdate (order_id order) t1] @ rest
        = before @ [CreateFromPayload tx, OrderUpdate (order_id order) t1] @ after" for rest
    by (rule exI[of _ ?pre], rule exI[of _ rest]) simp
  from created(4) show ?thesis
  proof (elim disjE)
    assume po: "processOrder env order s =
         (Inl e, s\<lparr>trace := trace s @ capture @
                      [LoggerInfo (Inl ''PayPal Payment''), LoggerInfo (Inr paymentInfo),
                       CreateFromPayload tx, OrderUpdate (order_id order) t1],
                    transactions := transactions s @ [tx]\<rparr>)"
    show ?thesis using created(2,3) by (auto simp: po)
  next
    assume po: "processOrder env order s =
         (Inl e, s\<lparr>trace := trace s @ capture @
                      [LoggerInfo (Inl ''PayPal Payment''), LoggerInfo (Inr paymentInfo),
                       CreateFromPayload tx, OrderUpdate (order_id order) t1,
                       PaymentMethodUpdate (paymentMethod_id (order_paymentMethod order)) t2],
                    transactions := transactions s @ [tx],
                    processedAt := (processedAt s)(order_id order \<mapsto> t1)\<rparr>)"
    show ?thesis
      using created(2,3) shape[of "[PaymentMethodUpdate (paymentMethod_id (order_paymentMethod order)) t2]"]
      by (auto simp: po)
  next
    assume po: "processOrder env order s =
         (Inr tx, s\<lparr>trace := trace s @ capture @
                      [LoggerInfo (Inl ''PayPal Payment''), LoggerInfo (Inr paymentInfo),
                       CreateFromPayload tx, OrderUpdate (order_id order) t1,
                       PaymentMethodUpdate (paymentMethod_id (order_paymentMethod order)) t2],
                    transactions := transactions s @ [tx],
                    processedAt := (processedAt s)(order_id order \<mapsto> t1),
                    confirmedAt := (confirmedAt s)(paymentMethod_id (order_paymentMethod order) \<mapsto> t2)\<rparr>)"
    have 1: "\<exists>capture' paymentInfo' t1' t2'.
         list_all is_capture_event capture'
         \<and> executePayment env order s = (Inr paymentInfo', s\<lparr>trace := trace s @ capture'\<rparr>)
         \<and> fst (createTransaction env order paymentInfo'
                  (s\<lparr>trace := trace s @ capture' @ [LoggerInfo (Inl ''PayPal Payment''),
                                                    LoggerInfo (Inr paymentInfo')]\<rparr>)) = Inr tx
         \<and> snd (processOrder env order s) =
             s\<lparr>trace := trace s @ capture' @
                   [LoggerInfo (Inl ''PayPal Payment''), LoggerInfo (Inr paymentInfo'),
                    CreateFromPayload tx, OrderUpdate (order_id order) t1',
                    PaymentMethodUpdate (paymentMethod_id (order_paymentMethod order)) t2'],
               transactions := transactions s @ [tx],
               processedAt := (processedAt s)(order_id order \<mapsto> t1'),
               confirmedAt := (confirmedAt s)(paymentMethod_id (order_paymentMethod order) \<mapsto> t2')\<rparr>"
      using created(1,2,3) by (intro exI[of _ capture] exI[of _ paymentInfo] exI[of _ t1] exI[of _ t2])
        (simp add: po)
    show ?thesis
      using 1 created(2,3) shape[of "[PaymentMethodUpdate (paymentMethod_id (order_paymentMethod order)) t2]"]
      by (auto simp: po)
  qed
qed

subsection \<open>The scenario, from any state\<close>

lemma executePayment_example:
  "executePayment env_example order_example s =
     (Inr paymentInfo_example, s\<lparr>trace := trace s @ capture_events_example\<rparr>)"
proof -
  have d: "paymentMethod_data (order_paymentMethod order_example) =
             Some (JObj [(''paymentID'', JStr ''PAY-1''), (''payerID'', JStr ''P1'')])"
    and c: "collective_id (order_collective order_example) = 4"
           "collective_host (order_collective order_example) = Some host_example"
    by (simp_all add: order_example_def order_for_def)
  have ok: "resp_ok \<lparr>resp_status = 200, json_body = Inr paymentInfo_example\<rparr>"
    by (simp add: resp_ok_def)
  show ?thesis
    unfolding executePayment_def getHostCollective_eq d c
    by (simp add: env_example_def env_with_fields paypalRequest_example Let_def ok
          capture_events_example_def)
qed

lemma processOrder_example:
  "processOrder env_example order_example s =
     (Inr transaction_example,
      s\<lparr>trace := trace s @ capture_events_example @
            [LoggerInfo (Inl ''PayPal Payment''), LoggerInfo (Inr paymentInfo_example),
             CreateFromPayload transaction_example,
             OrderUpdate 1 (length (trace s) + 7), PaymentMethodUpdate 5 (length (trace s) + 8)],
        transactions := transactions s @ [transaction_example],
        processedAt := (processedAt s)(1 \<mapsto> length (trace s) + 7),
        confirmedAt := (confirmedAt s)(5 \<mapsto> length (trace s) + 8)\<rparr>)"
proof -
  have i: "order_id order_example = 1" "paymentMethod_id (order_paymentMethod order_example) = 5"
    by (simp_all add: order_example_def order_for_def)
  have n: "new_Date env_example h = length h" for h
    by (simp add: env_example_def env_with_fields)
  show ?thesis
    unfolding processOrder_after_capture[OF executePayment_example] createTransaction_example_from
    by (auto simp: i n Let_def capture_events_example_def intro!: state.equality)
qed

text \<open>The scenario: the nine effects of a successful run, in their order.\<close>

theorem processOrder_sequence_witness:
  "fst (processOrder env_example order_example state_empty) = Inr transaction_example
   \<and> trace (snd (processOrder env_example order_example state_empty)) =
       [GetHostCollective 4, GetConnectedAccounts 7, Fetch token_request_example,
        Fetch execute_request_example,
        LoggerInfo (Inl ''PayPal Payment''), LoggerInfo (Inr paymentInfo_example),
        CreateFromPayload transaction_example, OrderUpdate 1 7, PaymentMethodUpdate 5 8]
   \<and> transactions (snd (processOrder env_example order_example state_empty)) = [transaction_example]
   \<and> processedAt (snd (processOrder env_example order_example state_empty)) 1 = Some 7
   \<and> confirmedAt (snd (processOrder env_example order_example state_empty)) 5 = Some 8
   \<and> (\<exists>capture paymentInfo.
         executePayment env_example order_example state_empty =
           (Inr paymentInfo, state_empty\<lparr>trace := trace state_empty @ capture\<rparr>)
         \<and> fst (createTransaction env_example order_example paymentInfo
                  (state_empty\<lparr>trace := trace state_empty @ capture @
                       [LoggerInfo (Inl ''PayPal Payment''), LoggerInfo (Inr paymentInfo)]\<rparr>))
             = Inr transaction_example)"
proof -
  have run: "fst (processOrder env_example order_example state_empty) = Inr transaction_example"
    by (simp add: processOrder_example)
  have st: "trace (snd (processOrder env_example order_example state_empty)) =
       [GetHostCollective 4, GetConnectedAccounts 7, Fetch token_request_example,
        Fetch execute_request_example,
        LoggerInfo (Inl ''PayPal Payment''), LoggerInfo (Inr paymentInfo_example),
        CreateFromPayload transaction_example, OrderUpdate 1 7, PaymentMethodUpdate 5 8]"
    "transactions (snd (processOrder env_example order_example state_empty)) = [transaction_example]"
    "processedAt (snd (processOrder env_example order_example state_empty)) 1 = Some 7"
    "confirmedAt (snd (processOrder env_example order_example state_empty)) 5 = Some 8"
    by (simp_all add: processOrder_example state_empty_def capture_events_example_def)
  from processOrder_sequence[of env_example order_example state_empty] run
  obtain capture paymentInfo where
    "executePayment env_example order_example state_empty =
           (Inr paymentInfo, state_empty\<lparr>trace := trace state_empty @ capture\<rparr>)"
    "fst (createTransaction env_example order_example paymentInfo
                  (state_empty\<lparr>trace := trace state_empty @ capture @
                       [LoggerInfo (Inl ''PayPal Payment''), LoggerInfo (Inr paymentInfo)]\<rparr>))
             = Inr transaction_example"
    by blast
  then show ?thesis using run st by blast
qed

subsection \<open>processOrder never reads processedAt\<close>

lemma ignores_bind:
  assumes "ignores_processedAt m" and "\<And>x. ignores_processedAt (f x)"
  shows "ignores_processedAt (io_bind m f)"
  unfolding ignores_processedAt_def
proof (intro allI impI)
  fix s t assume st: "same_but_processedAt s t"
  then have 1: "fst (m s) = fst (m t)" and 2: "same_but_processedAt (snd (m s)) (snd (m t))"
    using assms(1) by (simp_all add: ignores_processedAt_def)
  obtain r s' where ms: "m s = (r, s')" by (cases "m s")
  obtain r' t' where mt: "m t = (r', t')" by (cases "m t")
  have r: "r' = r" and st': "same_but_processedAt s' t'" using 1 2 ms mt by simp_all
  show "fst (io_bind m f s) = fst (io_bind m f t) \<and>
        same_but_processedAt (snd (io_bind m f s)) (snd (io_bind m f t))"
  proof (cases r)
    case (Inl e)
    then show ?thesis using st' by (simp add: io_bind_def ms mt r)
  next
    case (Inr x)
    have "fst (f x s') = fst (f x t') \<and> same_but_processedAt (snd (f x s')) (snd (f x t'))"
      using assms(2)[of x] st' by (simp add: ignores_processedAt_def)
    then show ?thesis using Inr by (simp add: io_bind_def ms mt r)
  qed
qed

lemma ignores_basic [simp]:
  "ignores_processedAt (io_lift r)"
  "ignores_processedAt (io_return x)"
  "ignores_processedAt (io_throw e)"
  "ignores_processedAt (emit ev)"
  "ignores_processedAt (fetch env req)"
  "ignores_processedAt (db_call env ev)"
  "ignores_processedAt (current_Date env)"
  by (simp_all add: ignores_processedAt_def same_but_processedAt_def io_lift_def io_return_def
        io_throw_def emit_def fetch_def db_call_def current_Date_def)

lemma ignores_writes [simp]:
  "ignores_processedAt (createFromPayload env p)"
  "ignores_processedAt (order_update env order t)"
  "ignores_processedAt (paymentMethod_update env pm t)"
  by (simp_all add: ignores_processedAt_def same_but_processedAt_def createFromPayload_def
        order_update_def paymentMethod_update_def io_bind_def db_call_def split: option.splits)

lemma ignores_retrieveOAuthToken [simp]:
  "ignores_processedAt (retrieveOAuthToken env clientId clientSecret)"
  unfolding retrieveOAuthToken_def Let_def
  by (intro ignores_bind ignores_basic)

lemma ignores_paypalRequest_rejected [simp]:
  "ignores_processedAt (paypalRequest_rejected env result)"
  unfolding paypalRequest_rejected_def Let_def
  by (auto split: sum.splits intro!: ignores_bind)

lemma ignores_paypalRequest [simp]:
  "ignores_processedAt (paypalRequest env urlPath body hostCollective)"
  unfolding paypalRequest_def Let_def getConnectedAccounts_def
  by (auto split: option.splits list.splits intro!: ignores_bind)

lemma ignores_executePayment [simp]:
  "ignores_processedAt (executePayment env order)"
  unfolding executePayment_def getHostCollective_def
  by (intro ignores_bind ignores_basic ignores_paypalRequest)

lemma ignores_createTransaction [simp]:
  "ignores_processedAt (createTransaction env order paymentInfo)"
  unfolding createTransaction_def
  by (intro ignores_bind ignores_basic ignores_writes)

lemma ignores_processOrder:
  "ignores_processedAt (processOrder env order)"
  unfolding processOrder_def
  by (intro ignores_bind ignores_basic ignores_writes ignores_executePayment
        ignores_createTransaction)

text \<open>
  C4, as the code has it. Every invocation of \<open>processOrder\<close> that succeeds appends
  exactly one Transaction for the Order, and \<open>processOrder\<close> never reads
  \<open>processedAt\<close>: whatever that column holds, the outcome and the Transactions written
  are the same. So a second invocation on a processed Order creates a second
  Transaction whenever the provider captures again.
\<close>

theorem processOrder_one_transaction_per_invocation:
  "(\<forall>tx. fst (processOrder env order s) = Inr tx \<longrightarrow>
      transactions (snd (processOrder env order s)) = transactions s @ [tx]
      \<and> OrderId (payload_transaction tx) = order_id order)
   \<and> fst (processOrder env order (s\<lparr>processedAt := p\<rparr>)) = fst (processOrder env order s)
   \<and> transactions (snd (processOrder env order (s\<lparr>processedAt := p\<rparr>)))
       = transactions (snd (processOrder env order s))"
proof -
  have one: "\<forall>tx. fst (processOrder env order s) = Inr tx \<longrightarrow>
      transactions (snd (processOrder env order s)) = transactions s @ [tx]
      \<and> OrderId (payload_transaction tx) = order_id order"
  proof (intro allI impI)
    fix tx assume ok: "fst (processOrder env order s) = Inr tx"
    show "transactions (snd (processOrder env order s)) = transactions s @ [tx]
          \<and> OrderId (payload_transaction tx) = order_id order"
    proof (rule processOrder_Inr[OF ok])
      fix capture paymentInfo t1 t2
      assume ct: "fst (createTransaction env order paymentInfo
                  (s\<lparr>trace := trace s @ capture @ [LoggerInfo (Inl ''PayPal Payment''),
                                                    LoggerInfo (Inr paymentInfo)]\<rparr>)) = Inr tx"
        and st: "snd (processOrder env order s) =
             s\<lparr>trace := trace s @ capture @
                   [LoggerInfo (Inl ''PayPal Payment''), LoggerInfo (Inr paymentInfo),
                    CreateFromPayload tx, OrderUpdate (order_id order) t1,
                    PaymentMethodUpdate (paymentMethod_id (order_paymentMethod order)) t2],
               transactions := transactions s @ [tx],
               processedAt := (processedAt s)(order_id order \<mapsto> t1),
               confirmedAt := (confirmedAt s)(paymentMethod_id (order_paymentMethod order) \<mapsto> t2)\<rparr>"
      have 1: "transactions (snd (processOrder env order s)) = transactions s @ [tx]"
        by (simp add: st)
      from createTransaction_Inr[OF ct] obtain captured fee cur where
        "tx = createTransaction_payload env order paymentInfo captured fee cur" by blast
      then have 2: "OrderId (payload_transaction tx) = order_id order"
        by (simp add: payload_fields)
      show ?thesis using 1 2 by (rule conjI)
    qed
  qed
  have same: "same_but_processedAt (s\<lparr>processedAt := p\<rparr>) s"
    by (simp add: same_but_processedAt_def)
  have "same_but_processedAt (s\<lparr>processedAt := p\<rparr>) s \<longrightarrow>
        fst (processOrder env order (s\<lparr>processedAt := p\<rparr>)) = fst (processOrder env order s)
        \<and> same_but_processedAt (snd (processOrder env order (s\<lparr>processedAt := p\<rparr>)))
                                 (snd (processOrder env order s))"
    using ignores_processOrder[of env order] unfolding ignores_processedAt_def by (elim allE)
  then have both: "fst (processOrder env order (s\<lparr>processedAt := p\<rparr>)) = fst (processOrder env order s)"
    "transactions (snd (processOrder env order (s\<lparr>processedAt := p\<rparr>)))
           = transactions (snd (processOrder env order s))"
    using same by (simp_all add: same_but_processedAt_def)
  show ?thesis by (intro conjI one both)
qed

theorem processOrder_one_transaction_per_invocation_witness:
  "fst (processOrder env_example order_example state_empty) = Inr transaction_example
   \<and> transactions (snd (processOrder env_example order_example state_empty))
       = transactions state_empty @ [transaction_example]
   \<and> OrderId (payload_transaction transaction_example) = order_id order_example
   \<and> fst (processOrder env_example order_example (state_empty\<lparr>processedAt := (\<lambda>id. Some 0)\<rparr>))
       = Inr transaction_example
   \<and> transactions (snd (processOrder env_example order_example
                           (state_empty\<lparr>processedAt := (\<lambda>id. Some 0)\<rparr>))) = [transaction_example]"
proof -
  have run: "fst (processOrder env_example order_example state_empty) = Inr transaction_example"
    by (simp add: processOrder_example)
  have e: "transactions state_empty = []" by (simp add: state_empty_def)
  show ?thesis
    using processOrder_one_transaction_per_invocation[of env_example order_example state_empty
            "\<lambda>id. Some 0"] run
    by (simp add: e)
qed

theorem processOrder_twice_counterexample:
  "fst (processOrder env_example order_example state_empty) = Inr transaction_example
   \<and> processedAt (snd (processOrder env_example order_example state_empty)) (order_id order_example)
       = Some 7
   \<and> fst (processOrder env_example order_example
            (snd (processOrder env_example order_example state_empty))) = Inr transaction_example
   \<and> transactions (snd (processOrder env_example order_example
                           (snd (processOrder env_example order_example state_empty))))
       = [transaction_example, transaction_example]
   \<and> OrderId (payload_transaction transaction_example) = order_id order_example"
proof -
  have "OrderId (payload_transaction transaction_example) = order_id order_example"
    by (simp add: transaction_example_def order_example_def order_for_def)
  moreover have "order_id order_example = 1"
    by (simp add: order_example_def order_for_def)
  ultimately show ?thesis
    unfolding processOrder_example by (simp add: state_empty_def)
qed

end
